theory Spec2Isabelle
  imports Main
begin

section \<open>Online DDL executor: durations and error values\<close>

text \<open>
  Go's \<open>time.Duration\<close> is a signed 64-bit count of nanoseconds. The functions below only
  compare durations and never add or multiply them, so a duration is modelled as an
  \<open>int\<close> of nanoseconds; every 64-bit value is such an \<open>int\<close>.
\<close>

type_synonym Duration = int

definition Millisecond :: Duration where
  "Millisecond = 1000000"

definition Second :: Duration where
  "Second = 1000000000"

definition Minute :: Duration where
  "Minute = 60 * Second"

text \<open>The gRPC status codes that the executor attaches to its errors.\<close>

datatype Code =
    Code_UNKNOWN
  | Code_INVALID_ARGUMENT
  | Code_NOT_FOUND
  | Code_FAILED_PRECONDITION
  | Code_ABORTED
  | Code_UNIMPLEMENTED
  | Code_INTERNAL
  | Code_UNAVAILABLE

text \<open>
  An error is either a coded error made by \<open>vterrors.New\<close>/\<open>vterrors.Errorf\<close> (code and
  message), an error without a code made by \<open>errors.New\<close>/\<open>fmt.Errorf\<close>, the sentinel
  \<open>ErrMigrationNotFound\<close>, a Go runtime panic, or another error wrapped with a prefix by
  \<open>vterrors.Wrapf\<close>.
\<close>

datatype error =
    VtError Code string
  | PlainError string
  | ErrMigrationNotFound
  | PanicIndexOutOfRange
  | Wrapf string error

text \<open>The code an error carries, if any; wrapping keeps the code of the wrapped error.\<close>

fun error_code :: "error \<Rightarrow> Code option" where
  "error_code (VtError c _) = Some c"
| "error_code (PlainError _) = None"
| "error_code ErrMigrationNotFound = None"
| "error_code PanicIndexOutOfRange = None"
| "error_code (Wrapf _ e) = error_code e"

section \<open>Cut-over threshold\<close>

definition defaultCutOverThreshold :: Duration where
  "defaultCutOverThreshold = 10 * Second"

definition minCutOverThreshold :: Duration where
  "minCutOverThreshold = 5 * Second"

definition maxCutOverThreshold :: Duration where
  "maxCutOverThreshold = 30 * Second"

text \<open>
  \<open>safeMigrationCutOverThreshold\<close> returns a pair, as the Go function does: the threshold
  to use, and the error (\<open>None\<close> is Go's \<open>nil\<close>). The cases are tried in the order of the
  \<open>switch\<close>.
\<close>

definition safeMigrationCutOverThreshold :: "Duration \<Rightarrow> Duration \<times> error option" where
  "safeMigrationCutOverThreshold threshold =
     (if threshold = 0 then (defaultCutOverThreshold, None)
      else if threshold < minCutOverThreshold then
        (defaultCutOverThreshold, Some (VtError Code_FAILED_PRECONDITION ''cut-over min value is 5s''))
      else if threshold > maxCutOverThreshold then
        (defaultCutOverThreshold, Some (VtError Code_FAILED_PRECONDITION ''cut-over max value is 30s''))
      else (threshold, None))"

section \<open>Cut-over backoff\<close>

definition cutoverIntervals :: "Duration list" where
  "cutoverIntervals = [0, 1 * Minute, 5 * Minute, 10 * Minute, 30 * Minute]"

text \<open>
  \<open>shouldCutOverAccordingToBackoff\<close> returns the pair (\<open>shouldCutOver\<close>,
  \<open>shouldForceCutOver\<close>). \<open>cutoverAttempts\<close> is a signed 64-bit integer; the slice is indexed
  with it whenever it is below the slice's length, so a negative value makes Go panic with
  an index out of range, which is the \<open>Inl\<close> result here.
\<close>

definition shouldCutOverAccordingToBackoff ::
  "bool \<Rightarrow> Duration \<Rightarrow> Duration \<Rightarrow> Duration \<Rightarrow> int \<Rightarrow> error + (bool \<times> bool)" where
  "shouldCutOverAccordingToBackoff shouldForceCutOverIndicator forceCutOverAfter
       sinceReadyToComplete sinceLastCutoverAttempt cutoverAttempts =
     (if shouldForceCutOverIndicator then Inr (True, True)
      else if forceCutOverAfter > 0 \<and> sinceReadyToComplete > forceCutOverAfter then Inr (True, True)
      else if forceCutOverAfter > 0 \<and> forceCutOverAfter \<le> Millisecond then Inr (True, True)
      else if cutoverAttempts < int (length cutoverIntervals) \<and> cutoverAttempts < 0 then
        Inl PanicIndexOutOfRange
      else
        (let desiredTimeSinceLastCutover =
               (if cutoverAttempts < int (length cutoverIntervals)
                then cutoverIntervals ! nat cutoverAttempts
                else cutoverIntervals ! (length cutoverIntervals - 1))
         in if sinceLastCutoverAttempt \<ge> desiredTimeSinceLastCutover then Inr (True, False)
            else Inr (False, False)))"

text \<open>
  The wait the backoff asks for after a given number of attempts, read off the intervals
  with the index clamped to the last one.
\<close>

definition desiredWait :: "int \<Rightarrow> Duration" where
  "desiredWait cutoverAttempts = cutoverIntervals ! (min (nat cutoverAttempts) 4)"

section \<open>Data model\<close>

datatype OnlineDDLStatus =
    OnlineDDLStatusQueued
  | OnlineDDLStatusReady
  | OnlineDDLStatusRunning
  | OnlineDDLStatusComplete
  | OnlineDDLStatusFailed
  | OnlineDDLStatusCancelled

text \<open>
  The four DDL actions an online DDL can have, and one constructor for every other
  constant of \<open>sqlparser.DDLAction\<close>, none of which the executor's \<open>switch\<close> names.
\<close>

datatype DDLAction =
    CreateDDLAction
  | AlterDDLAction
  | DropDDLAction
  | RevertDDLAction
  | OtherDDLAction

datatype DDLStrategy =
    DDLStrategyOnline
  | DDLStrategyVitess
  | DDLStrategyMySQL
  | DDLStrategyDirect

text \<open>
  \<open>StrategySetting()\<close> of a migration: the strategy and the flags parsed from the options.
  \<open>CutOverThreshold\<close> is the result of parsing \<open>--cut-over-threshold\<close> (0 when the flag is
  absent, \<open>Inl\<close> when the value does not parse), and \<open>ForceCutOverAfter\<close> likewise for
  \<open>--force-cut-over-after\<close>.
\<close>

record DDLStrategySetting =
  Strategy :: DDLStrategy
  IsAllowConcurrent :: bool
  IsSingleton :: bool
  IsSingletonContext :: bool
  IsSingletonTable :: bool
  IsPostponeLaunch :: bool
  IsPostponeCompletion :: bool
  IsInOrderCompletion :: bool
  CutOverThreshold :: "error + Duration"
  RetainArtifactsDuration :: Duration
  IsDeclarative :: bool
  IsAllowForeignKeysFlag :: bool
  IsAllowZeroInDateFlag :: bool
  IsVreplicationTestSuite :: bool
  ForceCutOverAfter :: "error + Duration"

text \<open>
  \<open>schema.OnlineDDL\<close>, with the fields the functions below read. What the parser finds in
  the statement is data of the migration: \<open>GetAction\<close> is the pair \<open>GetAction(parser)\<close>
  returns (the action, and the error or \<open>None\<close>), and \<open>GetRevertUUID\<close> is the reverted UUID
  when the statement is a REVERT and \<open>None\<close> when \<open>GetRevertUUID(parser)\<close> returns an error.
\<close>

record OnlineDDL =
  UUID :: string
  Table :: string
  Setting :: DDLStrategySetting
  Status :: OnlineDDLStatus
  MigrationContext :: string
  TabletAlias :: string
  ReadyToComplete :: bool
  WasReadyToComplete :: bool
  GetAction :: "DDLAction \<times> error option"
  GetRevertUUID :: "string option"
  IsView :: bool

text \<open>
  A row of the metadata table \<open>schema_migrations\<close>, with the columns the functions below
  read or write. The columns \<open>strategy\<close> and \<open>options\<close> are kept parsed, as
  \<open>row_setting\<close>; the statement is kept as what the parser finds in it. The column
  \<open>ddl_action\<close> holds the name of an action, kept as the action it names
  (\<open>OtherDDLAction\<close> for any other text).
\<close>

record MigrationRow =
  migration_uuid :: string
  mysql_table :: string
  migration_context :: string
  migration_status :: OnlineDDLStatus
  row_setting :: DDLStrategySetting
  row_action :: "DDLAction \<times> error option"
  row_revert_uuid :: "string option"
  ddl_action :: DDLAction
  is_view :: bool
  tablet :: string
  postpone_launch :: bool
  postpone_completion :: bool
  ready_to_complete :: bool
  was_ready_to_complete :: bool
  is_immediate_operation :: bool
  force_cutover :: bool
  cancelled_timestamp :: "nat option"
  cutover_threshold_seconds :: int
  retain_artifacts_seconds :: int
  message :: string

text \<open>\<open>sqltypes.Result\<close>, of which the callers read the number of affected rows.\<close>

datatype Result = Result (RowsAffected: nat)

definition emptyResult :: Result where
  "emptyResult = Result 0"

text \<open>
  The executor. \<open>schema_migrations\<close> is the metadata table, in the order of its \<open>id\<close>
  column. \<open>ownedRunningMigrations\<close> is the \<open>sync.Map\<close> from UUID to migration, kept as an
  association list with one entry per key. \<open>vreplication\<close> maps a workflow (a UUID) to
  whether its stream is running; \<open>topoAvailable\<close> says whether the topology server answers
  \<open>GetTablet\<close>. \<open>nextCheckTriggers\<close> counts the calls of \<open>triggerNextCheckInterval\<close>.
  Queries on the metadata table always answer: a failing connection is not modelled.
\<close>

record Executor =
  isOpen :: bool
  EnableOnlineDDL :: bool
  reviewedRunningMigrationsFlag :: bool
  ownedRunningMigrations :: "(string \<times> OnlineDDL) list"
  schema_migrations :: "MigrationRow list"
  vreplication :: "(string \<times> bool) list"
  topoAvailable :: bool
  tabletAlias :: string
  shard :: string
  maxConcurrentOnlineDDLs :: nat
  nextCheckTriggers :: nat

section \<open>The ownership map\<close>

definition owned_Delete :: "string \<Rightarrow> (string \<times> OnlineDDL) list \<Rightarrow> (string \<times> OnlineDDL) list" where
  "owned_Delete uuid m = filter (\<lambda>kv. fst kv \<noteq> uuid) m"

definition owned_Store :: "string \<Rightarrow> OnlineDDL \<Rightarrow> (string \<times> OnlineDDL) list \<Rightarrow> (string \<times> OnlineDDL) list" where
  "owned_Store uuid v m = (uuid, v) # owned_Delete uuid m"

definition countOwnedRunningMigrations :: "Executor \<Rightarrow> nat" where
  "countOwnedRunningMigrations e = length (ownedRunningMigrations e)"

section \<open>Conflicts between a running and a proposed migration\<close>

text \<open>
  \<open>allowConcurrentMigration\<close> returns the pair (\<open>action\<close>, \<open>allowConcurrent\<close>). \<open>action\<close> is a
  named result: where the function returns before assigning it, the caller receives the
  zero value of \<open>sqlparser.DDLAction\<close>. The declaration of that type is not part of the
  sources at hand, so its zero value is the parameter \<open>zeroAction\<close>.
\<close>

definition allowConcurrentMigration :: "DDLAction \<Rightarrow> OnlineDDL \<Rightarrow> DDLAction \<times> bool" where
  "allowConcurrentMigration zeroAction onlineDDL =
     (if \<not> IsAllowConcurrent (Setting onlineDDL) then (zeroAction, False)
      else
        (let action = fst (GetAction onlineDDL); err = snd (GetAction onlineDDL)
         in if err \<noteq> None then (action, False)
            else
              (case action of
                 CreateDDLAction \<Rightarrow> (action, True)
               | DropDDLAction \<Rightarrow> (action, True)
               | AlterDDLAction \<Rightarrow>
                   (action, Strategy (Setting onlineDDL) = DDLStrategyOnline
                            \<or> Strategy (Setting onlineDDL) = DDLStrategyVitess)
               | RevertDDLAction \<Rightarrow> (action, True)
               | OtherDDLAction \<Rightarrow> (action, False))))"

definition proposedMigrationConflictsWithRunningMigration ::
  "DDLAction \<Rightarrow> OnlineDDL \<Rightarrow> OnlineDDL \<Rightarrow> bool" where
  "proposedMigrationConflictsWithRunningMigration zeroAction runningMigration proposedMigration =
     (if Table runningMigration = Table proposedMigration then True
      else
        (let isRunningMigrationAllowConcurrent =
               snd (allowConcurrentMigration zeroAction runningMigration);
             proposedMigrationAction = fst (allowConcurrentMigration zeroAction proposedMigration);
             isProposedMigrationAllowConcurrent =
               snd (allowConcurrentMigration zeroAction proposedMigration)
         in if \<not> isRunningMigrationAllowConcurrent \<and> \<not> isProposedMigrationAllowConcurrent then True
            else if proposedMigrationAction = AlterDDLAction
                    \<and> \<not> WasReadyToComplete runningMigration then True
            else False))"

text \<open>
  \<open>isAnyConflictingMigrationRunning\<close> ranges over the ownership map and stops at the first
  conflict; it returns that migration, or \<open>None\<close> when there is none.
\<close>

definition isAnyConflictingMigrationRunning :: "DDLAction \<Rightarrow> Executor \<Rightarrow> OnlineDDL \<Rightarrow> OnlineDDL option" where
  "isAnyConflictingMigrationRunning zeroAction e onlineDDL =
     find (\<lambda>runningMigration.
             proposedMigrationConflictsWithRunningMigration zeroAction runningMigration onlineDDL)
       (map snd (ownedRunningMigrations e))"

section \<open>The metadata table\<close>

text \<open>
  The SQL statements the executor sends are constants of a file that is not part of the
  sources at hand. Each is modelled by what it does to the table; \<open>update_where\<close> is an
  UPDATE with a WHERE clause, and \<open>rows_matched\<close> the number of rows the clause selects,
  which is the \<open>RowsAffected\<close> of the result.
\<close>

definition update_where ::
  "(MigrationRow \<Rightarrow> bool) \<Rightarrow> (MigrationRow \<Rightarrow> MigrationRow) \<Rightarrow> Executor \<Rightarrow> Executor" where
  "update_where cond f e =
     e\<lparr>schema_migrations := map (\<lambda>r. if cond r then f r else r) (schema_migrations e)\<rparr>"

definition rows_matched :: "(MigrationRow \<Rightarrow> bool) \<Rightarrow> Executor \<Rightarrow> nat" where
  "rows_matched cond e = length (filter cond (schema_migrations e))"

text \<open>
  Modelled from the spec: the statement \<open>sqlSelectMigration\<close> is not in the source; a
  migration is the row keyed by its UUID.
\<close>

definition sqlSelectMigration :: "MigrationRow list \<Rightarrow> string \<Rightarrow> MigrationRow list" where
  "sqlSelectMigration rows uuid = filter (\<lambda>r. migration_uuid r = uuid) rows"

text \<open>The struct literal of \<open>readMigration\<close>.\<close>

definition onlineDDL_of_row :: "MigrationRow \<Rightarrow> OnlineDDL" where
  "onlineDDL_of_row row =
     \<lparr> UUID = migration_uuid row,
       Table = mysql_table row,
       Setting = row_setting row,
       Status = migration_status row,
       MigrationContext = migration_context row,
       TabletAlias = tablet row,
       ReadyToComplete = ready_to_complete row,
       WasReadyToComplete = was_ready_to_complete row,
       GetAction = row_action row,
       GetRevertUUID = row_revert_uuid row,
       IsView = is_view row \<rparr>"

text \<open>
  \<open>readMigration\<close>: \<open>Named().Row()\<close> gives the row when the result has exactly one, and nil
  otherwise, which is the error \<open>ErrMigrationNotFound\<close>.
\<close>

definition readMigration :: "Executor \<Rightarrow> string \<Rightarrow> error + (OnlineDDL \<times> MigrationRow)" where
  "readMigration e uuid =
     (case sqlSelectMigration (schema_migrations e) uuid of
        [] \<Rightarrow> Inl ErrMigrationNotFound
      | [row] \<Rightarrow> Inr (onlineDDL_of_row row, row)
      | _ # _ # _ \<Rightarrow> Inl ErrMigrationNotFound)"

definition is_terminal :: "OnlineDDLStatus \<Rightarrow> bool" where
  "is_terminal s = (s = OnlineDDLStatusComplete \<or> s = OnlineDDLStatusFailed \<or> s = OnlineDDLStatusCancelled)"

definition is_pending :: "OnlineDDLStatus \<Rightarrow> bool" where
  "is_pending s = (s = OnlineDDLStatusQueued \<or> s = OnlineDDLStatusReady \<or> s = OnlineDDLStatusRunning)"

text \<open>
  Modelled from the spec: the statement \<open>sqlSelectPendingMigrations\<close> is not in the source;
  pending migrations are the non-terminal ones, those queued, ready or running.
\<close>

definition sqlSelectPendingMigrations :: "MigrationRow list \<Rightarrow> MigrationRow list" where
  "sqlSelectPendingMigrations rows = filter (\<lambda>r. is_pending (migration_status r)) rows"

definition readPendingMigrationsUUIDs :: "Executor \<Rightarrow> string list" where
  "readPendingMigrationsUUIDs e = map migration_uuid (sqlSelectPendingMigrations (schema_migrations e))"

text \<open>
  Modelled from the spec: the statement \<open>sqlSelectQueuedMigrations\<close> is not in the source;
  the scheduler looks at the rows in \<open>queued\<close> status.
\<close>

definition sqlSelectQueuedMigrations :: "MigrationRow list \<Rightarrow> MigrationRow list" where
  "sqlSelectQueuedMigrations rows = filter (\<lambda>r. migration_status r = OnlineDDLStatusQueued) rows"

text \<open>
  Modelled from the spec: the statement \<open>sqlSelectReadyMigrations\<close> is not in the source;
  the runner looks at the rows in \<open>ready\<close> status.
\<close>

definition sqlSelectReadyMigrations :: "MigrationRow list \<Rightarrow> MigrationRow list" where
  "sqlSelectReadyMigrations rows = filter (\<lambda>r. migration_status r = OnlineDDLStatusReady) rows"

text \<open>
  Modelled from the spec: the statement \<open>sqlUpdateMigrationStatus\<close> is not in the source;
  it sets the status of the row with the given UUID.
\<close>

definition updateMigrationStatus :: "Executor \<Rightarrow> string \<Rightarrow> OnlineDDLStatus \<Rightarrow> Executor" where
  "updateMigrationStatus e uuid status =
     update_where (\<lambda>r. migration_uuid r = uuid) (\<lambda>r. r\<lparr>migration_status := status\<rparr>) e"

text \<open>
  Modelled from the spec: the statement \<open>sqlUpdateMigrationStatusFailedOrCancelled\<close> is not
  in the source; it marks the row failed or cancelled, based on \<open>cancelled_timestamp\<close>:
  cancelled when the timestamp is set, failed when it is not.
\<close>

definition updateMigrationStatusFailedOrCancelled :: "Executor \<Rightarrow> string \<Rightarrow> Executor" where
  "updateMigrationStatusFailedOrCancelled e uuid =
     update_where (\<lambda>r. migration_uuid r = uuid)
       (\<lambda>r. r\<lparr>migration_status :=
                 (if cancelled_timestamp r = None then OnlineDDLStatusFailed
                  else OnlineDDLStatusCancelled)\<rparr>) e"

text \<open>
  Modelled from the spec: the statement \<open>sqlUpdateMigrationTimestamp\<close> is not in the source;
  it stamps the named timestamp column of the row with the current time. Of the timestamp
  columns, the model keeps \<open>cancelled_timestamp\<close>.
\<close>

definition updateMigrationTimestamp :: "Executor \<Rightarrow> nat \<Rightarrow> string \<Rightarrow> string \<Rightarrow> Executor" where
  "updateMigrationTimestamp e now timestampColumn uuid =
     (if timestampColumn = ''cancelled_timestamp''
      then update_where (\<lambda>r. migration_uuid r = uuid) (\<lambda>r. r\<lparr>cancelled_timestamp := Some now\<rparr>) e
      else e)"

text \<open>
  \<open>updateMigrationMessage\<close> cuts the message to 16383 bytes and writes it to the row.
  Modelled from the spec: the statement \<open>sqlUpdateMessage\<close> is not in the source; it writes
  the message of the row. The replacement of invalid UTF-8 is not modelled.
\<close>

definition updateMigrationMessage :: "Executor \<Rightarrow> string \<Rightarrow> string \<Rightarrow> Executor" where
  "updateMigrationMessage e uuid msg =
     update_where (\<lambda>r. migration_uuid r = uuid)
       (\<lambda>r. r\<lparr>message := (if length msg > 16383 then take 16383 msg else msg)\<rparr>) e"

text \<open>
  \<open>updateMigrationReadyToComplete\<close> writes the row, then the entry of the ownership map
  if there is one. Modelled from the spec: the statements \<open>sqlSetMigrationReadyToComplete\<close>
  and \<open>sqlClearMigrationReadyToComplete\<close> are not in the source; \<open>ready_to_complete\<close> tracks
  the instantaneous condition and \<open>was_ready_to_complete\<close> is set once and never cleared.
\<close>

definition updateMigrationReadyToComplete :: "Executor \<Rightarrow> string \<Rightarrow> bool \<Rightarrow> Executor" where
  "updateMigrationReadyToComplete e uuid isReady =
     (let e1 = update_where (\<lambda>r. migration_uuid r = uuid)
                 (\<lambda>r. if isReady then r\<lparr>ready_to_complete := True, was_ready_to_complete := True\<rparr>
                      else r\<lparr>ready_to_complete := False\<rparr>) e
      in e1\<lparr>ownedRunningMigrations :=
               map (\<lambda>kv. if fst kv = uuid
                          then (fst kv,
                                (if isReady then (snd kv)\<lparr>WasReadyToComplete := True\<rparr> else snd kv)
                                  \<lparr>ReadyToComplete := isReady\<rparr>)
                          else kv)
                 (ownedRunningMigrations e1)\<rparr>)"

section \<open>Open, close and the next check\<close>

definition triggerNextCheckInterval :: "Executor \<Rightarrow> Executor" where
  "triggerNextCheckInterval e = e\<lparr>nextCheckTriggers := nextCheckTriggers e + 1\<rparr>"

definition Open :: "Executor \<Rightarrow> Executor" where
  "Open e =
     (if isOpen e \<or> \<not> EnableOnlineDDL e then e
      else
        (let e1 = e\<lparr>reviewedRunningMigrationsFlag := False\<rparr>;
             e2 = e1\<lparr>ownedRunningMigrations := []\<rparr>;
             e3 = triggerNextCheckInterval e2
         in e3\<lparr>isOpen := True\<rparr>))"

definition Close :: "Executor \<Rightarrow> Executor" where
  "Close e = (if \<not> isOpen e then e else e\<lparr>isOpen := False\<rparr>)"

text \<open>
  The error every entry point of the API returns when the executor is not open. The text
  of \<open>schema.ErrOnlineDDLDisabled\<close> is not in the source.
\<close>

definition ErrOnlineDDLDisabled_Error :: string where
  "ErrOnlineDDLDisabled_Error = ''online DDL is disabled''"

definition errExecutorClosed :: error where
  "errExecutorClosed = VtError Code_FAILED_PRECONDITION ErrOnlineDDLDisabled_Error"

text \<open>The text of an error, as \<open>Error()\<close> gives it.\<close>

fun error_Error :: "error \<Rightarrow> string" where
  "error_Error (VtError _ m) = m"
| "error_Error (PlainError m) = m"
| "error_Error ErrMigrationNotFound = ''migration not found''"
| "error_Error PanicIndexOutOfRange = ''index out of range''"
| "error_Error (Wrapf p e) = p @ '': '' @ error_Error e"

text \<open>
  Modelled from the spec: \<open>schema.IsOnlineDDLUUID\<close> is not in the source; a UUID is a
  128-bit identifier formatted with underscores, that is 32 hexadecimal digits in groups
  of 8, 4, 4, 4 and 12 joined by underscores.
\<close>

definition is_hex_digit :: "char \<Rightarrow> bool" where
  "is_hex_digit c = (List.member ''0123456789abcdef'' c)"

definition IsOnlineDDLUUID :: "string \<Rightarrow> bool" where
  "IsOnlineDDLUUID uuid =
     (length uuid = 36 \<and>
      list_all (\<lambda>ic. if List.member [8, 13, 18, 23] (fst ic) then snd ic = CHR ''_''
                     else is_hex_digit (snd ic))
        (zip [0 ..< 36] uuid))"

section \<open>Failing, terminating and cancelling a migration\<close>

text \<open>
  \<open>failMigration\<close> leaves the state below and returns \<open>withError\<close> as it was given; a caller
  that needs the returned error has it at hand. The deferred \<open>triggerNextCheckInterval\<close> runs
  last.
\<close>

definition failMigration :: "Executor \<Rightarrow> OnlineDDL \<Rightarrow> error option \<Rightarrow> Executor" where
  "failMigration e onlineDDL withError =
     (let e1 = updateMigrationStatusFailedOrCancelled e (UUID onlineDDL);
          e2 = (case withError of
                  None \<Rightarrow> e1
                | Some err \<Rightarrow> updateMigrationMessage e1 (UUID onlineDDL) (error_Error err));
          e3 = e2\<lparr>ownedRunningMigrations := owned_Delete (UUID onlineDDL) (ownedRunningMigrations e2)\<rparr>
      in triggerNextCheckInterval e3)"

text \<open>
  \<open>readVReplStream\<close> with \<open>okIfMissing\<close>, as \<open>terminateMigration\<close> calls it, ignoring its
  error: whether the workflow's stream is there, and running.
\<close>

definition readVReplStream :: "Executor \<Rightarrow> string \<Rightarrow> bool option" where
  "readVReplStream e uuid = map_of (vreplication e) uuid"

text \<open>
  \<open>terminateVReplMigration\<close> fails when the tablet cannot be read from the topology server;
  otherwise it stops the stream, ignoring a failure to do so, and deletes the entry when
  asked to. Modelled from the spec: the statement \<open>sqlStopVReplStream\<close> and the replication
  runtime are not in the source; stopping terminates the running replication of the UUID.
\<close>

definition terminateVReplMigration :: "Executor \<Rightarrow> string \<Rightarrow> bool \<Rightarrow> Executor \<times> error option" where
  "terminateVReplMigration e uuid deleteEntry =
     (if \<not> topoAvailable e then (e, Some (PlainError ''tablet not found in topology''))
      else
        (let e1 = e\<lparr>vreplication :=
                      map (\<lambda>kv. if fst kv = uuid then (fst kv, False) else kv) (vreplication e)\<rparr>;
             e2 = (if deleteEntry
                   then e1\<lparr>vreplication := filter (\<lambda>kv. fst kv \<noteq> uuid) (vreplication e1)\<rparr>
                   else e1)
         in (e2, None)))"

text \<open>
  \<open>terminateMigration\<close> returns the state, \<open>foundRunning\<close> and the error. The deferred
  removal from the ownership map runs on every path.
\<close>

definition terminateMigration :: "Executor \<Rightarrow> OnlineDDL \<Rightarrow> Executor \<times> bool \<times> error option" where
  "terminateMigration e onlineDDL =
     (let uuid = UUID onlineDDL;
          disown = (\<lambda>s. s\<lparr>ownedRunningMigrations := owned_Delete uuid (ownedRunningMigrations s)\<rparr>)
      in if Strategy (Setting onlineDDL) = DDLStrategyOnline
            \<or> Strategy (Setting onlineDDL) = DDLStrategyVitess
         then
           (let foundRunning = (readVReplStream e uuid = Some True);
                t = terminateVReplMigration e uuid False
            in case snd t of
                 Some err \<Rightarrow>
                   (disown (fst t), foundRunning,
                    Some (PlainError (''Error terminating migration, vreplication exec error: ''
                                      @ error_Error err)))
               | None \<Rightarrow> (disown (fst t), foundRunning, None))
         else (disown e, False, None))"

text \<open>
  \<open>CancelMigration\<close> at the time \<open>now\<close>. The two deferred calls run after the body, last
  deferred first: \<open>triggerNextCheckInterval\<close>, then \<open>failMigration\<close>.
\<close>

definition CancelMigration ::
  "Executor \<Rightarrow> nat \<Rightarrow> string \<Rightarrow> string \<Rightarrow> bool \<Rightarrow> Executor \<times> (error + Result)" where
  "CancelMigration e now uuid msg issuedByUser =
     (if \<not> isOpen e then (e, Inl errExecutorClosed)
      else
        (case readMigration e uuid of
           Inl err \<Rightarrow> (e, Inl err)
         | Inr (onlineDDL, row) \<Rightarrow>
             if Status onlineDDL = OnlineDDLStatusComplete
                \<or> Status onlineDDL = OnlineDDLStatusFailed
                \<or> Status onlineDDL = OnlineDDLStatusCancelled
             then (e, Inr emptyResult)
             else
               (let e1 = (if issuedByUser
                          then updateMigrationTimestamp e now ''cancelled_timestamp'' uuid
                          else e);
                    deferred = (\<lambda>s. failMigration (triggerNextCheckInterval s) onlineDDL
                                       (Some (PlainError msg)))
                in if Status onlineDDL = OnlineDDLStatusQueued
                      \<or> Status onlineDDL = OnlineDDLStatusReady
                   then (deferred e1, Inr (Result 1))
                   else
                     (let t = terminateMigration e1 onlineDDL;
                          migrationFound = fst (snd t);
                          rowsAffected = (if migrationFound then 1 else 0)
                      in case snd (snd t) of
                           Some err \<Rightarrow> (deferred (fst t), Inl err)
                         | None \<Rightarrow> (deferred (fst t), Inr (Result rowsAffected))))))"

section \<open>Retry, cleanup, force cut-over, threshold, complete, launch\<close>

text \<open>
  Modelled from the spec: the statement \<open>sqlRetryMigration\<close> is not in the source; retry
  takes a migration in a terminal failed or cancelled status back to queued, and leaves
  any other migration as it is. The tablet alias bound to the statement becomes the
  row's \<open>tablet\<close>.
\<close>

definition retry_cond :: "string \<Rightarrow> MigrationRow \<Rightarrow> bool" where
  "retry_cond uuid r =
     ((migration_status r = OnlineDDLStatusFailed \<or> migration_status r = OnlineDDLStatusCancelled)
      \<and> migration_uuid r = uuid)"

definition sqlRetryMigration :: "Executor \<Rightarrow> string \<Rightarrow> string \<Rightarrow> Executor" where
  "sqlRetryMigration e alias uuid =
     update_where (retry_cond uuid)
       (\<lambda>r. r\<lparr>migration_status := OnlineDDLStatusQueued, tablet := alias\<rparr>) e"

definition RetryMigration :: "Executor \<Rightarrow> string \<Rightarrow> Executor \<times> (error + Result)" where
  "RetryMigration e uuid =
     (if \<not> isOpen e then (e, Inl errExecutorClosed)
      else if \<not> IsOnlineDDLUUID uuid
      then (e, Inl (VtError Code_UNKNOWN (''Not a valid migration ID in RETRY: '' @ uuid)))
      else (triggerNextCheckInterval (sqlRetryMigration e (tabletAlias e) uuid),
            Inr (Result (rows_matched (retry_cond uuid) e))))"

text \<open>
  Modelled from the spec: the statement \<open>sqlUpdateReadyForCleanup\<close> is not in the source;
  cleanup sets \<open>retain_artifacts_seconds\<close> to a negative number, so that the next pass of
  the artifact collector picks the migration up.
\<close>

definition CleanupMigration :: "Executor \<Rightarrow> string \<Rightarrow> Executor \<times> (error + Result)" where
  "CleanupMigration e uuid =
     (if \<not> isOpen e then (e, Inl errExecutorClosed)
      else if \<not> IsOnlineDDLUUID uuid
      then (e, Inl (VtError Code_UNKNOWN (''Not a valid migration ID in CLEANUP: '' @ uuid)))
      else (triggerNextCheckInterval
              (update_where (\<lambda>r. migration_uuid r = uuid) (\<lambda>r. r\<lparr>retain_artifacts_seconds := - 1\<rparr>) e),
            Inr (Result (rows_matched (\<lambda>r. migration_uuid r = uuid) e))))"

text \<open>
  Modelled from the spec: the statement \<open>sqlUpdateForceCutOver\<close> is not in the source; it
  sets the \<open>force_cutover\<close> flag of the row.
\<close>

definition ForceCutOverMigration :: "Executor \<Rightarrow> string \<Rightarrow> Executor \<times> (error + Result)" where
  "ForceCutOverMigration e uuid =
     (if \<not> isOpen e then (e, Inl errExecutorClosed)
      else if \<not> IsOnlineDDLUUID uuid
      then (e, Inl (VtError Code_UNKNOWN (''Not a valid migration ID in FORCE_CUTOVER: '' @ uuid)))
      else (triggerNextCheckInterval
              (update_where (\<lambda>r. migration_uuid r = uuid) (\<lambda>r. r\<lparr>force_cutover := True\<rparr>) e),
            Inr (Result (rows_matched (\<lambda>r. migration_uuid r = uuid) e))))"

text \<open>
  The whole seconds of a duration, \<open>int64(d.Seconds())\<close>. \<open>Seconds\<close> computes in float64:
  it is \<open>float64(d / Second) + float64(d % Second) / 1e9\<close>, where \<open>/\<close> and \<open>%\<close> on the
  duration truncate towards zero. The two conversions are exact (both numbers are below
  \<open>2 ^ 53\<close>); the quotient and the sum are each rounded to the nearest float64, ties to
  even; \<open>int64\<close> then drops the fraction. A positive fraction is a pair of a numerator and
  a denominator. \<open>float64_round\<close> rounds it to 53 significant bits: with \<open>2 ^ E\<close> the
  largest power of two not above the fraction, the fraction scaled by \<open>2 ^ (52 - E)\<close> is
  rounded to an integer and scaled back. None of the numbers here leaves the range of the
  normal float64 numbers.
\<close>

fun bit_length :: "nat \<Rightarrow> nat" where
  "bit_length n = (if n = 0 then 0 else Suc (bit_length (n div 2)))"

definition round_half_even :: "nat \<Rightarrow> nat \<Rightarrow> nat" where
  "round_half_even a b =
     (let q = a div b; r = a mod b
      in if 2 * r < b then q
         else if 2 * r > b then q + 1
         else if even q then q else q + 1)"

definition floor_log2 :: "nat \<Rightarrow> nat \<Rightarrow> int" where
  "floor_log2 a b =
     (let k = int (bit_length a) - int (bit_length b)
      in if b * 2 ^ nat k \<le> a * 2 ^ nat (- k) then k else k - 1)"

definition float64_round :: "nat \<times> nat \<Rightarrow> nat \<times> nat" where
  "float64_round x =
     (if fst x = 0 then (0, 1)
      else
        (let t = 52 - floor_log2 (fst x) (snd x);
             m = round_half_even (fst x * 2 ^ nat t) (snd x * 2 ^ nat (- t))
         in (m * 2 ^ nat (- t), 2 ^ nat t)))"

definition Seconds_whole :: "nat \<Rightarrow> nat" where
  "Seconds_whole d =
     (let sec = d div 1000000000;
          nsec = d mod 1000000000;
          q = float64_round (nsec, 1000000000);
          s = float64_round (sec * snd q + fst q, snd q)
      in fst s div snd s)"

definition duration_seconds :: "Duration \<Rightarrow> int" where
  "duration_seconds d = (if d \<ge> 0 then int (Seconds_whole (nat d)) else - int (Seconds_whole (nat (- d))))"

text \<open>
  \<open>SetMigrationCutOverThreshold\<close>; \<open>parsed\<close> is what \<open>time.ParseDuration\<close> makes of the
  threshold string, \<open>None\<close> when it fails. Modelled from the spec: the statement
  \<open>sqlUpdateCutOverThresholdSeconds\<close> is not in the source; it sets
  \<open>cutover_threshold_seconds\<close> of the row.
\<close>

definition SetMigrationCutOverThreshold ::
  "Executor \<Rightarrow> string \<Rightarrow> Duration option \<Rightarrow> Executor \<times> (error + Result)" where
  "SetMigrationCutOverThreshold e uuid parsed =
     (if \<not> isOpen e then (e, Inl errExecutorClosed)
      else if \<not> IsOnlineDDLUUID uuid
      then (e, Inl (VtError Code_UNKNOWN (''Not a valid migration ID in FORCE_CUTOVER: '' @ uuid)))
      else
        (case parsed of
           None \<Rightarrow> (e, Inl (VtError Code_INVALID_ARGUMENT ''invalid cut-over threshold value''))
         | Some threshold \<Rightarrow>
             (case snd (safeMigrationCutOverThreshold threshold) of
                Some err \<Rightarrow> (e, Inl err)
              | None \<Rightarrow>
                  (triggerNextCheckInterval
                     (update_where (\<lambda>r. migration_uuid r = uuid)
                        (\<lambda>r. r\<lparr>cutover_threshold_seconds :=
                                  duration_seconds (fst (safeMigrationCutOverThreshold threshold))\<rparr>) e),
                   Inr (Result (rows_matched (\<lambda>r. migration_uuid r = uuid) e))))))"

text \<open>
  \<open>matchesShards\<close> on the list the comma-delimited argument splits into.
\<close>

definition matchesShards :: "Executor \<Rightarrow> string list \<Rightarrow> bool" where
  "matchesShards e shards = (length shards = 0 \<or> List.member shards (shard e))"

text \<open>
  Modelled from the spec: the statement \<open>sqlClearPostponeCompletion\<close> is not in the source;
  it clears the \<open>postpone_completion\<close> flag of the row.
\<close>

definition CompleteMigration :: "Executor \<Rightarrow> string \<Rightarrow> string list \<Rightarrow> Executor \<times> (error + Result)" where
  "CompleteMigration e uuid shardsArg =
     (if \<not> isOpen e then (e, Inl errExecutorClosed)
      else if \<not> IsOnlineDDLUUID uuid
      then (e, Inl (VtError Code_UNKNOWN (''Not a valid migration ID in COMPLETE: '' @ uuid)))
      else if \<not> matchesShards e shardsArg then (e, Inr (Result 0))
      else (triggerNextCheckInterval
              (update_where (\<lambda>r. migration_uuid r = uuid) (\<lambda>r. r\<lparr>postpone_completion := False\<rparr>) e),
            Inr (Result (rows_matched (\<lambda>r. migration_uuid r = uuid) e))))"

text \<open>
  Modelled from the spec: the statement \<open>sqlUpdateLaunchMigration\<close> is not in the source;
  it clears the \<open>postpone_launch\<close> flag of the row.
\<close>

definition LaunchMigration :: "Executor \<Rightarrow> string \<Rightarrow> string list \<Rightarrow> Executor \<times> (error + Result)" where
  "LaunchMigration e uuid shardsArg =
     (if \<not> isOpen e then (e, Inl errExecutorClosed)
      else if \<not> IsOnlineDDLUUID uuid
      then (e, Inl (VtError Code_UNKNOWN (''Not a valid migration ID in EXECUTE: '' @ uuid)))
      else if \<not> matchesShards e shardsArg then (e, Inr (Result 0))
      else (triggerNextCheckInterval
              (update_where (\<lambda>r. migration_uuid r = uuid) (\<lambda>r. r\<lparr>postpone_launch := False\<rparr>) e),
            Inr (Result (rows_matched (\<lambda>r. migration_uuid r = uuid) e))))"

section \<open>Submitting a migration\<close>

definition submittedMigrationConflictsWithPendingMigrationInSingletonContext ::
  "OnlineDDL \<Rightarrow> OnlineDDL \<Rightarrow> bool" where
  "submittedMigrationConflictsWithPendingMigrationInSingletonContext submittedMigration pendingOnlineDDL =
     (if MigrationContext pendingOnlineDDL = MigrationContext submittedMigration then False
      else if GetRevertUUID pendingOnlineDDL = None then True
      else if \<not> IsSingletonContext (Setting pendingOnlineDDL) then False
      else True)"

text \<open>The loop of the \<open>singleton-context\<close> case over the pending rows.\<close>

fun singletonContextLoop :: "Executor \<Rightarrow> OnlineDDL \<Rightarrow> MigrationRow list \<Rightarrow> error option" where
  "singletonContextLoop e onlineDDL [] = None"
| "singletonContextLoop e onlineDDL (row # rows) =
     (if MigrationContext onlineDDL = migration_context row
      then singletonContextLoop e onlineDDL rows
      else
        (case readMigration e (migration_uuid row) of
           Inl err \<Rightarrow> Some (Wrapf (''validateSingleton() migration: '' @ migration_uuid row) err)
         | Inr (pendingOnlineDDL, _) \<Rightarrow>
             if submittedMigrationConflictsWithPendingMigrationInSingletonContext onlineDDL pendingOnlineDDL
             then Some (VtError Code_FAILED_PRECONDITION
                          (''singleton-context migration rejected: found pending migration: ''
                           @ migration_uuid row @ '' in different context: ''
                           @ MigrationContext pendingOnlineDDL))
             else singletonContextLoop e onlineDDL rows))"

text \<open>The loop of the \<open>singleton-table\<close> case over the pending rows.\<close>

fun singletonTableLoop :: "OnlineDDL \<Rightarrow> MigrationRow list \<Rightarrow> error option" where
  "singletonTableLoop onlineDDL [] = None"
| "singletonTableLoop onlineDDL (row # rows) =
     (if Table onlineDDL = mysql_table row
      then Some (VtError Code_FAILED_PRECONDITION
                   (''singleton-table migration rejected: found pending migration: ''
                    @ migration_uuid row @ '' for the same table: '' @ Table onlineDDL))
      else singletonTableLoop onlineDDL rows)"

text \<open>
  The anonymous function of \<open>submitCallbackIfNonConflicting\<close>: the error that rejects the
  submission, or \<open>None\<close>. The \<open>switch\<close> takes the first case whose flag is set.
\<close>

definition singletonGate :: "Executor \<Rightarrow> OnlineDDL \<Rightarrow> error option" where
  "singletonGate e onlineDDL =
     (let rows = sqlSelectPendingMigrations (schema_migrations e)
      in if IsSingleton (Setting onlineDDL) then
           (case rows of
              [] \<Rightarrow> None
            | row # _ \<Rightarrow>
                Some (VtError Code_FAILED_PRECONDITION
                        (''singleton migration rejected: found pending migrations [sample: ''
                         @ migration_uuid row @ '']'')))
         else if IsSingletonContext (Setting onlineDDL) then singletonContextLoop e onlineDDL rows
         else if IsSingletonTable (Setting onlineDDL) then singletonTableLoop onlineDDL rows
         else None)"

definition submitCallbackIfNonConflicting ::
  "Executor \<Rightarrow> OnlineDDL \<Rightarrow> (Executor \<Rightarrow> Executor \<times> (error + Result)) \<Rightarrow> Executor \<times> (error + Result)" where
  "submitCallbackIfNonConflicting e onlineDDL callback =
     (if \<not> IsSingleton (Setting onlineDDL) \<and> \<not> IsSingletonContext (Setting onlineDDL)
         \<and> \<not> IsSingletonTable (Setting onlineDDL)
      then callback e
      else
        (case singletonGate e onlineDDL of
           Some err \<Rightarrow> (e, Inl err)
         | None \<Rightarrow> callback e))"

text \<open>
  A submitted statement, as the parser sees it: whether it is fully parsed (true for a
  statement that is not a DDL statement), and what \<open>OnlineDDLFromCommentedStatement\<close>
  makes of it, the migration or the text of the error.
\<close>

record Statement =
  IsFullyParsed :: bool
  OnlineDDLFromCommentedStatement :: "string + OnlineDDL"

text \<open>
  Modelled from the spec: \<open>GetActionStr\<close> is not in the source; the \<open>ddl_action\<close> of a
  migration is one of create, drop, alter and revert, and the call fails when the action
  cannot be read from the statement or is none of the four.
\<close>

definition GetActionStr :: "OnlineDDL \<Rightarrow> error + DDLAction" where
  "GetActionStr onlineDDL =
     (case snd (GetAction onlineDDL) of
        Some err \<Rightarrow> Inl err
      | None \<Rightarrow>
          if fst (GetAction onlineDDL) = OtherDDLAction
          then Inl (PlainError ''Unsupported online DDL action'')
          else Inr (fst (GetAction onlineDDL)))"

definition retainOnlineDDLTables :: Duration where
  "retainOnlineDDLTables = 24 * 3600 * Second"

text \<open>The values \<open>SubmitMigration\<close> binds to the INSERT; the other columns take their defaults.\<close>

definition submitted_row :: "Executor \<Rightarrow> OnlineDDL \<Rightarrow> Duration \<Rightarrow> MigrationRow" where
  "submitted_row e onlineDDL cutoverThreshold =
     \<lparr> migration_uuid = UUID onlineDDL,
       mysql_table = Table onlineDDL,
       migration_context = MigrationContext onlineDDL,
       migration_status = OnlineDDLStatusQueued,
       row_setting = Setting onlineDDL,
       row_action = GetAction onlineDDL,
       row_revert_uuid = GetRevertUUID onlineDDL,
       ddl_action = fst (GetAction onlineDDL),
       is_view = IsView onlineDDL,
       tablet = tabletAlias e,
       postpone_launch = IsPostponeLaunch (Setting onlineDDL),
       postpone_completion = IsPostponeCompletion (Setting onlineDDL),
       ready_to_complete = False,
       was_ready_to_complete = False,
       is_immediate_operation = False,
       force_cutover = False,
       cancelled_timestamp = None,
       cutover_threshold_seconds = duration_seconds cutoverThreshold,
       retain_artifacts_seconds =
         (if RetainArtifactsDuration (Setting onlineDDL) \<noteq> 0
          then duration_seconds (RetainArtifactsDuration (Setting onlineDDL))
          else duration_seconds retainOnlineDDLTables),
       message = [] \<rparr>"

text \<open>
  Modelled from the spec: the statement \<open>sqlInsertMigration\<close> is not in the source; a UUID
  appears at most once in the store, so the row is added, last, unless a row with its
  UUID is there.
\<close>

definition sqlInsertMigration :: "Executor \<Rightarrow> MigrationRow \<Rightarrow> Executor \<times> (error + Result)" where
  "sqlInsertMigration e row =
     (if sqlSelectMigration (schema_migrations e) (migration_uuid row) \<noteq> []
      then (e, Inr (Result 0))
      else (e\<lparr>schema_migrations := schema_migrations e @ [row]\<rparr>, Inr (Result 1)))"

definition SubmitMigration :: "Executor \<Rightarrow> Statement \<Rightarrow> Executor \<times> (error + Result)" where
  "SubmitMigration e stmt =
     (if \<not> isOpen e then (e, Inl errExecutorClosed)
      else if \<not> IsFullyParsed stmt
      then (e, Inl (VtError Code_FAILED_PRECONDITION ''error parsing statement''))
      else
        (case OnlineDDLFromCommentedStatement stmt of
           Inl m \<Rightarrow> (e, Inl (VtError Code_INVALID_ARGUMENT (''Error submitting migration: '' @ m)))
         | Inr onlineDDL \<Rightarrow>
             (case readMigration e (UUID onlineDDL) of
                Inr (storedMigration, _) \<Rightarrow>
                  if MigrationContext storedMigration \<noteq> MigrationContext onlineDDL
                  then (e, Inl (VtError Code_FAILED_PRECONDITION
                                  (''migration rejected: found migration '' @ UUID onlineDDL
                                   @ '' with different context: '' @ MigrationContext storedMigration
                                   @ '' than submitted migration's context: ''
                                   @ MigrationContext onlineDDL)))
                  else submitCallbackIfNonConflicting e onlineDDL
                         (\<lambda>s. RetryMigration s (UUID onlineDDL))
              | Inl err \<Rightarrow>
                  if err \<noteq> ErrMigrationNotFound
                  then (e, Inl (Wrapf (''while checking whether migration '' @ UUID onlineDDL
                                       @ '' exists'') err))
                  else
                    (case GetActionStr onlineDDL of
                       Inl aerr \<Rightarrow> (e, Inl aerr)
                     | Inr _ \<Rightarrow>
                         (case CutOverThreshold (Setting onlineDDL) of
                            Inl terr \<Rightarrow>
                              (e, Inl (Wrapf (''parsing cut-over threshold in migration ''
                                              @ UUID onlineDDL) terr))
                          | Inr cutoverThreshold \<Rightarrow>
                              (case snd (safeMigrationCutOverThreshold cutoverThreshold) of
                                 Some serr \<Rightarrow>
                                   (e, Inl (Wrapf (''validating cut-over threshold in migration ''
                                                   @ UUID onlineDDL) serr))
                               | None \<Rightarrow>
                                   (let r = submitCallbackIfNonConflicting e onlineDDL
                                              (\<lambda>s. sqlInsertMigration s
                                                      (submitted_row s onlineDDL
                                                         (fst (safeMigrationCutOverThreshold
                                                                 cutoverThreshold))))
                                    in case snd r of
                                         Inl err \<Rightarrow>
                                           (fst r, Inl (Wrapf (''submitting migration ''
                                                               @ UUID onlineDDL) err))
                                       | Inr res \<Rightarrow>
                                           (triggerNextCheckInterval (fst r), Inr res))))))))"

section \<open>The scheduler\<close>

text \<open>
  The loop of \<open>scheduleNextMigration\<close> over the rows the query returned. \<open>scheduled\<close> says
  whether the \<open>sync.Once\<close> has fired. The flags are read from the row as the query
  returned it; the updates go to the table.
\<close>

fun scheduleLoop :: "MigrationRow list \<Rightarrow> bool \<Rightarrow> Executor \<Rightarrow> Executor" where
  "scheduleLoop [] scheduled e = e"
| "scheduleLoop (row # rows) scheduled e =
     (if postpone_launch row then scheduleLoop rows scheduled e
      else
        (let e1 = (if \<not> ready_to_complete row \<and> is_immediate_operation row
                   then updateMigrationReadyToComplete e (migration_uuid row) True
                   else e)
         in if \<not> (is_immediate_operation row \<and> postpone_completion row)
            then
              (if scheduled then scheduleLoop rows True e1
               else scheduleLoop rows True
                      (triggerNextCheckInterval
                         (updateMigrationStatus e1 (migration_uuid row) OnlineDDLStatusReady)))
            else scheduleLoop rows scheduled e1))"

definition scheduleNextMigration :: "Executor \<Rightarrow> Executor" where
  "scheduleNextMigration e = scheduleLoop (sqlSelectQueuedMigrations (schema_migrations e)) False e"

section \<open>The runner\<close>

text \<open>
  \<open>readFailedCancelledMigrationsInContextBeforeMigration\<close>: the failed or cancelled
  migrations of the same context that precede the given one by \<open>id\<close>; none for the empty
  context. The statement it sends is not in the source; this is what the function's
  comment says it selects.
\<close>

definition readFailedCancelledMigrationsInContextBeforeMigration :: "Executor \<Rightarrow> OnlineDDL \<Rightarrow> string list" where
  "readFailedCancelledMigrationsInContextBeforeMigration e onlineDDL =
     (if MigrationContext onlineDDL = [] then []
      else map migration_uuid
             (filter (\<lambda>r. migration_context r = MigrationContext onlineDDL
                          \<and> (migration_status r = OnlineDDLStatusFailed
                             \<or> migration_status r = OnlineDDLStatusCancelled))
                (takeWhile (\<lambda>r. migration_uuid r \<noteq> UUID onlineDDL) (schema_migrations e))))"

text \<open>
  \<open>validateInOrderMigration\<close> returns the state, \<open>wasFailed\<close> and the error.
  \<open>failMigration\<close> returns the error it is given, so a migration that is failed here
  comes back with \<open>wasFailed\<close> and that error.
\<close>

definition validateInOrderMigration :: "Executor \<Rightarrow> OnlineDDL \<Rightarrow> Executor \<times> bool \<times> error option" where
  "validateInOrderMigration e onlineDDL =
     (if \<not> IsInOrderCompletion (Setting onlineDDL) then (e, False, None)
      else
        (case readFailedCancelledMigrationsInContextBeforeMigration e onlineDDL of
           [] \<Rightarrow> (e, False, None)
         | prior # _ \<Rightarrow>
             (let withError = PlainError (''migration '' @ UUID onlineDDL
                                @ '' cannot run because prior migration '' @ prior
                                @ '' in same context has failed/was cancelled'')
              in (failMigration e onlineDDL (Some withError), True, Some withError))))"

text \<open>
  The loop of \<open>getNonConflictingMigration\<close> over the ready rows. It returns the state (an
  in-order migration may have been failed on the way) and either the error the loop
  stops with or the migration to run, if any.
\<close>

fun getNonConflictingLoop ::
  "DDLAction \<Rightarrow> string list \<Rightarrow> MigrationRow list \<Rightarrow> Executor \<Rightarrow> Executor \<times> (error + OnlineDDL option)" where
  "getNonConflictingLoop zeroAction pendingMigrationsUUIDs [] e = (e, Inr None)"
| "getNonConflictingLoop zeroAction pendingMigrationsUUIDs (row # rows) e =
     (case readMigration e (migration_uuid row) of
        Inl err \<Rightarrow> (e, Inl err)
      | Inr (onlineDDL, migrationRow) \<Rightarrow>
          if isAnyConflictingMigrationRunning zeroAction e onlineDDL \<noteq> None
          then getNonConflictingLoop zeroAction pendingMigrationsUUIDs rows e
          else if countOwnedRunningMigrations e \<ge> maxConcurrentOnlineDDLs e then (e, Inr None)
          else if is_immediate_operation migrationRow \<and> IsInOrderCompletion (Setting onlineDDL)
                  \<and> (case pendingMigrationsUUIDs of [] \<Rightarrow> False | p # _ \<Rightarrow> p \<noteq> UUID onlineDDL)
          then getNonConflictingLoop zeroAction pendingMigrationsUUIDs rows e
          else if IsInOrderCompletion (Setting onlineDDL)
          then
            (let v = validateInOrderMigration e onlineDDL
             in case snd (snd v) of
                  Some err \<Rightarrow> (fst v, Inl err)
                | None \<Rightarrow>
                    if fst (snd v)
                    then getNonConflictingLoop zeroAction pendingMigrationsUUIDs rows (fst v)
                    else (fst v, Inr (Some onlineDDL)))
          else (e, Inr (Some onlineDDL)))"

definition getNonConflictingMigration :: "DDLAction \<Rightarrow> Executor \<Rightarrow> Executor \<times> (error + OnlineDDL option)" where
  "getNonConflictingMigration zeroAction e =
     getNonConflictingLoop zeroAction (readPendingMigrationsUUIDs e)
       (sqlSelectReadyMigrations (schema_migrations e)) e"

text \<open>
  \<open>runNextMigration\<close>. The handlers behind \<open>executeMigration\<close> are the parameter
  \<open>executeMigration\<close>, from the state and the migration to the state they leave. Nothing
  in them assigns \<open>isOpen\<close> or \<open>reviewedRunningMigrationsFlag\<close> (\<open>Open\<close>, \<open>Close\<close> and
  \<open>reviewRunningMigrations\<close> hold the only assignments), so the two keep their values.
\<close>

definition runNextMigration ::
  "DDLAction \<Rightarrow> (Executor \<Rightarrow> OnlineDDL \<Rightarrow> Executor) \<Rightarrow> Executor \<Rightarrow> Executor \<times> error option" where
  "runNextMigration zeroAction executeMigration e =
     (if \<not> reviewedRunningMigrationsFlag e then (e, None)
      else
        (case getNonConflictingMigration zeroAction e of
           (e1, Inl err) \<Rightarrow> (e1, Some err)
         | (e1, Inr None) \<Rightarrow> (e1, None)
         | (e1, Inr (Some onlineDDL)) \<Rightarrow>
             ((executeMigration e1 onlineDDL)
                \<lparr>isOpen := isOpen e1,
                 reviewedRunningMigrationsFlag := reviewedRunningMigrationsFlag e1\<rparr>,
              None)))"

section \<open>The reviewer of running migrations\<close>

text \<open>
  \<open>reviewRunningMigrations\<close>. What it does between its first check and its last
  assignment (the loop over the running rows and the pruning of the ownership map) is the
  parameter \<open>review\<close>, from the state to the state it leaves and the error it stops with,
  if any. Nothing in that part assigns \<open>isOpen\<close> or \<open>reviewedRunningMigrationsFlag\<close>, so the
  two keep their values until the last assignment, which only a run without an error
  reaches.
\<close>

definition reviewRunningMigrations ::
  "(Executor \<Rightarrow> Executor \<times> error option) \<Rightarrow> Executor \<Rightarrow> Executor \<times> error option" where
  "reviewRunningMigrations review e =
     (if \<not> isOpen e then (e, None)
      else
        (let r = review e;
             e1 = (fst r)\<lparr>isOpen := isOpen e,
                         reviewedRunningMigrationsFlag := reviewedRunningMigrationsFlag e\<rparr>
         in case snd r of
              Some err \<Rightarrow> (e1, Some err)
            | None \<Rightarrow> (e1\<lparr>reviewedRunningMigrationsFlag := True\<rparr>, None)))"

text \<open>Whether a call of \<open>reviewRunningMigrations\<close> in a state completes the review.\<close>

definition review_completes :: "(Executor \<Rightarrow> Executor \<times> error option) \<Rightarrow> Executor \<Rightarrow> bool" where
  "review_completes review e = (isOpen e \<and> snd (review e) = None)"

section \<open>Operations and runs\<close>

text \<open>
  The operations of the submission API, with \<open>Open\<close>, \<open>Close\<close> and the scheduler, and the
  state each leaves.
\<close>

datatype Operation =
    OpOpen
  | OpClose
  | OpSubmit Statement
  | OpCancel nat string string bool
  | OpRetry string
  | OpCleanup string
  | OpForceCutOver string
  | OpSetCutOverThreshold string "Duration option"
  | OpComplete string "string list"
  | OpLaunch string "string list"
  | OpSchedule

fun perform :: "Operation \<Rightarrow> Executor \<Rightarrow> Executor" where
  "perform OpOpen e = Open e"
| "perform OpClose e = Close e"
| "perform (OpSubmit stmt) e = fst (SubmitMigration e stmt)"
| "perform (OpCancel now uuid msg issuedByUser) e = fst (CancelMigration e now uuid msg issuedByUser)"
| "perform (OpRetry uuid) e = fst (RetryMigration e uuid)"
| "perform (OpCleanup uuid) e = fst (CleanupMigration e uuid)"
| "perform (OpForceCutOver uuid) e = fst (ForceCutOverMigration e uuid)"
| "perform (OpSetCutOverThreshold uuid parsed) e = fst (SetMigrationCutOverThreshold e uuid parsed)"
| "perform (OpComplete uuid shardsArg) e = fst (CompleteMigration e uuid shardsArg)"
| "perform (OpLaunch uuid shardsArg) e = fst (LaunchMigration e uuid shardsArg)"
| "perform OpSchedule e = scheduleNextMigration e"

text \<open>A step of a run: an operation, the runner, or the reviewer of running migrations.\<close>

datatype Step =
    Perform Operation
  | RunNext
  | ReviewRunning

fun step ::
  "DDLAction \<Rightarrow> (Executor \<Rightarrow> OnlineDDL \<Rightarrow> Executor) \<Rightarrow> (Executor \<Rightarrow> Executor \<times> error option)
   \<Rightarrow> Step \<Rightarrow> Executor \<Rightarrow> Executor" where
  "step zeroAction executeMigration review (Perform op) e = perform op e"
| "step zeroAction executeMigration review RunNext e = fst (runNextMigration zeroAction executeMigration e)"
| "step zeroAction executeMigration review ReviewRunning e = fst (reviewRunningMigrations review e)"

fun run ::
  "DDLAction \<Rightarrow> (Executor \<Rightarrow> OnlineDDL \<Rightarrow> Executor) \<Rightarrow> (Executor \<Rightarrow> Executor \<times> error option)
   \<Rightarrow> Step list \<Rightarrow> Executor \<Rightarrow> Executor" where
  "run zeroAction executeMigration review [] e = e"
| "run zeroAction executeMigration review (s # ss) e =
     run zeroAction executeMigration review ss (step zeroAction executeMigration review s e)"

text \<open>No call of the reviewer along the run completes the review.\<close>

fun no_review_completes ::
  "DDLAction \<Rightarrow> (Executor \<Rightarrow> OnlineDDL \<Rightarrow> Executor) \<Rightarrow> (Executor \<Rightarrow> Executor \<times> error option)
   \<Rightarrow> Step list \<Rightarrow> Executor \<Rightarrow> bool" where
  "no_review_completes zeroAction executeMigration review [] e = True"
| "no_review_completes zeroAction executeMigration review (s # ss) e =
     ((case s of ReviewRunning \<Rightarrow> \<not> review_completes review e | _ \<Rightarrow> True)
      \<and> no_review_completes zeroAction executeMigration review ss
          (step zeroAction executeMigration review s e))"

text \<open>
  A pending row that stands in the way of a \<open>singleton-context\<close> submission: it is of
  another context, and it is not a REVERT that itself lacks \<open>singleton-context\<close>.
\<close>

definition blocks_singleton_context :: "OnlineDDL \<Rightarrow> MigrationRow \<Rightarrow> bool" where
  "blocks_singleton_context d r =
     (migration_context r \<noteq> MigrationContext d
      \<and> \<not> (row_revert_uuid r \<noteq> None \<and> \<not> IsSingletonContext (row_setting r)))"

section \<open>The world outside the executor\<close>

text \<open>
  The handlers of a migration talk to MySQL, to vreplication, to the topology server and
  to the parser, and they read columns of the metadata table that the model does not
  keep. What these answer is not the executor's to decide: it is a parameter of the
  functions below, the world. An external call that can fail is named after the function
  that makes it and what it asks for. Where a function makes several such calls in a
  row and touches nothing of the executor between them, one name stands for the run,
  and its error is the first error of the run.
\<close>

datatype Call =
    executeDirectly_connect
  | executeDirectly_read_foreign_key_checks
  | executeDirectly_set_foreign_key_checks
  | executeDirectly_ExecuteFetch
  | ExecuteWithVReplication_NewDBConnection
  | ExecuteWithVReplication_prepare
  | ExecuteWithVReplication_insert
  | ExecuteWithVReplication_start
  | executeRevert_generateSwapTablesStatement
  | analyzeDrop_showCreateTable
  | analyzeDrop_ParseStrictDDL
  | executeDrop_ParseOnlineDDLStatement
  | executeDrop_GenerateRenameStatement
  | executeCreate_ParseOnlineDDLStatement
  | executeCreate_tableExists_of_view
  | executeCreate_ValidateAndEditCreateTableStatement
  | executeCreate_GenerateGCTableName
  | executeCreate_tableExists
  | executeAlterViewOnline_prepare
  | executeAlterViewOnline_swap
  | executeSpecialAlter_checkOnPreparedPool
  | executeSpecialAlter_killTableLockHoldersAndAccessors
  | executeSpecialAlter_analyzeSpecialAlterPlan
  | executeAlter_ParseOnlineDDLStatement
  | executeAlter_tableExists
  | executeMigration_getCompletedMigrationByContextAndSQL
  | executeMigration_ParseOnlineDDLStatement
  | executeMigration_tableExists
  | executeMigration_evaluateDeclarativeDiff
  | reviewQueuedMigrations_NewDBConnection
  | reviewImmediateOperations_analyzeSpecialAlterPlan
  | reviewRunning_readVReplStream
  | isVReplMigrationReadyToCutOver_readCountCopyState
  | cutOverVReplMigration_before_stop
  | cutOverVReplMigration_after_stop
  | cutOverVReplMigration_restart
  | gcArtifacts_gcArtifactTable
  | gcArtifacts_RemoveAll
  | gcArtifacts_deleteVReplicationEntry
  | lagThrottler_CheckIsOpen

text \<open>The yes-or-no questions the handlers put to the world.\<close>

datatype Question =
    tablet_is_primary
  | table_is_GC_table
  | statement_IfExists
  | statement_IfNotExists
  | statement_IsReplace
  | statement_is_CreateView
  | statement_is_CreateTable
  | statement_is_AlterView
  | executeCreate_view_exists
  | executeAlter_view_exists
  | executeMigration_table_exists
  | declarative_diff_is_empty
  | special_plan_found
  | special_plan_is_instantDDL
  | special_plan_is_rangePartition
  | queued_row_is_unreviewed
  | failed_by_tablet_failure
  | stream_has_terminal_error
  | lastError_ShouldRetry
  | stream_pos_is_empty
  | stream_lag_exceeds_threshold
  | copy_state_row_missing
  | copy_state_has_entries
  | artifacts_uncollected

text \<open>
  \<open>failure w uuid c\<close> is the error the call \<open>c\<close> returns while the migration \<open>uuid\<close> is
  handled (\<open>None\<close> is Go's \<open>nil\<close>), and \<open>holds w uuid q\<close> the answer to the question \<open>q\<close>.
  \<open>SQLErrorNum\<close> is the number of an error that is a \<open>sqlerror.SQLError\<close>, and \<open>None\<close> for any
  other error. \<open>artifactTables\<close> is the list in the column \<open>artifacts\<close> of a row.
  \<open>completeMigrationsOnTable\<close> is the result of the statement
  \<open>sqlSelectCompleteMigrationsOnTable\<close> for a table, and \<open>completedMigrationByContextAndSQL\<close>
  the UUID that \<open>sqlSelectCompleteMigrationsByContextAndSQL\<close> finds for a migration, empty
  when it finds none; the texts of both are not in the source. \<open>declarativeDiffStatement\<close>
  is the statement that turns the table into the one a declarative CREATE asks for.
  \<open>stale_minutes\<close> is the time a running migration has shown no liveness. The next four
  are columns that the statement \<open>sqlSelectRunningMigrations\<close> computes for a row, and
  \<open>stream_message\<close> is the message of the vreplication stream of a migration.
\<close>

record World =
  failure :: "string \<Rightarrow> Call \<Rightarrow> error option"
  holds :: "string \<Rightarrow> Question \<Rightarrow> bool"
  SQLErrorNum :: "error \<Rightarrow> nat option"
  artifactTables :: "string \<Rightarrow> string list"
  completeMigrationsOnTable :: "string \<Rightarrow> string list"
  completedMigrationByContextAndSQL :: "string \<Rightarrow> string"
  declarativeDiffStatement :: "string \<Rightarrow> string"
  stale_minutes :: "string \<Rightarrow> int"
  cutover_attempts :: "string \<Rightarrow> int"
  seconds_since_last_cutover_attempt :: "string \<Rightarrow> int"
  microseconds_since_ready_to_complete :: "string \<Rightarrow> int"
  elapsed_seconds :: "string \<Rightarrow> int"
  stream_message :: "string \<Rightarrow> string"

text \<open>The numbers MySQL gives the errors that the executor tells apart.\<close>

definition ERCantFindFile :: nat where
  "ERCantFindFile = 1017"

definition ERNoSuchTable :: nat where
  "ERNoSuchTable = 1146"

definition ERTooLongIdent :: nat where
  "ERTooLongIdent = 1059"

definition acceptableDropTableIfExistsErrorCodes :: "nat list" where
  "acceptableDropTableIfExistsErrorCodes = [ERCantFindFile, ERNoSuchTable]"

definition ErrExecutorNotWritableTablet :: error where
  "ErrExecutorNotWritableTablet = PlainError ''cannot run migration on non-writable tablet''"

definition emptyHint :: string where
  "emptyHint = []"

definition readyToCompleteHint :: string where
  "readyToCompleteHint = ''ready_to_complete''"

section \<open>The handlers of a migration\<close>

text \<open>
  \<open>onSchemaMigrationStatus\<close> writes the status of the row, after the timestamps that go
  with it and before the progress, the ETA and the copied rows, none of which the model
  keeps; with the hint it marks the row ready to complete; a report of a dry run counts
  only when it is a failure.
\<close>

definition onSchemaMigrationStatus ::
  "Executor \<Rightarrow> string \<Rightarrow> OnlineDDLStatus \<Rightarrow> bool \<Rightarrow> string \<Rightarrow> Executor" where
  "onSchemaMigrationStatus e uuid status dryRun hint =
     (if dryRun \<and> status \<noteq> OnlineDDLStatusFailed then e
      else
        (let e1 = updateMigrationStatus e uuid status;
             e2 = (if hint = readyToCompleteHint
                   then updateMigrationReadyToComplete e1 uuid True else e1)
         in if \<not> dryRun \<and> (status = OnlineDDLStatusComplete \<or> status = OnlineDDLStatusFailed)
            then triggerNextCheckInterval e2 else e2))"

text \<open>
  The closure \<open>failMigration\<close> of the handlers: it fails the migration and returns the
  error it was given, which may be \<open>nil\<close>.
\<close>

definition failed :: "Executor \<Rightarrow> OnlineDDL \<Rightarrow> error option \<Rightarrow> Executor \<times> error option" where
  "failed e onlineDDL withError = (failMigration e onlineDDL withError, withError)"

text \<open>
  \<open>executeDirectly\<close> returns the state, \<open>acceptableErrorCodeFound\<close> and the error. The
  connection and the SQL mode come first; then the row is marked running, the statement
  is run, and, unless it fails with an error that is not among the acceptable ones, the
  row is marked complete.
\<close>

definition executeDirectly ::
  "World \<Rightarrow> Executor \<Rightarrow> OnlineDDL \<Rightarrow> nat list \<Rightarrow> Executor \<times> bool \<times> error option" where
  "executeDirectly w e onlineDDL acceptableMySQLErrorCodes =
     (case failure w (UUID onlineDDL) executeDirectly_connect of
        Some err \<Rightarrow> (e, False, Some err)
      | None \<Rightarrow>
          (let e1 = onSchemaMigrationStatus e (UUID onlineDDL) OnlineDDLStatusRunning False emptyHint;
               foreignKeyChecks =
                 (if IsAllowForeignKeysFlag (Setting onlineDDL)
                  then (case failure w (UUID onlineDDL) executeDirectly_read_foreign_key_checks of
                          Some err \<Rightarrow>
                            Some (VtError Code_UNKNOWN
                                    (''could not read foreign_key_checks: '' @ error_Error err))
                        | None \<Rightarrow> failure w (UUID onlineDDL) executeDirectly_set_foreign_key_checks)
                  else None)
           in case foreignKeyChecks of
                Some err \<Rightarrow> (e1, False, Some err)
              | None \<Rightarrow>
                  (let err = failure w (UUID onlineDDL) executeDirectly_ExecuteFetch;
                       acceptableErrorCodeFound =
                         (case err of
                            None \<Rightarrow> False
                          | Some merr \<Rightarrow>
                              (case SQLErrorNum w merr of
                                 None \<Rightarrow> False
                               | Some num \<Rightarrow> List.member acceptableMySQLErrorCodes num))
                   in if err \<noteq> None \<and> \<not> acceptableErrorCodeFound then (e1, False, err)
                      else (onSchemaMigrationStatus e1 (UUID onlineDDL) OnlineDDLStatusComplete
                              False emptyHint,
                            acceptableErrorCodeFound, None))))"

text \<open>
  \<open>ExecuteWithVReplication\<close>. Whatever workflow runs under the name is terminated first,
  the error of that ignored. The executor then owns the migration and marks it running
  before the stream is prepared, inserted and started. \<open>revertMigration\<close> only decides
  how the stream is prepared.
\<close>

definition ExecuteWithVReplication ::
  "World \<Rightarrow> Executor \<Rightarrow> OnlineDDL \<Rightarrow> OnlineDDL option \<Rightarrow> Executor \<times> error option" where
  "ExecuteWithVReplication w e onlineDDL revertMigration =
     (let uuid = UUID onlineDDL;
          e0 = fst (terminateVReplMigration e uuid True)
      in if \<not> holds w uuid tablet_is_primary then (e0, Some ErrExecutorNotWritableTablet)
         else
           (case failure w uuid ExecuteWithVReplication_NewDBConnection of
              Some err \<Rightarrow> (e0, Some err)
            | None \<Rightarrow>
                (let e1 = e0\<lparr>ownedRunningMigrations :=
                               owned_Store uuid onlineDDL (ownedRunningMigrations e0)\<rparr>;
                     e2 = onSchemaMigrationStatus e1 uuid OnlineDDLStatusRunning False emptyHint
                 in case failure w uuid ExecuteWithVReplication_prepare of
                      Some err \<Rightarrow> (e2, Some err)
                    | None \<Rightarrow>
                        (case failure w uuid ExecuteWithVReplication_insert of
                           Some err \<Rightarrow> (e2, Some err)
                         | None \<Rightarrow>
                             (case failure w uuid ExecuteWithVReplication_start of
                                Some err \<Rightarrow>
                                  (e2\<lparr>vreplication := (uuid, False) # vreplication e2\<rparr>, Some err)
                              | None \<Rightarrow>
                                  (e2\<lparr>vreplication := (uuid, True) # vreplication e2\<rparr>, None))))))"

text \<open>
  \<open>validateMigrationRevertible\<close>: the error that forbids the revert, or \<open>None\<close>. Every row
  of the table is of the executor's keyspace.
\<close>

definition validateMigrationRevertible ::
  "World \<Rightarrow> Executor \<Rightarrow> OnlineDDL \<Rightarrow> string \<Rightarrow> error option" where
  "validateMigrationRevertible w e revertMigration revertingMigrationUUID =
     (case GetActionStr revertMigration of
        Inl err \<Rightarrow> Some err
      | Inr action \<Rightarrow>
          if action = AlterDDLAction
             \<and> Strategy (Setting revertMigration) \<noteq> DDLStrategyOnline
             \<and> Strategy (Setting revertMigration) \<noteq> DDLStrategyVitess
          then Some (PlainError (''can only revert a online strategy migration. Migration ''
                                 @ UUID revertMigration @ '' has another strategy''))
          else if action = OtherDDLAction
          then Some (PlainError (''cannot revert migration '' @ UUID revertMigration
                                 @ '': unexpected action''))
          else if Status revertMigration \<noteq> OnlineDDLStatusComplete
          then Some (PlainError (''can only revert a migration in a 'complete' state. Migration ''
                                 @ UUID revertMigration @ '' is in another state''))
          else
            (case find (\<lambda>row. migration_uuid row \<noteq> revertingMigrationUUID
                          \<and> mysql_table row = Table revertMigration)
                    (sqlSelectPendingMigrations (schema_migrations e)) of
               Some row \<Rightarrow>
                 Some (PlainError (''can not revert migration '' @ UUID revertMigration
                                   @ '' on table '' @ Table revertMigration @ '' because migration ''
                                   @ migration_uuid row @ '' is pending''))
             | None \<Rightarrow>
                 (case find (\<lambda>completeUUID. completeUUID \<noteq> UUID revertMigration)
                         (completeMigrationsOnTable w (Table revertMigration)) of
                    Some completeUUID \<Rightarrow>
                      Some (PlainError (''can not revert migration '' @ UUID revertMigration
                                        @ '' on table '' @ Table revertMigration
                                        @ '' because it is not the last migration to complete on that table. The last migration to complete was ''
                                        @ completeUUID))
                  | None \<Rightarrow> None)))"

text \<open>
  \<open>executeRevert\<close>. The revert of a CREATE or of a DROP renames the one artifact table,
  and is complete at once when there is none; the revert of an ALTER of a view swaps the
  view with its one artifact; the revert of an ALTER of a table runs with vreplication.
\<close>

definition executeRevert :: "World \<Rightarrow> Executor \<Rightarrow> OnlineDDL \<Rightarrow> Executor \<times> error option" where
  "executeRevert w e onlineDDL =
     (case GetRevertUUID onlineDDL of
        None \<Rightarrow> (e, Some (PlainError (''cannot run a revert migration '' @ UUID onlineDDL)))
      | Some revertUUID \<Rightarrow>
          (case readMigration e revertUUID of
             Inl err \<Rightarrow> (e, Some err)
           | Inr (revertMigration, row) \<Rightarrow>
               (case validateMigrationRevertible w e revertMigration (UUID onlineDDL) of
                  Some err \<Rightarrow> (e, Some err)
                | None \<Rightarrow>
                    (let tooMany = ''cannot run migration '' @ UUID onlineDDL @ '' reverting ''
                                   @ UUID revertMigration
                                   @ '': found more artifact tables than the expected maximum 1'';
                         rename =
                           (case artifactTables w revertUUID of
                              [] \<Rightarrow>
                                (onSchemaMigrationStatus e (UUID onlineDDL) OnlineDDLStatusComplete
                                   False emptyHint, None)
                            | [artifactTable] \<Rightarrow>
                                (let r = executeDirectly w e onlineDDL [] in (fst r, snd (snd r)))
                            | _ # _ # _ \<Rightarrow> (e, Some (PlainError tooMany)))
                     in case ddl_action row of
                          CreateDDLAction \<Rightarrow> rename
                        | DropDDLAction \<Rightarrow> rename
                        | AlterDDLAction \<Rightarrow>
                            if is_view row then
                              (case artifactTables w revertUUID of
                                 [] \<Rightarrow>
                                   (e, Some (VtError Code_FAILED_PRECONDITION
                                               (''cannot run migration '' @ UUID onlineDDL
                                                @ '' reverting '' @ UUID revertMigration
                                                @ '': found 0 artifact tables, expected 1'')))
                               | [artifactTable] \<Rightarrow>
                                   (case failure w (UUID onlineDDL)
                                           executeRevert_generateSwapTablesStatement of
                                      Some err \<Rightarrow> (e, Some err)
                                    | None \<Rightarrow>
                                        (let r = executeDirectly w e onlineDDL []
                                         in (fst r, snd (snd r))))
                               | _ # _ # _ \<Rightarrow> (e, Some (VtError Code_FAILED_PRECONDITION tooMany)))
                            else ExecuteWithVReplication w e onlineDDL (Some revertMigration)
                        | _ \<Rightarrow>
                            (e, Some (PlainError (''cannot run migration '' @ UUID onlineDDL
                                                  @ '' reverting '' @ UUID revertMigration
                                                  @ '': unexpected action'')))))))"

text \<open>
  \<open>analyzeDropDDLActionMigration\<close>: a table that is not there is fine; any other MySQL
  error of reading the definition is returned; an error that is not a MySQL error is
  passed over, and the definition read is then parsed.
\<close>

definition analyzeDropDDLActionMigration :: "World \<Rightarrow> OnlineDDL \<Rightarrow> error option" where
  "analyzeDropDDLActionMigration w onlineDDL =
     (case failure w (UUID onlineDDL) analyzeDrop_showCreateTable of
        None \<Rightarrow> failure w (UUID onlineDDL) analyzeDrop_ParseStrictDDL
      | Some err \<Rightarrow>
          (case SQLErrorNum w err of
             None \<Rightarrow> failure w (UUID onlineDDL) analyzeDrop_ParseStrictDDL
           | Some num \<Rightarrow>
               if num = ERNoSuchTable then None
               else Some (Wrapf (''attempting to read definition of '' @ Table onlineDDL) err)))"

text \<open>
  \<open>executeDropDDLActionMigration\<close>: a table of the garbage collector is dropped directly;
  any other is renamed, the statement run by \<open>executeDirectly\<close>, and with \<open>IF EXISTS\<close> a
  table that is not there is acceptable.
\<close>

definition executeDropDDLActionMigration ::
  "World \<Rightarrow> Executor \<Rightarrow> OnlineDDL \<Rightarrow> Executor \<times> error option" where
  "executeDropDDLActionMigration w e onlineDDL =
     (if holds w (UUID onlineDDL) table_is_GC_table then
        (let r = executeDirectly w e onlineDDL []
         in case snd (snd r) of
              Some err \<Rightarrow> failed (fst r) onlineDDL (Some err)
            | None \<Rightarrow> (fst r, None))
      else
        (case failure w (UUID onlineDDL) executeDrop_ParseOnlineDDLStatement of
           Some err \<Rightarrow> failed e onlineDDL (Some err)
         | None \<Rightarrow>
             (case analyzeDropDDLActionMigration w onlineDDL of
                Some err \<Rightarrow> failed e onlineDDL (Some err)
              | None \<Rightarrow>
                  (case failure w (UUID onlineDDL) executeDrop_GenerateRenameStatement of
                     Some err \<Rightarrow> failed e onlineDDL (Some err)
                   | None \<Rightarrow>
                       (let acceptableErrorCodes =
                              (if holds w (UUID onlineDDL) statement_IfExists
                               then acceptableDropTableIfExistsErrorCodes else []);
                            r = executeDirectly w e onlineDDL acceptableErrorCodes
                        in case snd (snd r) of
                             Some err \<Rightarrow> failed (fst r) onlineDDL (Some err)
                           | None \<Rightarrow> (fst r, None))))))"

text \<open>
  \<open>executeAlterViewOnline\<close> creates the view under another name, marks the row running
  before that, swaps the two views, and marks the row complete.
\<close>

definition executeAlterViewOnline :: "World \<Rightarrow> Executor \<Rightarrow> OnlineDDL \<Rightarrow> Executor \<times> error option" where
  "executeAlterViewOnline w e onlineDDL =
     (case failure w (UUID onlineDDL) executeAlterViewOnline_prepare of
        Some err \<Rightarrow> (e, Some err)
      | None \<Rightarrow>
          (let e1 = onSchemaMigrationStatus e (UUID onlineDDL) OnlineDDLStatusRunning False emptyHint
           in case failure w (UUID onlineDDL) executeAlterViewOnline_swap of
                Some err \<Rightarrow> (e1, Some err)
              | None \<Rightarrow>
                  (onSchemaMigrationStatus
                     (update_where (\<lambda>r. migration_uuid r = UUID onlineDDL)
                        (\<lambda>r. r\<lparr>ddl_action := AlterDDLAction\<rparr>) e1)
                     (UUID onlineDDL) OnlineDDLStatusComplete False emptyHint,
                   None)))"

text \<open>
  \<open>executeCreateDDLActionMigration\<close>: a CREATE OR REPLACE of a view that exists runs as an
  ALTER of the view; anything else runs directly.
\<close>

definition executeCreateDDLActionMigration ::
  "World \<Rightarrow> Executor \<Rightarrow> OnlineDDL \<Rightarrow> Executor \<times> error option" where
  "executeCreateDDLActionMigration w e onlineDDL =
     (let uuid = UUID onlineDDL;
          direct =
            (case (if holds w uuid statement_is_CreateTable
                   then failure w uuid executeCreate_ValidateAndEditCreateTableStatement
                   else None) of
               Some err \<Rightarrow> failed e onlineDDL (Some err)
             | None \<Rightarrow>
                 (case failure w uuid executeCreate_GenerateGCTableName of
                    Some err \<Rightarrow> failed e onlineDDL (Some err)
                  | None \<Rightarrow>
                      (case (if holds w uuid statement_IfNotExists
                             then failure w uuid executeCreate_tableExists else None) of
                         Some err \<Rightarrow> failed e onlineDDL (Some err)
                       | None \<Rightarrow>
                           (let r = executeDirectly w e onlineDDL []
                            in case snd (snd r) of
                                 Some err \<Rightarrow> failed (fst r) onlineDDL (Some err)
                               | None \<Rightarrow> (fst r, None)))))
      in case failure w uuid executeCreate_ParseOnlineDDLStatement of
           Some err \<Rightarrow> failed e onlineDDL (Some err)
         | None \<Rightarrow>
             if holds w uuid statement_is_CreateView \<and> holds w uuid statement_IsReplace
             then
               (case failure w uuid executeCreate_tableExists_of_view of
                  Some err \<Rightarrow> failed e onlineDDL (Some err)
                | None \<Rightarrow>
                    if holds w uuid executeCreate_view_exists
                    then
                      (let r = executeAlterViewOnline w e onlineDDL
                       in case snd r of
                            Some err \<Rightarrow> failed (fst r) onlineDDL (Some err)
                          | None \<Rightarrow> (fst r, None))
                    else direct)
             else direct)"

text \<open>
  \<open>executeSpecialAlterDirectDDLActionMigration\<close> buffers the queries on the table, and
  with a \<open>--force-cut-over-after\<close> above zero kills what holds the table, before it runs
  the statement directly.
\<close>

definition executeSpecialAlterDirectDDLActionMigration ::
  "World \<Rightarrow> Executor \<Rightarrow> OnlineDDL \<Rightarrow> Executor \<times> error option" where
  "executeSpecialAlterDirectDDLActionMigration w e onlineDDL =
     (case ForceCutOverAfter (Setting onlineDDL) of
        Inl err \<Rightarrow> (e, Some err)
      | Inr forceCutOverAfter \<Rightarrow>
          (case (if forceCutOverAfter > 0
                 then (case failure w (UUID onlineDDL) executeSpecialAlter_checkOnPreparedPool of
                         Some err \<Rightarrow> Some (Wrapf ''checking prepared pool for table'' err)
                       | None \<Rightarrow>
                           (case failure w (UUID onlineDDL)
                                   executeSpecialAlter_killTableLockHoldersAndAccessors of
                              Some err \<Rightarrow>
                                Some (Wrapf ''failed killing table lock holders and accessors'' err)
                            | None \<Rightarrow> None))
                 else None) of
             Some err \<Rightarrow> (e, Some err)
           | None \<Rightarrow> (let r = executeDirectly w e onlineDDL [] in (fst r, snd (snd r)))))"

text \<open>
  \<open>executeSpecialAlterDDLActionMigrationIfApplicable\<close> returns the state,
  \<open>specialMigrationExecuted\<close> and the error.
\<close>

definition executeSpecialAlterDDLActionMigrationIfApplicable ::
  "World \<Rightarrow> Executor \<Rightarrow> OnlineDDL \<Rightarrow> Executor \<times> bool \<times> error option" where
  "executeSpecialAlterDDLActionMigrationIfApplicable w e onlineDDL =
     (case failure w (UUID onlineDDL) executeSpecialAlter_analyzeSpecialAlterPlan of
        Some err \<Rightarrow> (e, False, Some err)
      | None \<Rightarrow>
          if \<not> holds w (UUID onlineDDL) special_plan_found then (e, False, None)
          else if holds w (UUID onlineDDL) special_plan_is_instantDDL
                  \<or> holds w (UUID onlineDDL) special_plan_is_rangePartition
          then
            (let r = executeSpecialAlterDirectDDLActionMigration w e onlineDDL
             in case snd r of
                  Some err \<Rightarrow> (fst r, False, Some err)
                | None \<Rightarrow>
                    (onSchemaMigrationStatus (fst r) (UUID onlineDDL) OnlineDDLStatusComplete
                       False emptyHint,
                     True, None))
          else (e, False, None))"

text \<open>
  \<open>executeAlterDDLActionMigration\<close>. The ALTER of a view that does not exist is run all
  the same, for the error of MySQL, and the migration is then failed with whatever that
  run returns.
\<close>

definition executeAlterDDLActionMigration ::
  "World \<Rightarrow> Executor \<Rightarrow> OnlineDDL \<Rightarrow> Executor \<times> error option" where
  "executeAlterDDLActionMigration w e onlineDDL =
     (case failure w (UUID onlineDDL) executeAlter_ParseOnlineDDLStatement of
        Some err \<Rightarrow> failed e onlineDDL (Some err)
      | None \<Rightarrow>
          if holds w (UUID onlineDDL) statement_is_AlterView then
            (case failure w (UUID onlineDDL) executeAlter_tableExists of
               Some err \<Rightarrow> failed e onlineDDL (Some err)
             | None \<Rightarrow>
                 if \<not> holds w (UUID onlineDDL) executeAlter_view_exists
                 then (let r = executeDirectly w e onlineDDL []
                       in failed (fst r) onlineDDL (snd (snd r)))
                 else
                   (let r = executeAlterViewOnline w e onlineDDL
                    in case snd r of
                         Some err \<Rightarrow> failed (fst r) onlineDDL (Some err)
                       | None \<Rightarrow> (fst r, None)))
          else
            (let s = executeSpecialAlterDDLActionMigrationIfApplicable w e onlineDDL
             in case snd (snd s) of
                  Some err \<Rightarrow> failed (fst s) onlineDDL (Some err)
                | None \<Rightarrow>
                    if fst (snd s) then (fst s, None)
                    else
                      (case Strategy (Setting onlineDDL) of
                         DDLStrategyOnline \<Rightarrow>
                           (let r = ExecuteWithVReplication w (fst s) onlineDDL None
                            in case snd r of
                                 Some err \<Rightarrow> failed (fst r) onlineDDL (Some err)
                               | None \<Rightarrow> (fst r, None))
                       | DDLStrategyVitess \<Rightarrow>
                           (let r = ExecuteWithVReplication w (fst s) onlineDDL None
                            in case snd r of
                                 Some err \<Rightarrow> failed (fst r) onlineDDL (Some err)
                               | None \<Rightarrow> (fst r, None))
                       | DDLStrategyMySQL \<Rightarrow>
                           (let r = executeDirectly w (fst s) onlineDDL []
                            in case snd (snd r) of
                                 Some err \<Rightarrow> failed (fst r) onlineDDL (Some err)
                               | None \<Rightarrow> (fst r, None))
                       | DDLStrategyDirect \<Rightarrow>
                           failed (fst s) onlineDDL (Some (PlainError ''Unsupported strategy'')))))"

text \<open>
  The part of \<open>executeMigration\<close> for a declarative strategy. It returns the state, the
  error, and the action to go on with, which is \<open>None\<close> where \<open>executeMigration\<close> returns
  at this point: a declarative CREATE of a table that exists and differs goes on as an
  ALTER.
\<close>

definition declarativeMigration ::
  "World \<Rightarrow> Executor \<Rightarrow> OnlineDDL \<Rightarrow> DDLAction \<Rightarrow> Executor \<times> error option \<times> DDLAction option" where
  "declarativeMigration w e onlineDDL ddlAction =
     (let uuid = UUID onlineDDL;
          fails = (\<lambda>withError. (failMigration e onlineDDL (Some withError), Some withError, None));
          unimplemented = (\<lambda>what.
            fails (VtError Code_UNIMPLEMENTED
                     (''strategy is declarative. '' @ what @ '' in declarative mode for migration ''
                      @ uuid)));
          noChange =
            (updateMigrationMessage
               (onSchemaMigrationStatus e uuid OnlineDDLStatusComplete False emptyHint)
               uuid ''no change'', None, None)
      in case ddlAction of
           RevertDDLAction \<Rightarrow> (e, None, Some ddlAction)
         | AlterDDLAction \<Rightarrow> unimplemented ''ALTER cannot run''
         | DropDDLAction \<Rightarrow>
             (case failure w uuid executeMigration_ParseOnlineDDLStatement of
                Some err \<Rightarrow> fails err
              | None \<Rightarrow>
                  if holds w uuid statement_IfExists then unimplemented ''IF EXISTS does not work''
                  else
                    (case failure w uuid executeMigration_tableExists of
                       Some err \<Rightarrow> fails err
                     | None \<Rightarrow>
                         if holds w uuid executeMigration_table_exists then (e, None, Some ddlAction)
                         else noChange))
         | CreateDDLAction \<Rightarrow>
             (case failure w uuid executeMigration_ParseOnlineDDLStatement of
                Some err \<Rightarrow> fails err
              | None \<Rightarrow>
                  if holds w uuid statement_IfNotExists
                  then unimplemented ''IF NOT EXISTS does not work''
                  else if holds w uuid statement_IsReplace
                  then unimplemented ''OR REPLACE does not work''
                  else
                    (case failure w uuid executeMigration_tableExists of
                       Some err \<Rightarrow> fails err
                     | None \<Rightarrow>
                         if \<not> holds w uuid executeMigration_table_exists
                         then (e, None, Some ddlAction)
                         else
                           (case failure w uuid executeMigration_evaluateDeclarativeDiff of
                              Some err \<Rightarrow> fails err
                            | None \<Rightarrow>
                                if holds w uuid declarative_diff_is_empty then noChange
                                else
                                  (let e1 = update_where (\<lambda>r. migration_uuid r = uuid)
                                              (\<lambda>r. r\<lparr>ddl_action := AlterDDLAction\<rparr>) e;
                                       e2 = updateMigrationMessage e1 uuid
                                              (declarativeDiffStatement w uuid)
                                   in (e2, None,
                                       Some (if holds w uuid statement_is_CreateView
                                             then ddlAction else AlterDDLAction))))))
         | OtherDDLAction \<Rightarrow> (e, None, Some ddlAction))"

text \<open>
  The last part of \<open>executeMigration\<close>: the handler of the action. The handlers of DROP and
  of CREATE are started in goroutines of their own, which wait for the mutex that the
  runner holds; here each runs when \<open>executeMigration\<close> has returned, after the deferred
  \<open>triggerNextCheckInterval\<close>, and before anything else touches the executor. The error
  such a handler returns is dropped, as it is in the goroutine.
\<close>

definition dispatchMigration ::
  "World \<Rightarrow> Executor \<Rightarrow> OnlineDDL \<Rightarrow> DDLAction \<Rightarrow> Executor \<times> error option" where
  "dispatchMigration w e onlineDDL ddlAction =
     (case ddlAction of
        DropDDLAction \<Rightarrow>
          (fst (executeDropDDLActionMigration w (triggerNextCheckInterval e) onlineDDL), None)
      | CreateDDLAction \<Rightarrow>
          (fst (executeCreateDDLActionMigration w (triggerNextCheckInterval e) onlineDDL), None)
      | AlterDDLAction \<Rightarrow>
          (let r = executeAlterDDLActionMigration w e onlineDDL
           in (triggerNextCheckInterval (fst r), snd r))
      | RevertDDLAction \<Rightarrow>
          (let r = executeRevert w e onlineDDL
           in case snd r of
                Some err \<Rightarrow>
                  (triggerNextCheckInterval (failMigration (fst r) onlineDDL (Some err)), None)
              | None \<Rightarrow> (triggerNextCheckInterval (fst r), None))
      | OtherDDLAction \<Rightarrow> (triggerNextCheckInterval e, None))"

text \<open>
  \<open>executeMigration\<close>. A migration whose context and statement are those of a complete
  one is marked complete at once. \<open>returns\<close> is a return before the handlers, with the
  deferred \<open>triggerNextCheckInterval\<close>.
\<close>

definition executeMigration :: "World \<Rightarrow> Executor \<Rightarrow> OnlineDDL \<Rightarrow> Executor \<times> error option" where
  "executeMigration w e onlineDDL =
     (let uuid = UUID onlineDDL;
          returns = (\<lambda>r. (triggerNextCheckInterval (fst r), snd r))
      in case snd (GetAction onlineDDL) of
           Some err \<Rightarrow> returns (failed e onlineDDL (Some err))
         | None \<Rightarrow>
             (case (if MigrationContext onlineDDL = [] then None
                    else failure w uuid executeMigration_getCompletedMigrationByContextAndSQL) of
                Some err \<Rightarrow> returns (e, Some err)
              | None \<Rightarrow>
                  (let completedUUID =
                         (if MigrationContext onlineDDL = [] then []
                          else completedMigrationByContextAndSQL w uuid)
                   in if completedUUID \<noteq> [] then
                        returns
                          (updateMigrationMessage
                             (onSchemaMigrationStatus e uuid OnlineDDLStatusComplete False emptyHint)
                             uuid
                             (''duplicate DDL as '' @ completedUUID @ '' for migration context ''
                              @ MigrationContext onlineDDL),
                           None)
                      else if IsDeclarative (Setting onlineDDL) then
                        (let r = declarativeMigration w e onlineDDL (fst (GetAction onlineDDL))
                         in case snd (snd r) of
                              None \<Rightarrow> returns (fst r, fst (snd r))
                            | Some ddlAction \<Rightarrow> dispatchMigration w (fst r) onlineDDL ddlAction)
                      else dispatchMigration w e onlineDDL (fst (GetAction onlineDDL)))))"

section \<open>The reviewer of queued migrations\<close>

text \<open>
  \<open>reviewEmptyTableRevertMigrations\<close> returns the state, \<open>changesMade\<close> and the error. A
  REVERT without a table takes the table and the view flag of the migration it reverts,
  and the action that undoes it; where that cannot be found out, the REVERT is failed.
\<close>

definition reviewEmptyTableRevertMigrations ::
  "Executor \<Rightarrow> OnlineDDL \<Rightarrow> Executor \<times> bool \<times> error option" where
  "reviewEmptyTableRevertMigrations e onlineDDL =
     (if Table onlineDDL \<noteq> [] then (e, False, None)
      else
        (case GetRevertUUID onlineDDL of
           None \<Rightarrow>
             (let withError = PlainError (''cannot analyze revert UUID for revert migration ''
                                          @ UUID onlineDDL)
              in (failMigration e onlineDDL (Some withError), False, Some withError))
         | Some revertUUID \<Rightarrow>
             (case readMigration e revertUUID of
                Inl err \<Rightarrow>
                  (let withError = PlainError (''cannot read migration '' @ revertUUID
                                               @ '' reverted by migration '' @ UUID onlineDDL
                                               @ '': '' @ error_Error err)
                   in (failMigration e onlineDDL (Some withError), False, Some withError))
              | Inr (revertedMigration, revertedRow) \<Rightarrow>
                  (let mimic = (\<lambda>mimickedAction.
                         (update_where (\<lambda>r. migration_uuid r = UUID onlineDDL)
                            (\<lambda>r. r\<lparr>ddl_action := mimickedAction,
                                    is_view := is_view revertedRow,
                                    mysql_table := Table revertedMigration\<rparr>) e,
                          True, None));
                       withError = PlainError (''cannot run migration '' @ UUID onlineDDL
                                               @ '' reverting '' @ UUID revertedMigration
                                               @ '': unexpected action'')
                   in case ddl_action revertedRow of
                        CreateDDLAction \<Rightarrow> mimic DropDDLAction
                      | DropDDLAction \<Rightarrow> mimic CreateDDLAction
                      | AlterDDLAction \<Rightarrow> mimic AlterDDLAction
                      | _ \<Rightarrow> (failMigration e onlineDDL (Some withError), False, Some withError)))))"

text \<open>\<open>reviewImmediateOperations\<close> returns whether the operation is immediate, and the error.\<close>

definition reviewImmediateOperations ::
  "World \<Rightarrow> OnlineDDL \<Rightarrow> DDLAction \<Rightarrow> bool \<Rightarrow> bool \<Rightarrow> bool \<times> error option" where
  "reviewImmediateOperations w onlineDDL ddlAction isRevert isView =
     (case ddlAction of
        CreateDDLAction \<Rightarrow> (True, None)
      | DropDDLAction \<Rightarrow> (True, None)
      | AlterDDLAction \<Rightarrow>
          if isView then (True, None)
          else if isRevert then (False, None)
          else
            (case failure w (UUID onlineDDL) reviewImmediateOperations_analyzeSpecialAlterPlan of
               Some err \<Rightarrow> (False, Some err)
             | None \<Rightarrow> (holds w (UUID onlineDDL) special_plan_found, None))
      | _ \<Rightarrow> (False, None))"

text \<open>
  \<open>reviewQueuedMigration\<close>. The last step stamps \<open>reviewed_timestamp\<close>, which the model does
  not keep.
\<close>

definition reviewQueuedMigration :: "World \<Rightarrow> Executor \<Rightarrow> string \<Rightarrow> Executor \<times> error option" where
  "reviewQueuedMigration w e uuid =
     (case readMigration e uuid of
        Inl err \<Rightarrow> (e, Some err)
      | Inr (onlineDDL, row) \<Rightarrow>
          (let isRevert = (ddl_action row = RevertDDLAction);
               reviewed = (if isRevert then reviewEmptyTableRevertMigrations e onlineDDL
                           else (e, False, None));
               e1 = fst reviewed
           in case snd (snd reviewed) of
                Some err \<Rightarrow> (e1, Some err)
              | None \<Rightarrow>
                  (case (if fst (snd reviewed) then readMigration e1 uuid
                         else Inr (onlineDDL, row)) of
                     Inl err \<Rightarrow> (e1, Some err)
                   | Inr (onlineDDL1, row1) \<Rightarrow>
                       (let immediate = reviewImmediateOperations w onlineDDL1 (ddl_action row1)
                                          isRevert (is_view row1)
                        in case snd immediate of
                             Some err \<Rightarrow> (e1, Some err)
                           | None \<Rightarrow>
                               (let e2 = (if fst immediate
                                          then update_where (\<lambda>r. migration_uuid r = UUID onlineDDL1)
                                                 (\<lambda>r. r\<lparr>is_immediate_operation := True\<rparr>) e1
                                          else e1)
                                in if Strategy (Setting onlineDDL1) = DDLStrategyMySQL
                                      \<and> IsPostponeCompletion (Setting onlineDDL1)
                                   then (e2, Some (VtError Code_INVALID_ARGUMENT
                                           ''--postpone-completion not supported in 'mysql' strategy''))
                                   else if Strategy (Setting onlineDDL1) = DDLStrategyMySQL
                                           \<and> IsAllowZeroInDateFlag (Setting onlineDDL1)
                                   then (e2, Some (VtError Code_INVALID_ARGUMENT
                                           ''--allow-zero-in-date not supported in 'mysql' strategy''))
                                   else (e2, None))))))"

text \<open>
  Modelled from the spec: the statement \<open>sqlSelectQueuedUnreviewedMigrations\<close> is not in the
  source; the reviewer takes the queued rows whose \<open>reviewed_timestamp\<close> is null. The model
  does not keep that column, so the world says which rows these are.
\<close>

definition sqlSelectQueuedUnreviewedMigrations :: "World \<Rightarrow> MigrationRow list \<Rightarrow> MigrationRow list" where
  "sqlSelectQueuedUnreviewedMigrations w rows =
     filter (\<lambda>r. migration_status r = OnlineDDLStatusQueued
               \<and> holds w (migration_uuid r) queued_row_is_unreviewed) rows"

text \<open>
  The migration \<open>&schema.OnlineDDL{UUID: uuid}\<close> that \<open>reviewQueuedMigrations\<close> hands to
  \<open>failMigration\<close>, which reads its UUID only; the other fields are not read.
\<close>

definition OnlineDDL_of_UUID :: "string \<Rightarrow> OnlineDDL" where
  "OnlineDDL_of_UUID uuid =
     \<lparr> UUID = uuid, Table = [],
       Setting = \<lparr> Strategy = DDLStrategyDirect, IsAllowConcurrent = False, IsSingleton = False,
                   IsSingletonContext = False, IsSingletonTable = False, IsPostponeLaunch = False,
                   IsPostponeCompletion = False, IsInOrderCompletion = False,
                   CutOverThreshold = Inr 0, RetainArtifactsDuration = 0, IsDeclarative = False,
                   IsAllowForeignKeysFlag = False, IsAllowZeroInDateFlag = False,
                   IsVreplicationTestSuite = False, ForceCutOverAfter = Inr 0 \<rparr>,
       Status = OnlineDDLStatusQueued, MigrationContext = [], TabletAlias = [],
       ReadyToComplete = False, WasReadyToComplete = False,
       GetAction = (OtherDDLAction, None), GetRevertUUID = None, IsView = False \<rparr>"

text \<open>The loop of \<open>reviewQueuedMigrations\<close>: a migration whose review fails is failed.\<close>

fun reviewQueuedLoop :: "World \<Rightarrow> string list \<Rightarrow> Executor \<Rightarrow> Executor" where
  "reviewQueuedLoop w [] e = e"
| "reviewQueuedLoop w (uuid # uuids) e =
     (let r = reviewQueuedMigration w e uuid
      in reviewQueuedLoop w uuids
           (case snd r of
              Some err \<Rightarrow> failMigration (fst r) (OnlineDDL_of_UUID uuid) (Some err)
            | None \<Rightarrow> fst r))"

definition reviewQueuedMigrations :: "World \<Rightarrow> Executor \<Rightarrow> Executor \<times> error option" where
  "reviewQueuedMigrations w e =
     (case failure w [] reviewQueuedMigrations_NewDBConnection of
        Some err \<Rightarrow> (e, Some err)
      | None \<Rightarrow>
          (reviewQueuedLoop w
             (map migration_uuid (sqlSelectQueuedUnreviewedMigrations w (schema_migrations e))) e,
           None))"

section \<open>The cut-over and the review of a running migration\<close>

text \<open>The 64 bits of a signed product, as Go's \<open>int64\<close> arithmetic leaves it.\<close>

definition int64 :: "int \<Rightarrow> int" where
  "int64 x = (x + 2 ^ 63) mod 2 ^ 64 - 2 ^ 63"

definition Microsecond :: Duration where
  "Microsecond = 1000"

definition vreplicationTestSuiteWaitSeconds :: int where
  "vreplicationTestSuiteWaitSeconds = 5"

definition staleMigrationFailMinutes :: int where
  "staleMigrationFailMinutes = 180"

definition staleMigrationWarningMinutes :: int where
  "staleMigrationWarningMinutes = 5"

text \<open>\<open>isVReplMigrationReadyToCutOver\<close> returns \<open>isReady\<close> and the error.\<close>

definition isVReplMigrationReadyToCutOver :: "World \<Rightarrow> string \<Rightarrow> bool \<times> error option" where
  "isVReplMigrationReadyToCutOver w uuid =
     (if holds w uuid stream_pos_is_empty then (False, None)
      else if holds w uuid stream_lag_exceeds_threshold then (False, None)
      else
        (case failure w uuid isVReplMigrationReadyToCutOver_readCountCopyState of
           Some err \<Rightarrow> (False, Some err)
         | None \<Rightarrow>
             if holds w uuid copy_state_row_missing then (False, None)
             else if holds w uuid copy_state_has_entries then (False, None)
             else (True, None)))"

text \<open>
  \<open>cutOverVReplMigration\<close>. All that comes before vreplication is stopped leaves the
  executor as it is. A failure after the stop has the deferred function start
  vreplication again, which may fail too. When the tables are renamed the executor
  gives up the migration and marks the row complete.
\<close>

definition cutOverVReplMigration :: "World \<Rightarrow> Executor \<Rightarrow> string \<Rightarrow> bool \<Rightarrow> Executor \<times> error option" where
  "cutOverVReplMigration w e uuid shouldForceCutOver =
     (case readMigration e uuid of
        Inl err \<Rightarrow> (e, Some (Wrapf ''cutover: failed reading migration'' err))
      | Inr (onlineDDL, row) \<Rightarrow>
          (case failure w uuid cutOverVReplMigration_before_stop of
             Some err \<Rightarrow> (e, Some err)
           | None \<Rightarrow>
               (let stopped = e\<lparr>vreplication :=
                                  map (\<lambda>kv. if fst kv = uuid then (fst kv, False) else kv)
                                    (vreplication e)\<rparr>
                in case failure w uuid cutOverVReplMigration_after_stop of
                     Some err \<Rightarrow>
                       ((case failure w uuid cutOverVReplMigration_restart of
                           Some _ \<Rightarrow> stopped
                         | None \<Rightarrow>
                             stopped\<lparr>vreplication :=
                                        map (\<lambda>kv. if fst kv = uuid then (fst kv, True) else kv)
                                          (vreplication stopped)\<rparr>),
                        Some err)
                   | None \<Rightarrow>
                       (onSchemaMigrationStatus
                          (stopped\<lparr>ownedRunningMigrations :=
                                      owned_Delete (UUID onlineDDL) (ownedRunningMigrations stopped)\<rparr>)
                          (UUID onlineDDL) OnlineDDLStatusComplete False emptyHint,
                        None))))"

text \<open>
  Modelled from the spec: the statement \<open>sqlUpdateTablet\<close> is not in the source; the
  executor that adopts a migration writes its own alias to the \<open>tablet\<close> of the row.
\<close>

definition updateMigrationTablet :: "Executor \<Rightarrow> string \<Rightarrow> Executor" where
  "updateMigrationTablet e uuid =
     update_where (\<lambda>r. migration_uuid r = uuid) (\<lambda>r. r\<lparr>tablet := tabletAlias e\<rparr>) e"

text \<open>
  What the review of one running migration leaves: the state, the migrations it found
  cancellable, the cancels it started in goroutines of their own, and the error.
\<close>

record Reviewed =
  state :: Executor
  cancellable :: "(string \<times> string) list"
  started_cancel :: "(string \<times> string) list"
  error :: "error option"

text \<open>
  The closure \<open>reviewVReplRunningMigration\<close> of \<open>reviewRunningMigrations\<close>, for the row
  \<open>row\<close> of the running migrations and the migration \<open>onlineDDL\<close> read for it. A negative
  count of cut-over attempts makes \<open>shouldCutOverAccordingToBackoff\<close> panic, which stops
  the review as an error does.
\<close>

definition reviewVReplRunningMigration ::
  "World \<Rightarrow> string list \<Rightarrow> MigrationRow \<Rightarrow> OnlineDDL \<Rightarrow> Executor \<Rightarrow> Reviewed" where
  "reviewVReplRunningMigration w pendingMigrationsUUIDs row onlineDDL e =
     (let uuid = migration_uuid row;
          strategySetting = Setting onlineDDL;
          forceCutOverAfter = (case ForceCutOverAfter strategySetting of
                                 Inl _ \<Rightarrow> 0 | Inr d \<Rightarrow> d)
      in case failure w uuid reviewRunning_readVReplStream of
           Some err \<Rightarrow> \<lparr>state = e, cancellable = [], started_cancel = [], error = Some err\<rparr>
         | None \<Rightarrow>
             (let e1 = (if IsVreplicationTestSuite strategySetting
                        then triggerNextCheckInterval e else e)
              in case readVReplStream e1 uuid of
                   None \<Rightarrow> \<lparr>state = e1, cancellable = [], started_cancel = [], error = None\<rparr>
                 | Some isRunning \<Rightarrow>
                     (let found = (if holds w uuid stream_has_terminal_error
                                      \<or> \<not> holds w uuid lastError_ShouldRetry
                                   then [(uuid, stream_message w uuid)] else []);
                          ends = (\<lambda>s err. \<lparr>state = s, cancellable = found, started_cancel = [],
                                           error = err\<rparr>)
                      in if \<not> isRunning then ends e1 None
                         else
                           (let e2 = e1\<lparr>ownedRunningMigrations :=
                                          owned_Store uuid onlineDDL (ownedRunningMigrations e1)\<rparr>;
                                e3 = (if TabletAlias onlineDDL \<noteq> tabletAlias e2
                                      then updateMigrationTablet e2 uuid else e2);
                                v = (if IsInOrderCompletion (Setting onlineDDL)
                                     then validateInOrderMigration e3 onlineDDL
                                     else (e3, False, None));
                                e4 = fst v
                            in if snd (snd v) \<noteq> None then ends e4 (snd (snd v))
                               else if fst (snd v) then ends e4 None
                               else
                                 (case snd (isVReplMigrationReadyToCutOver w uuid) of
                                    Some err \<Rightarrow>
                                      ends (updateMigrationMessage e4 uuid (error_Error err)) (Some err)
                                  | None \<Rightarrow>
                                      (let isReady =
                                             (fst (isVReplMigrationReadyToCutOver w uuid)
                                              \<and> \<not> (IsVreplicationTestSuite strategySetting
                                                    \<and> elapsed_seconds w uuid
                                                        < vreplicationTestSuiteWaitSeconds));
                                           e5 = updateMigrationReadyToComplete e4 uuid isReady
                                       in if \<not> isReady then ends e5 None
                                          else if postpone_completion row then ends e5 None
                                          else if IsInOrderCompletion strategySetting
                                                  \<and> (case pendingMigrationsUUIDs of
                                                       [] \<Rightarrow> False
                                                     | p # _ \<Rightarrow> p \<noteq> UUID onlineDDL)
                                          then ends e5 None
                                          else
                                            (case shouldCutOverAccordingToBackoff
                                                    (force_cutover row) forceCutOverAfter
                                                    (int64 (Microsecond
                                                       * microseconds_since_ready_to_complete w uuid))
                                                    (int64 (Second
                                                       * seconds_since_last_cutover_attempt w uuid))
                                                    (cutover_attempts w uuid) of
                                               Inl panic \<Rightarrow> ends e5 (Some panic)
                                             | Inr (shouldCutOver, shouldForceCutOver) \<Rightarrow>
                                                 if \<not> shouldCutOver then ends e5 None
                                                 else
                                                   (let c = cutOverVReplMigration w e5 uuid
                                                              shouldForceCutOver
                                                    in case snd c of
                                                         None \<Rightarrow> ends (fst c) None
                                                       | Some err \<Rightarrow>
                                                           \<lparr>state = updateMigrationMessage (fst c) uuid
                                                                      (error_Error err),
                                                            cancellable = found,
                                                            started_cancel =
                                                              (if SQLErrorNum w err = Some ERTooLongIdent
                                                               then [(uuid, error_Error err)] else []),
                                                            error = Some err\<rparr>))))))))"

text \<open>
  Modelled from the spec: the statement \<open>sqlSelectRunningMigrations\<close> is not in the source;
  the reviewer goes through each row in \<open>running\<close>.
\<close>

definition sqlSelectRunningMigrations :: "MigrationRow list \<Rightarrow> MigrationRow list" where
  "sqlSelectRunningMigrations rows = filter (\<lambda>r. migration_status r = OnlineDDLStatusRunning) rows"

text \<open>
  The loop of \<open>reviewRunningMigrations\<close> over the running rows. Only a migration of the
  strategies \<open>online\<close> and \<open>vitess\<close> is reviewed; the first error ends the loop.
\<close>

fun reviewRunningLoop ::
  "World \<Rightarrow> string list \<Rightarrow> MigrationRow list \<Rightarrow> (string \<times> string) list \<Rightarrow> Executor \<Rightarrow> Reviewed" where
  "reviewRunningLoop w pendingMigrationsUUIDs [] found e =
     \<lparr>state = e, cancellable = found, started_cancel = [], error = None\<rparr>"
| "reviewRunningLoop w pendingMigrationsUUIDs (row # rows) found e =
     (case readMigration e (migration_uuid row) of
        Inl err \<Rightarrow> \<lparr>state = e, cancellable = found, started_cancel = [], error = Some err\<rparr>
      | Inr (onlineDDL, migrationRow) \<Rightarrow>
          if Strategy (Setting onlineDDL) = DDLStrategyOnline
             \<or> Strategy (Setting onlineDDL) = DDLStrategyVitess
          then
            (let r = reviewVReplRunningMigration w pendingMigrationsUUIDs row onlineDDL e
             in if error r \<noteq> None then r\<lparr>cancellable := found @ cancellable r\<rparr>
                else reviewRunningLoop w pendingMigrationsUUIDs rows (found @ cancellable r)
                       (state r))
          else reviewRunningLoop w pendingMigrationsUUIDs rows found e)"

text \<open>
  The part of \<open>reviewRunningMigrations\<close> between its first check and its last assignment:
  the loop, and after a loop without an error the removal from the ownership map of what
  is neither running nor pending.
\<close>

definition reviewRunningBody :: "World \<Rightarrow> Executor \<Rightarrow> Reviewed" where
  "reviewRunningBody w e =
     (let running = sqlSelectRunningMigrations (schema_migrations e);
          pendingMigrationsUUIDs = readPendingMigrationsUUIDs e;
          r = reviewRunningLoop w pendingMigrationsUUIDs running [] e
      in if error r \<noteq> None then r
         else r\<lparr>state := (state r)\<lparr>ownedRunningMigrations :=
                  filter (\<lambda>kv. List.member (map migration_uuid running) (fst kv)
                             \<or> List.member pendingMigrationsUUIDs (fst kv))
                    (ownedRunningMigrations (state r))\<rparr>\<rparr>)"

text \<open>\<open>cancelMigrations\<close> cancels one migration after the other and stops at the first error.\<close>

fun cancelMigrations ::
  "Executor \<Rightarrow> nat \<Rightarrow> (string \<times> string) list \<Rightarrow> bool \<Rightarrow> Executor \<times> error option" where
  "cancelMigrations e now [] issuedByUser = (e, None)"
| "cancelMigrations e now (migration # migrations) issuedByUser =
     (case CancelMigration e now (fst migration) (snd migration) issuedByUser of
        (e1, Inl err) \<Rightarrow> (e1, Some err)
      | (e1, Inr _) \<Rightarrow> cancelMigrations e1 now migrations issuedByUser)"

text \<open>
  The step of the tick that reviews the running migrations: \<open>reviewRunningMigrations\<close>,
  and, when that returns no error, \<open>cancelMigrations\<close> on what it found cancellable. A
  cancel that the review started in a goroutine of its own waits for the mutex; here it
  runs when \<open>reviewRunningMigrations\<close> has returned.
\<close>

definition reviewRunningMigrationsAndCancel :: "World \<Rightarrow> nat \<Rightarrow> Executor \<Rightarrow> Executor" where
  "reviewRunningMigrationsAndCancel w now e =
     (let r = reviewRunningMigrations (\<lambda>s. (state (reviewRunningBody w s),
                                            error (reviewRunningBody w s))) e
      in if \<not> isOpen e then fst r
         else
           (case snd r of
              Some err \<Rightarrow>
                fst (cancelMigrations (fst r) now (started_cancel (reviewRunningBody w e)) False)
            | None \<Rightarrow> fst (cancelMigrations (fst r) now (cancellable (reviewRunningBody w e)) False)))"

section \<open>Stale migrations, failed tablets and artifacts\<close>

text \<open>
  Modelled from the spec: the statement \<open>sqlSelectStaleMigrations\<close> is not in the source;
  it selects the rows in \<open>running\<close> that have shown no liveness for the given number of
  minutes.
\<close>

definition sqlSelectStaleMigrations :: "World \<Rightarrow> int \<Rightarrow> MigrationRow list \<Rightarrow> MigrationRow list" where
  "sqlSelectStaleMigrations w minutes rows =
     filter (\<lambda>r. migration_status r = OnlineDDLStatusRunning
               \<and> stale_minutes w (migration_uuid r) \<ge> minutes) rows"

text \<open>
  \<open>monitorStaleMigrations\<close> reads the stale migrations and sets a gauge; it leaves the
  executor as it is and returns the first error of reading a migration.
\<close>

definition monitorStaleMigrations :: "World \<Rightarrow> Executor \<Rightarrow> Executor \<times> error option" where
  "monitorStaleMigrations w e =
     (e, case find (\<lambda>r. case readMigration e (migration_uuid r) of Inl _ \<Rightarrow> True | Inr _ \<Rightarrow> False)
                (sqlSelectStaleMigrations w staleMigrationWarningMinutes (schema_migrations e)) of
           None \<Rightarrow> None
         | Some r \<Rightarrow> (case readMigration e (migration_uuid r) of Inl err \<Rightarrow> Some err | Inr _ \<Rightarrow> None))"

text \<open>
  The loop of \<open>reviewStaleMigrations\<close>. \<open>deferred\<close> counts the deferred calls of
  \<open>triggerNextCheckInterval\<close>, which run when the function returns. A migration that
  cannot be terminated keeps its status. The column \<open>tablet_failure\<close> is not kept.
\<close>

fun reviewStaleLoop :: "MigrationRow list \<Rightarrow> nat \<Rightarrow> Executor \<Rightarrow> Executor \<times> nat \<times> error option" where
  "reviewStaleLoop [] deferred e = (e, deferred, None)"
| "reviewStaleLoop (row # rows) deferred e =
     (case readMigration e (migration_uuid row) of
        Inl err \<Rightarrow> (e, deferred, Some err)
      | Inr (onlineDDL, _) \<Rightarrow>
          (let message =
                 ''stale migration '' @ UUID onlineDDL
                 @ '': found running but indicates no liveness in the past 180 minutes''
                 @ (if TabletAlias onlineDDL \<noteq> tabletAlias e
                    then ''; executed by different tablet '' @ TabletAlias onlineDDL else []);
               t = terminateMigration e onlineDDL
           in case snd (snd t) of
                Some err \<Rightarrow>
                  reviewStaleLoop rows deferred
                    (updateMigrationMessage (fst t) (UUID onlineDDL)
                       (''error terminating migration ('' @ message @ ''): '' @ error_Error err))
              | None \<Rightarrow>
                  reviewStaleLoop rows (Suc deferred)
                    (updateMigrationStatus
                       (updateMigrationMessage (fst t) (UUID onlineDDL) message)
                       (UUID onlineDDL) OnlineDDLStatusFailed)))"

definition reviewStaleMigrations :: "World \<Rightarrow> Executor \<Rightarrow> Executor \<times> error option" where
  "reviewStaleMigrations w e =
     (let r = reviewStaleLoop
                (sqlSelectStaleMigrations w staleMigrationFailMinutes (schema_migrations e)) 0 e
      in ((triggerNextCheckInterval ^^ fst (snd r)) (fst r), snd (snd r)))"

text \<open>
  Modelled from the spec: the statement \<open>sqlRetryMigrationWhere\<close> and its clause
  \<open>sqlWhereTabletFailure\<close> are not in the source; a retry takes a failed or cancelled
  migration back to queued, here each one that failed by the failure of its tablet. The
  model does not keep the mark of such a failure, so the world says which these are.
\<close>

definition retryTabletFailureMigrations :: "World \<Rightarrow> Executor \<Rightarrow> Executor" where
  "retryTabletFailureMigrations w e =
     update_where
       (\<lambda>r. (migration_status r = OnlineDDLStatusFailed \<or> migration_status r = OnlineDDLStatusCancelled)
            \<and> holds w (migration_uuid r) failed_by_tablet_failure)
       (\<lambda>r. r\<lparr>migration_status := OnlineDDLStatusQueued, tablet := tabletAlias e\<rparr>) e"

text \<open>
  The loop of \<open>gcArtifacts\<close>: the artifact tables of the migration are renamed away, its
  log removed and its vreplication entry deleted.
\<close>

fun gcArtifactsLoop :: "World \<Rightarrow> MigrationRow list \<Rightarrow> Executor \<Rightarrow> Executor \<times> error option" where
  "gcArtifactsLoop w [] e = (e, None)"
| "gcArtifactsLoop w (row # rows) e =
     (case failure w (migration_uuid row) gcArtifacts_gcArtifactTable of
        Some err \<Rightarrow> (e, Some (Wrapf ''in gcArtifacts()'' err))
      | None \<Rightarrow>
          (case failure w (migration_uuid row) gcArtifacts_RemoveAll of
             Some err \<Rightarrow> (e, Some err)
           | None \<Rightarrow>
               (case failure w (migration_uuid row) gcArtifacts_deleteVReplicationEntry of
                  Some err \<Rightarrow> (e, Some err)
                | None \<Rightarrow>
                    gcArtifactsLoop w rows
                      (e\<lparr>vreplication :=
                           filter (\<lambda>kv. fst kv \<noteq> migration_uuid row) (vreplication e)\<rparr>))))"

text \<open>
  Modelled from the spec: the statement \<open>sqlSelectUncollectedArtifacts\<close> is not in the
  source; the collector takes the rows in a terminal status that are past their
  \<open>retain_artifacts_seconds\<close> and not cleaned up yet, which the world tells.
\<close>

definition gcArtifacts :: "World \<Rightarrow> Executor \<Rightarrow> Executor \<times> error option" where
  "gcArtifacts w e =
     gcArtifactsLoop w
       (filter (\<lambda>r. is_terminal (migration_status r) \<and> holds w (migration_uuid r) artifacts_uncollected)
          (schema_migrations e)) e"

section \<open>What the scheduler is to do\<close>

text \<open>
  A row can be promoted unless its launch is postponed or it is both an immediate
  operation and postponed for completion. \<open>flagged_row\<close> marks an immediate operation as
  ready to complete. \<open>scheduled_row\<close> is the row the scheduler is to leave for a row of
  the table: untouched unless it is queued and its launch is not postponed; marked; and
  promoted if it is the first queued row that can be. \<open>scheduleLoop_row\<close> is the loop of
  \<open>scheduleNextMigration\<close> as one row of the table sees it.
\<close>

definition schedulable :: "MigrationRow \<Rightarrow> bool" where
  "schedulable r = (\<not> postpone_launch r \<and> \<not> (is_immediate_operation r \<and> postpone_completion r))"

definition flagged_row :: "MigrationRow \<Rightarrow> MigrationRow" where
  "flagged_row r =
     (if \<not> ready_to_complete r \<and> is_immediate_operation r
      then r\<lparr>ready_to_complete := True, was_ready_to_complete := True\<rparr> else r)"

definition scheduled_row :: "MigrationRow list \<Rightarrow> MigrationRow \<Rightarrow> MigrationRow" where
  "scheduled_row rows r =
     (if migration_status r \<noteq> OnlineDDLStatusQueued \<or> postpone_launch r then r
      else if find schedulable (sqlSelectQueuedMigrations rows) = Some r
      then (flagged_row r)\<lparr>migration_status := OnlineDDLStatusReady\<rparr>
      else flagged_row r)"

fun scheduleLoop_row :: "MigrationRow list \<Rightarrow> bool \<Rightarrow> MigrationRow \<Rightarrow> MigrationRow" where
  "scheduleLoop_row [] scheduled r = r"
| "scheduleLoop_row (row # rows) scheduled r =
     (if postpone_launch row then scheduleLoop_row rows scheduled r
      else
        (let r1 = (if \<not> ready_to_complete row \<and> is_immediate_operation row
                      \<and> migration_uuid r = migration_uuid row
                   then r\<lparr>ready_to_complete := True, was_ready_to_complete := True\<rparr> else r)
         in if \<not> (is_immediate_operation row \<and> postpone_completion row)
            then
              (if scheduled then scheduleLoop_row rows True r1
               else scheduleLoop_row rows True
                      (if migration_uuid r1 = migration_uuid row
                       then r1\<lparr>migration_status := OnlineDDLStatusReady\<rparr> else r1))
            else scheduleLoop_row rows scheduled r1))"

section \<open>Status changes an operation may make\<close>

text \<open>
  The status changes each operation may make to a row: the scheduler takes queued to
  ready; a cancel takes a pending status to failed or cancelled; a retry, and a
  submission (which retries a resubmitted migration), takes failed or cancelled back to
  queued; any other operation leaves the status. \<open>rows_step\<close> compares the table before
  and after an operation: the rows that were there keep their UUID and change status as
  allowed, and the rows added are queued.
\<close>

fun status_change_allowed :: "Operation \<Rightarrow> OnlineDDLStatus \<Rightarrow> OnlineDDLStatus \<Rightarrow> bool" where
  "status_change_allowed OpSchedule s s' =
     (s' = s \<or> (s = OnlineDDLStatusQueued \<and> s' = OnlineDDLStatusReady))"
| "status_change_allowed (OpCancel now uuid msg issuedByUser) s s' =
     (s' = s \<or> (is_pending s \<and> (s' = OnlineDDLStatusFailed \<or> s' = OnlineDDLStatusCancelled)))"
| "status_change_allowed (OpRetry uuid) s s' =
     (s' = s \<or> ((s = OnlineDDLStatusFailed \<or> s = OnlineDDLStatusCancelled)
                 \<and> s' = OnlineDDLStatusQueued))"
| "status_change_allowed (OpSubmit stmt) s s' =
     (s' = s \<or> ((s = OnlineDDLStatusFailed \<or> s = OnlineDDLStatusCancelled)
                 \<and> s' = OnlineDDLStatusQueued))"
| "status_change_allowed op s s' = (s' = s)"


section \<open>The operations on all migrations, and the throttler\<close>

text \<open>
  The loop that the operations on all pending migrations share: the operation is applied
  to one UUID after the other, the affected rows add up, and the first error ends the
  loop.
\<close>

fun forEachMigration ::
  "(Executor \<Rightarrow> string \<Rightarrow> Executor \<times> (error + Result)) \<Rightarrow> string list \<Rightarrow> nat \<Rightarrow> Executor
   \<Rightarrow> Executor \<times> (error + Result)" where
  "forEachMigration operation [] affected e = (e, Inr (Result affected))"
| "forEachMigration operation (uuid # uuids) affected e =
     (case operation e uuid of
        (e1, Inl err) \<Rightarrow> (e1, Inl err)
      | (e1, Inr res) \<Rightarrow> forEachMigration operation uuids (affected + RowsAffected res) e1)"

definition CancelPendingMigrations ::
  "Executor \<Rightarrow> nat \<Rightarrow> string \<Rightarrow> bool \<Rightarrow> Executor \<times> (error + Result)" where
  "CancelPendingMigrations e now msg issuedByUser =
     (if \<not> isOpen e then (e, Inl errExecutorClosed)
      else forEachMigration (\<lambda>s uuid. CancelMigration s now uuid msg issuedByUser)
             (readPendingMigrationsUUIDs e) 0 e)"

text \<open>
  Modelled from the spec: the statement \<open>sqlUpdateReadyForCleanupAll\<close> is not in the source;
  it does to every migration in a terminal status what the cleanup of one migration
  does.
\<close>

definition CleanupAllMigrations :: "Executor \<Rightarrow> Executor \<times> (error + Result)" where
  "CleanupAllMigrations e =
     (if \<not> isOpen e then (e, Inl errExecutorClosed)
      else (triggerNextCheckInterval
              (update_where (\<lambda>r. is_terminal (migration_status r))
                 (\<lambda>r. r\<lparr>retain_artifacts_seconds := - 1\<rparr>) e),
            Inr (Result (rows_matched (\<lambda>r. is_terminal (migration_status r)) e))))"

definition ForceCutOverPendingMigrations :: "Executor \<Rightarrow> Executor \<times> (error + Result)" where
  "ForceCutOverPendingMigrations e =
     (if \<not> isOpen e then (e, Inl errExecutorClosed)
      else forEachMigration ForceCutOverMigration (readPendingMigrationsUUIDs e) 0 e)"

definition CompletePendingMigrations :: "Executor \<Rightarrow> Executor \<times> (error + Result)" where
  "CompletePendingMigrations e =
     (if \<not> isOpen e then (e, Inl errExecutorClosed)
      else forEachMigration (\<lambda>s uuid. CompleteMigration s uuid [])
             (readPendingMigrationsUUIDs e) 0 e)"

text \<open>
  Modelled from the spec: the statement \<open>sqlPostponeCompletion\<close> is not in the source; it
  sets the \<open>postpone_completion\<close> flag of the row.
\<close>

definition PostponeCompleteMigration :: "Executor \<Rightarrow> string \<Rightarrow> Executor \<times> (error + Result)" where
  "PostponeCompleteMigration e uuid =
     (if \<not> isOpen e then (e, Inl errExecutorClosed)
      else if \<not> IsOnlineDDLUUID uuid
      then (e, Inl (VtError Code_UNKNOWN (''Not a valid migration ID in POSTPONE COMPLETE: '' @ uuid)))
      else (triggerNextCheckInterval
              (update_where (\<lambda>r. migration_uuid r = uuid) (\<lambda>r. r\<lparr>postpone_completion := True\<rparr>) e),
            Inr (Result (rows_matched (\<lambda>r. migration_uuid r = uuid) e))))"

definition PostponeCompletePendingMigrations :: "Executor \<Rightarrow> Executor \<times> (error + Result)" where
  "PostponeCompletePendingMigrations e =
     (if \<not> isOpen e then (e, Inl errExecutorClosed)
      else forEachMigration PostponeCompleteMigration (readPendingMigrationsUUIDs e) 0 e)"

definition LaunchMigrations :: "Executor \<Rightarrow> Executor \<times> (error + Result)" where
  "LaunchMigrations e =
     (if \<not> isOpen e then (e, Inl errExecutorClosed)
      else forEachMigration (\<lambda>s uuid. LaunchMigration s uuid [])
             (map migration_uuid (sqlSelectQueuedMigrations (schema_migrations e))) 0 e)"

text \<open>
  \<open>validateThrottleParams\<close>: the error, if any. \<open>parsedExpire\<close> is what \<open>time.ParseDuration\<close>
  makes of the string, \<open>None\<close> when it fails; the ratio comes as its text and whether that
  text is a number from 0 to 1.
\<close>

definition validateThrottleParams ::
  "string \<Rightarrow> Duration option \<Rightarrow> (string \<times> bool) option \<Rightarrow> error option" where
  "validateThrottleParams expireString parsedExpire ratioLiteral =
     (if expireString \<noteq> [] \<and> (case parsedExpire of None \<Rightarrow> True | Some duration \<Rightarrow> duration < 0)
      then Some (VtError Code_INVALID_ARGUMENT (''invalid EXPIRE value: '' @ expireString))
      else
        (case ratioLiteral of
           None \<Rightarrow> None
         | Some (val, inRange) \<Rightarrow>
             if \<not> inRange then Some (VtError Code_INVALID_ARGUMENT (''invalid RATIO value: '' @ val))
             else None))"

text \<open>
  Throttling and unthrottling change the throttler, which is not part of the executor;
  \<open>app\<close> is the UUID, or the name of the Online DDL application for all migrations.
\<close>

definition ThrottleMigration ::
  "World \<Rightarrow> Executor \<Rightarrow> string \<Rightarrow> string \<Rightarrow> Duration option \<Rightarrow> (string \<times> bool) option
   \<Rightarrow> Executor \<times> (error + Result)" where
  "ThrottleMigration w e app expireString parsedExpire ratioLiteral =
     (case validateThrottleParams expireString parsedExpire ratioLiteral of
        Some err \<Rightarrow> (e, Inl err)
      | None \<Rightarrow>
          (case failure w app lagThrottler_CheckIsOpen of
             Some err \<Rightarrow> (e, Inl err)
           | None \<Rightarrow> (e, Inr emptyResult)))"

definition UnthrottleMigration :: "World \<Rightarrow> Executor \<Rightarrow> string \<Rightarrow> Executor \<times> (error + Result)" where
  "UnthrottleMigration w e app =
     (case failure w app lagThrottler_CheckIsOpen of
        Some err \<Rightarrow> (e, Inl err)
      | None \<Rightarrow> (triggerNextCheckInterval e, Inr emptyResult))"

section \<open>Every operation of the executor\<close>

text \<open>
  The operations of the executor: those of \<open>Operation\<close>; the operations of the API on all
  migrations and on the throttler; and the steps that the periodic tick
  \<open>onMigrationCheckTick\<close> runs one after the other. \<open>ShowMigrations\<close> and
  \<open>ShowMigrationLogs\<close> only read.
\<close>

datatype Activity =
    ApiOperation Operation
  | ApiCancelPending nat string bool
  | ApiCleanupAll
  | ApiForceCutOverPending
  | ApiCompletePending
  | ApiPostponeComplete string
  | ApiPostponeCompletePending
  | ApiLaunchAll
  | ApiThrottle string string "Duration option" "(string \<times> bool) option"
  | ApiUnthrottle string
  | ApiShow
  | TickRetryTabletFailure
  | TickReviewQueued
  | TickRunNext
  | TickReviewRunning nat
  | TickMonitorStale
  | TickReviewStale
  | TickGcArtifacts

fun carry_out :: "DDLAction \<Rightarrow> World \<Rightarrow> Activity \<Rightarrow> Executor \<Rightarrow> Executor" where
  "carry_out zeroAction w (ApiOperation op) e = perform op e"
| "carry_out zeroAction w (ApiCancelPending now msg issuedByUser) e =
     fst (CancelPendingMigrations e now msg issuedByUser)"
| "carry_out zeroAction w ApiCleanupAll e = fst (CleanupAllMigrations e)"
| "carry_out zeroAction w ApiForceCutOverPending e = fst (ForceCutOverPendingMigrations e)"
| "carry_out zeroAction w ApiCompletePending e = fst (CompletePendingMigrations e)"
| "carry_out zeroAction w (ApiPostponeComplete uuid) e = fst (PostponeCompleteMigration e uuid)"
| "carry_out zeroAction w ApiPostponeCompletePending e = fst (PostponeCompletePendingMigrations e)"
| "carry_out zeroAction w ApiLaunchAll e = fst (LaunchMigrations e)"
| "carry_out zeroAction w (ApiThrottle app expireString parsedExpire ratioLiteral) e =
     fst (ThrottleMigration w e app expireString parsedExpire ratioLiteral)"
| "carry_out zeroAction w (ApiUnthrottle app) e = fst (UnthrottleMigration w e app)"
| "carry_out zeroAction w ApiShow e = e"
| "carry_out zeroAction w TickRetryTabletFailure e = retryTabletFailureMigrations w e"
| "carry_out zeroAction w TickReviewQueued e = fst (reviewQueuedMigrations w e)"
| "carry_out zeroAction w TickRunNext e =
     fst (runNextMigration zeroAction (\<lambda>s onlineDDL. fst (executeMigration w s onlineDDL)) e)"
| "carry_out zeroAction w (TickReviewRunning now) e = reviewRunningMigrationsAndCancel w now e"
| "carry_out zeroAction w TickMonitorStale e = fst (monitorStaleMigrations w e)"
| "carry_out zeroAction w TickReviewStale e = fst (reviewStaleMigrations w e)"
| "carry_out zeroAction w TickGcArtifacts e = fst (gcArtifacts w e)"

text \<open>
  The status changes each operation may make to a row, between the state it finds and
  the state it leaves. The reviewer of queued migrations fails a queued migration. The
  runner takes a ready migration to running, or at once to complete, or fails it. The
  reviewer of running migrations completes a running migration or fails it, and the
  reviewer of stale migrations fails it. A retry after the failure of a tablet queues a
  failed or cancelled migration again.
\<close>

fun may_change :: "Activity \<Rightarrow> OnlineDDLStatus \<Rightarrow> OnlineDDLStatus \<Rightarrow> bool" where
  "may_change (ApiOperation op) s s' = status_change_allowed op s s'"
| "may_change (ApiCancelPending now msg issuedByUser) s s' =
     (s' = s \<or> (is_pending s \<and> (s' = OnlineDDLStatusFailed \<or> s' = OnlineDDLStatusCancelled)))"
| "may_change TickRetryTabletFailure s s' =
     (s' = s \<or> ((s = OnlineDDLStatusFailed \<or> s = OnlineDDLStatusCancelled)
                 \<and> s' = OnlineDDLStatusQueued))"
| "may_change TickReviewQueued s s' =
     (s' = s \<or> (s = OnlineDDLStatusQueued
                 \<and> (s' = OnlineDDLStatusFailed \<or> s' = OnlineDDLStatusCancelled)))"
| "may_change TickRunNext s s' =
     (s' = s \<or> (s = OnlineDDLStatusReady
                 \<and> (s' = OnlineDDLStatusRunning \<or> s' = OnlineDDLStatusComplete
                    \<or> s' = OnlineDDLStatusFailed \<or> s' = OnlineDDLStatusCancelled)))"
| "may_change (TickReviewRunning now) s s' =
     (s' = s \<or> (s = OnlineDDLStatusRunning
                 \<and> (s' = OnlineDDLStatusComplete \<or> s' = OnlineDDLStatusFailed
                    \<or> s' = OnlineDDLStatusCancelled)))"
| "may_change TickReviewStale s s' =
     (s' = s \<or> (s = OnlineDDLStatusRunning \<and> s' = OnlineDDLStatusFailed))"
| "may_change a s s' = (s' = s)"

text \<open>
  The status changes of the life cycle: a migration goes from queued to ready, from
  ready to running or at once to complete, and from running to complete; it is failed or
  cancelled from any status before complete; and from failed or cancelled it goes back
  to queued.
\<close>

definition legal_transition :: "OnlineDDLStatus \<Rightarrow> OnlineDDLStatus \<Rightarrow> bool" where
  "legal_transition s s' =
     ((s = OnlineDDLStatusQueued \<and> s' = OnlineDDLStatusReady)
      \<or> (s = OnlineDDLStatusReady \<and> (s' = OnlineDDLStatusRunning \<or> s' = OnlineDDLStatusComplete))
      \<or> (s = OnlineDDLStatusRunning \<and> s' = OnlineDDLStatusComplete)
      \<or> (is_pending s \<and> (s' = OnlineDDLStatusFailed \<or> s' = OnlineDDLStatusCancelled))
      \<or> ((s = OnlineDDLStatusFailed \<or> s = OnlineDDLStatusCancelled) \<and> s' = OnlineDDLStatusQueued))"

text \<open>The operations that retry a migration.\<close>

fun retries :: "Activity \<Rightarrow> bool" where
  "retries (ApiOperation (OpRetry uuid)) = True"
| "retries (ApiOperation (OpSubmit stmt)) = True"
| "retries TickRetryTabletFailure = True"
| "retries a = False"

text \<open>
  \<open>touched U to rows rows'\<close>: the rows are the same, each with its UUID, and a row
  whose status differs has its UUID in \<open>U\<close> and its new status in \<open>to\<close>.
\<close>

definition touched ::
  "string set \<Rightarrow> (OnlineDDLStatus \<Rightarrow> bool) \<Rightarrow> MigrationRow list \<Rightarrow> MigrationRow list \<Rightarrow> bool" where
  "touched U to rows rows' =
     list_all2 (\<lambda>r r'. migration_uuid r' = migration_uuid r
                  \<and> (migration_status r' = migration_status r
                     \<or> (migration_uuid r \<in> U \<and> to (migration_status r')))) rows rows'"

text \<open>The statuses the runner and the reviewers leave a migration in.\<close>

definition started :: "OnlineDDLStatus \<Rightarrow> bool" where
  "started s = (s = OnlineDDLStatusRunning \<or> is_terminal s)"

definition unsuccessful :: "OnlineDDLStatus \<Rightarrow> bool" where
  "unsuccessful s = (s = OnlineDDLStatusFailed \<or> s = OnlineDDLStatusCancelled)"

section \<open>Sample data\<close>

text \<open>
  Concrete migrations and executors, on which the theorems below are instantiated: a
  \<open>vitess\<close> strategy without flags, a row of an ALTER with every flag unset, and an open
  executor that owns nothing and has completed a review of the running migrations.
\<close>

definition plainSetting :: DDLStrategySetting where
  "plainSetting =
     \<lparr> Strategy = DDLStrategyVitess, IsAllowConcurrent = False, IsSingleton = False,
       IsSingletonContext = False, IsSingletonTable = False, IsPostponeLaunch = False,
       IsPostponeCompletion = False, IsInOrderCompletion = False, CutOverThreshold = Inr 0,
       RetainArtifactsDuration = 0, IsDeclarative = False, IsAllowForeignKeysFlag = False,
       IsAllowZeroInDateFlag = False, IsVreplicationTestSuite = False,
       ForceCutOverAfter = Inr 0 \<rparr>"

definition sampleRow :: "string \<Rightarrow> string \<Rightarrow> string \<Rightarrow> OnlineDDLStatus \<Rightarrow> MigrationRow" where
  "sampleRow uuid table context status =
     \<lparr> migration_uuid = uuid, mysql_table = table, migration_context = context,
       migration_status = status, row_setting = plainSetting,
       row_action = (AlterDDLAction, None), row_revert_uuid = None,
       ddl_action = AlterDDLAction, is_view = False,
       tablet = ''zone1-0000000100'', postpone_launch = False, postpone_completion = False,
       ready_to_complete = False, was_ready_to_complete = False,
       is_immediate_operation = False, force_cutover = False, cancelled_timestamp = None,
       cutover_threshold_seconds = 10, retain_artifacts_seconds = 86400, message = [] \<rparr>"

definition sampleExecutor :: "MigrationRow list \<Rightarrow> Executor" where
  "sampleExecutor rows =
     \<lparr> isOpen = True, EnableOnlineDDL = True, reviewedRunningMigrationsFlag = True,
       ownedRunningMigrations = [], schema_migrations = rows, vreplication = [],
       topoAvailable = True, tabletAlias = ''zone1-0000000100'', shard = ''0'',
       maxConcurrentOnlineDDLs = 256, nextCheckTriggers = 0 \<rparr>"

definition uuid1 :: string where
  "uuid1 = ''11111111_1111_1111_1111_111111111111''"

definition uuid2 :: string where
  "uuid2 = ''22222222_2222_2222_2222_222222222222''"

definition uuid3 :: string where
  "uuid3 = ''33333333_3333_3333_3333_333333333333''"

text \<open>A submitted migration and its statement.\<close>

definition sampleDDL :: "string \<Rightarrow> string \<Rightarrow> string \<Rightarrow> DDLStrategySetting \<Rightarrow> OnlineDDL" where
  "sampleDDL uuid table context setting =
     onlineDDL_of_row ((sampleRow uuid table context OnlineDDLStatusQueued)\<lparr>row_setting := setting\<rparr>)"

definition sampleStatement :: "OnlineDDL \<Rightarrow> Statement" where
  "sampleStatement d = \<lparr> IsFullyParsed = True, OnlineDDLFromCommentedStatement = Inr d \<rparr>"

text \<open>
  A running ALTER with \<open>--allow-concurrent\<close> that is still copying rows, and a ready ALTER
  of another table without \<open>--allow-concurrent\<close>.
\<close>

definition runningConcurrentAlter :: OnlineDDL where
  "runningConcurrentAlter =
     onlineDDL_of_row ((sampleRow uuid1 ''t1'' ''ctx'' OnlineDDLStatusRunning)
                         \<lparr>row_setting := plainSetting\<lparr>IsAllowConcurrent := True\<rparr>\<rparr>)"

definition readyPlainAlter :: OnlineDDL where
  "readyPlainAlter = onlineDDL_of_row (sampleRow uuid2 ''t2'' ''ctx'' OnlineDDLStatusReady)"

text \<open>
  A review of the running migrations that stops with an error, and handlers that do
  nothing.
\<close>

definition failingReview :: "Executor \<Rightarrow> Executor \<times> error option" where
  "failingReview e = (e, Some (PlainError ''connection refused''))"

definition idleHandlers :: "Executor \<Rightarrow> OnlineDDL \<Rightarrow> Executor" where
  "idleHandlers e d = e"

text \<open>
  Four queued rows: one with its launch postponed, one immediate and postponed for
  completion, and two with no flag.
\<close>

definition uuid4 :: string where
  "uuid4 = ''44444444_4444_4444_4444_444444444444''"

definition queuedRows :: "MigrationRow list" where
  "queuedRows =
     [(sampleRow uuid1 ''t1'' ''ctx'' OnlineDDLStatusQueued)\<lparr>postpone_launch := True\<rparr>,
      (sampleRow uuid2 ''t2'' ''ctx'' OnlineDDLStatusQueued)
        \<lparr>is_immediate_operation := True, postpone_completion := True\<rparr>,
      sampleRow uuid3 ''t3'' ''ctx'' OnlineDDLStatusQueued,
      sampleRow uuid4 ''t4'' ''ctx'' OnlineDDLStatusQueued]"

text \<open>
  An executor that owns the running ALTER above, with the second ALTER ready in the table.
\<close>

definition copyingExecutor :: Executor where
  "copyingExecutor =
     (sampleExecutor
        [(sampleRow uuid1 ''t1'' ''ctx'' OnlineDDLStatusRunning)
           \<lparr>row_setting := plainSetting\<lparr>IsAllowConcurrent := True\<rparr>\<rparr>,
         sampleRow uuid2 ''t2'' ''ctx'' OnlineDDLStatusReady])
     \<lparr>ownedRunningMigrations := [(uuid1, runningConcurrentAlter)]\<rparr>"

section \<open>Theorems\<close>

lemma cutoverIntervals_clamped:
  "0 \<le> n \<Longrightarrow>
   (if n < int (length cutoverIntervals) then cutoverIntervals ! nat n
    else cutoverIntervals ! (length cutoverIntervals - 1)) = desiredWait n"
  by (auto simp: desiredWait_def cutoverIntervals_def min_def)

text \<open>
  C6. The threshold validation returns the default of 10s without an error for 0, fails
  with FAILED_PRECONDITION for a value strictly between 0 and 5s and for a value above 30s,
  and returns a value between 5s and 30s unchanged without an error.
\<close>

theorem safeMigrationCutOverThreshold_cases:
  "(d = 0 \<longrightarrow> safeMigrationCutOverThreshold d = (10 * Second, None)) \<and>
   ((0 < d \<and> d < 5 * Second) \<or> d > 30 * Second \<longrightarrow>
      (\<exists>e. snd (safeMigrationCutOverThreshold d) = Some e \<and>
           error_code e = Some Code_FAILED_PRECONDITION)) \<and>
   (5 * Second \<le> d \<and> d \<le> 30 * Second \<longrightarrow> safeMigrationCutOverThreshold d = (d, None))"
  by (auto simp: safeMigrationCutOverThreshold_def defaultCutOverThreshold_def
      minCutOverThreshold_def maxCutOverThreshold_def Second_def)

theorem safeMigrationCutOverThreshold_cases_witness:
  "safeMigrationCutOverThreshold 0 = (10 * Second, None) \<and>
   (\<exists>e. snd (safeMigrationCutOverThreshold (3 * Second)) = Some e \<and>
        error_code e = Some Code_FAILED_PRECONDITION) \<and>
   (\<exists>e. snd (safeMigrationCutOverThreshold (31 * Second)) = Some e \<and>
        error_code e = Some Code_FAILED_PRECONDITION) \<and>
   safeMigrationCutOverThreshold (7 * Second) = (7 * Second, None)"
  using safeMigrationCutOverThreshold_cases [of 0]
    safeMigrationCutOverThreshold_cases [of "3 * Second"]
    safeMigrationCutOverThreshold_cases [of "31 * Second"]
    safeMigrationCutOverThreshold_cases [of "7 * Second"]
  by (simp add: Second_def)

text \<open>
  C1, as stated, fails: with \<open>force_cutover\<close> unset, \<open>force_cut_over_after\<close> of one minute
  and exactly one minute since the migration became ready to complete, the claim asks for
  a forced cut-over, and the code, whose test is a strict \<open>>\<close>, falls through to the
  backoff, which after one attempt and no time since the last one says no. Likewise with
  \<open>force_cut_over_after\<close> of 0, which is at most 1ms: the code forces nothing unless the
  value is positive.
\<close>

theorem shouldCutOver_equal_since_ready_counterexample:
  "Minute \<ge> Minute \<and> Minute > 0 \<and>
   shouldCutOverAccordingToBackoff False Minute Minute 0 1 = Inr (False, False) \<and>
   0 \<le> Millisecond \<and>
   shouldCutOverAccordingToBackoff False 0 Minute 0 1 = Inr (False, False)"
  by (simp add: shouldCutOverAccordingToBackoff_def cutoverIntervals_def Minute_def
      Second_def Millisecond_def)

text \<open>
  C1, amended. For a non-negative number of attempts the desired wait is the interval
  indexed by the attempts, clamped to the last one. The decision is forced (cut over now,
  and KILL) exactly when \<open>force_cutover\<close> is set, or \<open>force_cut_over_after\<close> is positive and
  either the time since ready-to-complete is strictly greater than it or it is at most
  1ms. Otherwise a cut-over is attempted, unforced, exactly when the time since the last
  attempt is at least the desired wait.
\<close>

theorem shouldCutOverAccordingToBackoff_amended:
  assumes "0 \<le> attempts"
  shows "shouldCutOverAccordingToBackoff force fca sinceReady sinceLast attempts =
     (if force \<or> (fca > 0 \<and> (sinceReady > fca \<or> fca \<le> Millisecond)) then Inr (True, True)
      else Inr (sinceLast \<ge> desiredWait attempts, False))
     \<and> desiredWait attempts =
       (if attempts < 5 then [0, 1 * Minute, 5 * Minute, 10 * Minute, 30 * Minute] ! nat attempts
        else 30 * Minute)"
proof -
  have clamp: "desiredWait attempts =
       (if attempts < 5 then [0, 1 * Minute, 5 * Minute, 10 * Minute, 30 * Minute] ! nat attempts
        else 30 * Minute)"
    using assms by (auto simp: desiredWait_def min_def)
      (auto simp: cutoverIntervals_def)
  have "shouldCutOverAccordingToBackoff force fca sinceReady sinceLast attempts =
     (if force \<or> (fca > 0 \<and> (sinceReady > fca \<or> fca \<le> Millisecond)) then Inr (True, True)
      else Inr (sinceLast \<ge> desiredWait attempts, False))"
    using assms cutoverIntervals_clamped [OF assms]
    unfolding shouldCutOverAccordingToBackoff_def Let_def
    by auto
  with clamp show ?thesis by blast
qed

theorem shouldCutOverAccordingToBackoff_amended_witness:
  "shouldCutOverAccordingToBackoff False Minute (2 * Minute) 0 7 = Inr (True, True) \<and>
   shouldCutOverAccordingToBackoff False 0 Minute (29 * Minute) 7 = Inr (False, False) \<and>
   shouldCutOverAccordingToBackoff False 0 Minute (5 * Minute) 2 = Inr (True, False) \<and>
   desiredWait 7 = 30 * Minute \<and> desiredWait 2 = 5 * Minute"
  using shouldCutOverAccordingToBackoff_amended [of 7 False Minute "2 * Minute" 0]
    shouldCutOverAccordingToBackoff_amended [of 7 False 0 Minute "29 * Minute"]
    shouldCutOverAccordingToBackoff_amended [of 2 False 0 Minute "5 * Minute"]
  by (simp add: Minute_def Second_def Millisecond_def)

section \<open>Cancelling\<close>

lemma readMigration_Inr:
  "readMigration e u = Inr (d, row) \<Longrightarrow>
     sqlSelectMigration (schema_migrations e) u = [row] \<and> d = onlineDDL_of_row row"
  by (auto simp: readMigration_def split: list.splits)



lemma select_map:
  "(\<And>r. migration_uuid (f r) = migration_uuid r) \<Longrightarrow>
   sqlSelectMigration (map f rows) u = map f (sqlSelectMigration rows u)"
  unfolding sqlSelectMigration_def by (induction rows) auto

lemma rows_trigger [simp]: "schema_migrations (triggerNextCheckInterval e) = schema_migrations e"
  by (simp add: triggerNextCheckInterval_def)

lemma rows_update_where [simp]:
  "schema_migrations (update_where c f e) = map (\<lambda>r. if c r then f r else r) (schema_migrations e)"
  by (simp add: update_where_def)

lemma rows_terminateMigration [simp]:
  "schema_migrations (fst (terminateMigration e d)) = schema_migrations e"
  by (simp add: terminateMigration_def terminateVReplMigration_def Let_def split: option.splits)





lemma isOpen_failMigration [simp]: "isOpen (failMigration e d w) = isOpen e"
  by (simp add: failMigration_def updateMigrationStatusFailedOrCancelled_def
      updateMigrationMessage_def update_where_def triggerNextCheckInterval_def Let_def
      split: option.splits)

lemma isOpen_terminateMigration [simp]: "isOpen (fst (terminateMigration e d)) = isOpen e"
  by (simp add: terminateMigration_def terminateVReplMigration_def Let_def split: option.splits)





section \<open>Conflicts between migrations\<close>

lemma conflict_iff:
  "proposedMigrationConflictsWithRunningMigration z r p \<longleftrightarrow>
     Table r = Table p
     \<or> (\<not> snd (allowConcurrentMigration z r) \<and> \<not> snd (allowConcurrentMigration z p))
     \<or> (fst (allowConcurrentMigration z p) = AlterDDLAction \<and> \<not> WasReadyToComplete r)"
  by (auto simp: proposedMigrationConflictsWithRunningMigration_def Let_def)

lemma reported_action:
  "fst (allowConcurrentMigration z p) =
     (if IsAllowConcurrent (Setting p) then fst (GetAction p) else z)"
  by (auto simp: allowConcurrentMigration_def Let_def split: DDLAction.splits)

text \<open>
  C2. The conflict predicate is to hold when the candidate is an ALTER and the running
  migration has not been ready to complete. The code compares the action that
  \<open>allowConcurrentMigration\<close> returns, and that function returns before reading the action
  when the candidate lacks \<open>--allow-concurrent\<close>. Whatever the zero value of the action
  type, unless it is \<open>AlterDDLAction\<close> itself (it is \<open>CreateDDLAction\<close>, the first constant
  of the type), a candidate ALTER without the flag does not conflict with a running
  migration of another table that carries the flag and is still copying rows.
\<close>

theorem plain_alter_runs_beside_copying_migration:
  "z \<noteq> AlterDDLAction \<Longrightarrow>
   Table runningConcurrentAlter \<noteq> Table readyPlainAlter \<and>
   GetAction readyPlainAlter = (AlterDDLAction, None) \<and>
   \<not> WasReadyToComplete runningConcurrentAlter \<and>
   \<not> proposedMigrationConflictsWithRunningMigration z runningConcurrentAlter readyPlainAlter"
  by (simp add: proposedMigrationConflictsWithRunningMigration_def allowConcurrentMigration_def
      runningConcurrentAlter_def readyPlainAlter_def onlineDDL_of_row_def sampleRow_def
      plainSetting_def uuid1_def uuid2_def)

theorem plain_alter_runs_beside_copying_migration_witness:
  "CreateDDLAction \<noteq> AlterDDLAction \<and>
   GetAction readyPlainAlter = (AlterDDLAction, None) \<and>
   \<not> WasReadyToComplete runningConcurrentAlter \<and>
   \<not> proposedMigrationConflictsWithRunningMigration CreateDDLAction
       runningConcurrentAlter readyPlainAlter"
proof -
  have z: "CreateDDLAction \<noteq> AlterDDLAction" by simp
  from plain_alter_runs_beside_copying_migration [OF z] z show ?thesis by blast
qed

text \<open>
  Were the zero value \<open>AlterDDLAction\<close>, every candidate without the flag would be taken
  for an ALTER, whatever its statement.
\<close>

lemma zero_action_alter_taken_for_alter:
  "\<not> IsAllowConcurrent (Setting p) \<Longrightarrow> \<not> WasReadyToComplete r \<Longrightarrow>
   proposedMigrationConflictsWithRunningMigration AlterDDLAction r p"
  by (simp add: conflict_iff reported_action)

section \<open>A closed executor\<close>

text \<open>
  C7, as stated, fails: cancelling on a closed executor returns an error whose code is
  FAILED_PRECONDITION, not UNAVAILABLE.
\<close>

theorem closed_executor_code_counterexample:
  "\<not> isOpen (Close (sampleExecutor [sampleRow uuid1 ''t1'' ''ctx'' OnlineDDLStatusRunning])) \<and>
   snd (CancelMigration (Close (sampleExecutor [sampleRow uuid1 ''t1'' ''ctx'' OnlineDDLStatusRunning]))
          5 uuid1 ''stop'' True)
     = Inl (VtError Code_FAILED_PRECONDITION ErrOnlineDDLDisabled_Error) \<and>
   Code_FAILED_PRECONDITION \<noteq> Code_UNAVAILABLE"
  by (simp add: CancelMigration_def Close_def sampleExecutor_def errExecutorClosed_def)

text \<open>
  C7, amended. When the executor is not open, each of Submit, Cancel, Retry, Cleanup,
  Complete, Launch, ForceCutOver and SetCutOverThreshold returns the error of code
  FAILED_PRECONDITION and leaves the state as it is. An executor whose online DDL is
  disabled stays closed when opened.
\<close>

theorem closed_executor_fails_precondition:
  assumes "\<not> isOpen e"
  shows "SubmitMigration e stmt = (e, Inl errExecutorClosed) \<and>
         CancelMigration e now uuid msg issuedByUser = (e, Inl errExecutorClosed) \<and>
         RetryMigration e uuid = (e, Inl errExecutorClosed) \<and>
         CleanupMigration e uuid = (e, Inl errExecutorClosed) \<and>
         CompleteMigration e uuid shards = (e, Inl errExecutorClosed) \<and>
         LaunchMigration e uuid shards = (e, Inl errExecutorClosed) \<and>
         ForceCutOverMigration e uuid = (e, Inl errExecutorClosed) \<and>
         SetMigrationCutOverThreshold e uuid parsed = (e, Inl errExecutorClosed) \<and>
         error_code errExecutorClosed = Some Code_FAILED_PRECONDITION \<and>
         (\<not> EnableOnlineDDL e \<longrightarrow> Open e = e)"
  using assms
  by (simp add: SubmitMigration_def CancelMigration_def RetryMigration_def CleanupMigration_def
      CompleteMigration_def LaunchMigration_def ForceCutOverMigration_def
      SetMigrationCutOverThreshold_def errExecutorClosed_def Open_def)

theorem closed_executor_fails_precondition_witness:
  "\<not> isOpen (Close (sampleExecutor [sampleRow uuid1 ''t1'' ''ctx'' OnlineDDLStatusFailed])) \<and>
   RetryMigration (Close (sampleExecutor [sampleRow uuid1 ''t1'' ''ctx'' OnlineDDLStatusFailed])) uuid1
     = (Close (sampleExecutor [sampleRow uuid1 ''t1'' ''ctx'' OnlineDDLStatusFailed]),
        Inl errExecutorClosed) \<and>
   error_code errExecutorClosed = Some Code_FAILED_PRECONDITION \<and>
   \<not> EnableOnlineDDL ((Close (sampleExecutor []))\<lparr>EnableOnlineDDL := False\<rparr>) \<and>
   Open ((Close (sampleExecutor []))\<lparr>EnableOnlineDDL := False\<rparr>)
     = (Close (sampleExecutor []))\<lparr>EnableOnlineDDL := False\<rparr>"
proof -
  have c: "\<not> isOpen (Close (sampleExecutor [sampleRow uuid1 ''t1'' ''ctx'' OnlineDDLStatusFailed]))"
    by (simp add: Close_def)
  have d: "\<not> isOpen ((Close (sampleExecutor []))\<lparr>EnableOnlineDDL := False\<rparr>)"
    by (simp add: Close_def)
  have n: "\<not> EnableOnlineDDL ((Close (sampleExecutor []))\<lparr>EnableOnlineDDL := False\<rparr>)"
    by simp
  from closed_executor_fails_precondition [OF c] closed_executor_fails_precondition [OF d] c n
  show ?thesis by blast
qed

section \<open>The singleton gate\<close>

lemma select_distinct:
  "distinct (map migration_uuid rows) \<Longrightarrow> r \<in> set rows \<Longrightarrow>
   sqlSelectMigration rows (migration_uuid r) = [r]"
proof (induction rows)
  case Nil
  then show ?case by simp
next
  case (Cons a rows)
  show ?case
  proof (cases "r = a")
    case True
    have "filter (\<lambda>x. migration_uuid x = migration_uuid a) rows = []"
      using Cons.prems(1) by (force simp: filter_empty_conv image_iff)
    with True show ?thesis by (simp add: sqlSelectMigration_def)
  next
    case False
    with Cons.prems have in_rows: "r \<in> set rows" by simp
    with Cons.prems(1) have "migration_uuid a \<noteq> migration_uuid r" by auto
    with Cons.IH [OF _ in_rows] Cons.prems(1) show ?thesis
      by (simp add: sqlSelectMigration_def)
  qed
qed

lemma readMigration_distinct:
  "distinct (map migration_uuid (schema_migrations e)) \<Longrightarrow> r \<in> set (schema_migrations e) \<Longrightarrow>
   readMigration e (migration_uuid r) = Inr (onlineDDL_of_row r, r)"
  using select_distinct [of "schema_migrations e" r] by (simp add: readMigration_def)

lemma singletonTableLoop_iff:
  "(singletonTableLoop d rows \<noteq> None) = (\<exists>r\<in>set rows. mysql_table r = Table d)"
  by (induction rows) auto

lemma singletonTableLoop_code:
  "singletonTableLoop d rows = Some err \<Longrightarrow> error_code err = Some Code_FAILED_PRECONDITION"
  by (induction rows) (auto split: if_splits)

lemma conflicts_of_row:
  "migration_context r \<noteq> MigrationContext d \<Longrightarrow>
   submittedMigrationConflictsWithPendingMigrationInSingletonContext d (onlineDDL_of_row r)
     = blocks_singleton_context d r"
  by (auto simp: submittedMigrationConflictsWithPendingMigrationInSingletonContext_def
      blocks_singleton_context_def onlineDDL_of_row_def)

lemma singletonContextLoop_iff:
  assumes "distinct (map migration_uuid (schema_migrations e))"
    and "set rows \<subseteq> set (schema_migrations e)"
  shows "(singletonContextLoop e d rows \<noteq> None) = (\<exists>r\<in>set rows. blocks_singleton_context d r)"
  using assms(2)
proof (induction rows)
  case Nil
  then show ?case by simp
next
  case (Cons a rows)
  then have a: "a \<in> set (schema_migrations e)" and rest: "set rows \<subseteq> set (schema_migrations e)"
    by auto
  have rd: "readMigration e (migration_uuid a) = Inr (onlineDDL_of_row a, a)"
    using readMigration_distinct [OF assms(1) a] .
  show ?case
  proof (cases "MigrationContext d = migration_context a")
    case True
    then have "\<not> blocks_singleton_context d a" by (simp add: blocks_singleton_context_def)
    with True Cons.IH [OF rest] show ?thesis by simp
  next
    case False
    then have "migration_context a \<noteq> MigrationContext d" by simp
    from conflicts_of_row [OF this] False rd Cons.IH [OF rest] show ?thesis by simp
  qed
qed

lemma singletonContextLoop_code:
  assumes "distinct (map migration_uuid (schema_migrations e))"
    and "set rows \<subseteq> set (schema_migrations e)"
  shows "singletonContextLoop e d rows = Some err \<Longrightarrow> error_code err = Some Code_FAILED_PRECONDITION"
  using assms(2)
proof (induction rows)
  case Nil
  then show ?case by simp
next
  case (Cons a rows)
  then have a: "a \<in> set (schema_migrations e)" and rest: "set rows \<subseteq> set (schema_migrations e)"
    by auto
  have rd: "readMigration e (migration_uuid a) = Inr (onlineDDL_of_row a, a)"
    using readMigration_distinct [OF assms(1) a] .
  from Cons.prems(1) Cons.IH [OF _ rest] rd show ?case
    by (auto split: if_splits)
qed

lemma pending_subset: "set (sqlSelectPendingMigrations rows) \<subseteq> set rows"
  by (auto simp: sqlSelectPendingMigrations_def)

lemma singletonGate_iff:
  assumes "distinct (map migration_uuid (schema_migrations e))"
  shows "(singletonGate e d \<noteq> None) =
     (if IsSingleton (Setting d) then sqlSelectPendingMigrations (schema_migrations e) \<noteq> []
      else if IsSingletonContext (Setting d)
      then (\<exists>r\<in>set (sqlSelectPendingMigrations (schema_migrations e)). blocks_singleton_context d r)
      else if IsSingletonTable (Setting d)
      then (\<exists>r\<in>set (sqlSelectPendingMigrations (schema_migrations e)). mysql_table r = Table d)
      else False)"
proof (cases "IsSingleton (Setting d)")
  case True
  then show ?thesis by (simp add: singletonGate_def Let_def split: list.splits)
next
  case False
  show ?thesis
  proof (cases "IsSingletonContext (Setting d)")
    case True
    with False singletonContextLoop_iff [OF assms pending_subset, of d] show ?thesis
      by (simp add: singletonGate_def Let_def)
  next
    case nctx: False
    with False singletonTableLoop_iff [of d "sqlSelectPendingMigrations (schema_migrations e)"]
    show ?thesis
      by (auto simp: singletonGate_def Let_def)
  qed
qed

lemma singletonGate_code:
  assumes "distinct (map migration_uuid (schema_migrations e))"
    and "singletonGate e d = Some err"
  shows "error_code err = Some Code_FAILED_PRECONDITION"
proof (cases "IsSingleton (Setting d)")
  case True
  with assms(2) show ?thesis
    by (auto simp: singletonGate_def Let_def split: list.splits)
next
  case False
  show ?thesis
  proof (cases "IsSingletonContext (Setting d)")
    case True
    with False assms(2) have "singletonContextLoop e d (sqlSelectPendingMigrations (schema_migrations e)) = Some err"
      by (simp add: singletonGate_def Let_def)
    then show ?thesis using singletonContextLoop_code [OF assms(1) pending_subset] by blast
  next
    case nctx: False
    with False assms(2) have "singletonTableLoop d (sqlSelectPendingMigrations (schema_migrations e)) = Some err"
      by (simp add: singletonGate_def Let_def split: if_splits)
    then show ?thesis using singletonTableLoop_code by blast
  qed
qed

lemma singletonGate_flag:
  "singletonGate e d = Some err \<Longrightarrow>
   IsSingleton (Setting d) \<or> IsSingletonContext (Setting d) \<or> IsSingletonTable (Setting d)"
  by (auto simp: singletonGate_def Let_def split: if_splits)

lemma submitCallback_gate:
  "submitCallbackIfNonConflicting e d callback =
     (case singletonGate e d of Some err \<Rightarrow> (e, Inl err) | None \<Rightarrow> callback e)"
  by (auto simp: submitCallbackIfNonConflicting_def singletonGate_def Let_def split: option.splits)

lemma SubmitMigration_rejected:
  assumes "singletonGate e d = Some err" and "OnlineDDLFromCommentedStatement stmt = Inr d"
  shows "fst (SubmitMigration e stmt) = e \<and> isl (snd (SubmitMigration e stmt))"
  using assms
  by (auto simp: SubmitMigration_def submitCallback_gate Let_def
      split: sum.splits option.splits prod.splits)


lemmas sample_defs = sampleExecutor_def sampleRow_def plainSetting_def uuid1_def uuid2_def uuid3_def
  sampleDDL_def sampleStatement_def onlineDDL_of_row_def

text \<open>
  C3, amended. On a store with one row per UUID, the gate rejects a submission exactly in
  these cases, tried in this order: with \<open>singleton\<close>, when any pending migration exists;
  otherwise with \<open>singleton-context\<close>, when a pending migration of another context exists
  that is not a REVERT lacking \<open>singleton-context\<close>; otherwise with \<open>singleton-table\<close>, when
  a pending migration targets the same table. A rejection carries FAILED_PRECONDITION, and
  a submission the gate rejects returns an error and leaves the state, so the store, as it
  was.
\<close>

theorem singleton_gate_rejections:
  assumes "distinct (map migration_uuid (schema_migrations e))"
  shows "(singletonGate e d \<noteq> None) =
           (if IsSingleton (Setting d) then sqlSelectPendingMigrations (schema_migrations e) \<noteq> []
            else if IsSingletonContext (Setting d)
            then (\<exists>r\<in>set (sqlSelectPendingMigrations (schema_migrations e)).
                    blocks_singleton_context d r)
            else if IsSingletonTable (Setting d)
            then (\<exists>r\<in>set (sqlSelectPendingMigrations (schema_migrations e)).
                    mysql_table r = Table d)
            else False) \<and>
         (\<forall>err. singletonGate e d = Some err \<longrightarrow>
            error_code err = Some Code_FAILED_PRECONDITION \<and>
            (\<forall>stmt. OnlineDDLFromCommentedStatement stmt = Inr d \<longrightarrow>
               fst (SubmitMigration e stmt) = e \<and> isl (snd (SubmitMigration e stmt))))"
  using singletonGate_iff [OF assms, of d] singletonGate_code [OF assms, of d]
    SubmitMigration_rejected [of e d]
  by blast

text \<open>
  C3, as stated, fails: a submission with both \<open>singleton-context\<close> and \<open>singleton-table\<close>
  is admitted, and its row inserted, while a pending migration of the same context targets
  the same table; the \<open>switch\<close> stops at the \<open>singleton-context\<close> case.
\<close>

theorem singleton_table_beside_context_counterexample:
  "IsSingletonTable (Setting (sampleDDL uuid2 ''t1'' ''ctx''
       (plainSetting\<lparr>IsSingletonContext := True, IsSingletonTable := True\<rparr>))) \<and>
   map mysql_table (sqlSelectPendingMigrations
       (schema_migrations (sampleExecutor [sampleRow uuid1 ''t1'' ''ctx'' OnlineDDLStatusQueued])))
     = [Table (sampleDDL uuid2 ''t1'' ''ctx''
          (plainSetting\<lparr>IsSingletonContext := True, IsSingletonTable := True\<rparr>))] \<and>
   snd (SubmitMigration (sampleExecutor [sampleRow uuid1 ''t1'' ''ctx'' OnlineDDLStatusQueued])
          (sampleStatement (sampleDDL uuid2 ''t1'' ''ctx''
             (plainSetting\<lparr>IsSingletonContext := True, IsSingletonTable := True\<rparr>))))
     = Inr (Result 1) \<and>
   map migration_uuid (schema_migrations
       (fst (SubmitMigration (sampleExecutor [sampleRow uuid1 ''t1'' ''ctx'' OnlineDDLStatusQueued])
          (sampleStatement (sampleDDL uuid2 ''t1'' ''ctx''
             (plainSetting\<lparr>IsSingletonContext := True, IsSingletonTable := True\<rparr>))))))
     = [uuid1, uuid2]"
  by (simp add: sample_defs SubmitMigration_def readMigration_def sqlSelectMigration_def
      GetActionStr_def safeMigrationCutOverThreshold_def submitCallbackIfNonConflicting_def
      singletonGate_def sqlSelectPendingMigrations_def is_pending_def sqlInsertMigration_def
      submitted_row_def triggerNextCheckInterval_def Let_def)


theorem singleton_gate_rejections_witness:
  "distinct (map migration_uuid
      (schema_migrations (sampleExecutor [sampleRow uuid1 ''t1'' ''ctx'' OnlineDDLStatusRunning]))) \<and>
   singletonGate (sampleExecutor [sampleRow uuid1 ''t1'' ''ctx'' OnlineDDLStatusRunning])
       (sampleDDL uuid2 ''t2'' ''ctx'' (plainSetting\<lparr>IsSingleton := True\<rparr>)) \<noteq> None \<and>
   singletonGate (sampleExecutor [sampleRow uuid1 ''t1'' ''ctx'' OnlineDDLStatusRunning])
       (sampleDDL uuid2 ''t2'' ''other'' (plainSetting\<lparr>IsSingletonContext := True\<rparr>)) \<noteq> None \<and>
   singletonGate (sampleExecutor [sampleRow uuid1 ''t1'' ''ctx'' OnlineDDLStatusRunning])
       (sampleDDL uuid2 ''t1'' ''ctx'' (plainSetting\<lparr>IsSingletonTable := True\<rparr>)) \<noteq> None \<and>
   singletonGate
       (sampleExecutor [(sampleRow uuid1 ''t1'' ''ctx'' OnlineDDLStatusRunning)\<lparr>row_revert_uuid := Some uuid3\<rparr>])
       (sampleDDL uuid2 ''t2'' ''other'' (plainSetting\<lparr>IsSingletonContext := True\<rparr>)) = None \<and>
   fst (SubmitMigration (sampleExecutor [sampleRow uuid1 ''t1'' ''ctx'' OnlineDDLStatusRunning])
          (sampleStatement (sampleDDL uuid2 ''t2'' ''ctx'' (plainSetting\<lparr>IsSingleton := True\<rparr>))))
     = sampleExecutor [sampleRow uuid1 ''t1'' ''ctx'' OnlineDDLStatusRunning] \<and>
   isl (snd (SubmitMigration (sampleExecutor [sampleRow uuid1 ''t1'' ''ctx'' OnlineDDLStatusRunning])
          (sampleStatement (sampleDDL uuid2 ''t2'' ''ctx'' (plainSetting\<lparr>IsSingleton := True\<rparr>)))))"
proof -
  let ?e = "sampleExecutor [sampleRow uuid1 ''t1'' ''ctx'' OnlineDDLStatusRunning]"
  let ?er = "sampleExecutor [(sampleRow uuid1 ''t1'' ''ctx'' OnlineDDLStatusRunning)\<lparr>row_revert_uuid := Some uuid3\<rparr>]"
  let ?dS = "sampleDDL uuid2 ''t2'' ''ctx'' (plainSetting\<lparr>IsSingleton := True\<rparr>)"
  let ?dC = "sampleDDL uuid2 ''t2'' ''other'' (plainSetting\<lparr>IsSingletonContext := True\<rparr>)"
  let ?dT = "sampleDDL uuid2 ''t1'' ''ctx'' (plainSetting\<lparr>IsSingletonTable := True\<rparr>)"
  have dist: "distinct (map migration_uuid (schema_migrations ?e))"
    by (simp add: sampleExecutor_def)
  have distr: "distinct (map migration_uuid (schema_migrations ?er))"
    by (simp add: sampleExecutor_def)
  have pend: "sqlSelectPendingMigrations (schema_migrations ?e)
      = [sampleRow uuid1 ''t1'' ''ctx'' OnlineDDLStatusRunning]"
    by (simp add: sampleExecutor_def sqlSelectPendingMigrations_def is_pending_def sampleRow_def)
  have pendr: "sqlSelectPendingMigrations (schema_migrations ?er)
      = [(sampleRow uuid1 ''t1'' ''ctx'' OnlineDDLStatusRunning)\<lparr>row_revert_uuid := Some uuid3\<rparr>]"
    by (simp add: sampleExecutor_def sqlSelectPendingMigrations_def is_pending_def sampleRow_def)
  have fS: "IsSingleton (Setting ?dS)"
    by (simp add: sampleDDL_def onlineDDL_of_row_def plainSetting_def)
  have fC: "\<not> IsSingleton (Setting ?dC)" "IsSingletonContext (Setting ?dC)"
    by (simp_all add: sampleDDL_def onlineDDL_of_row_def plainSetting_def)
  have fT: "\<not> IsSingleton (Setting ?dT)" "\<not> IsSingletonContext (Setting ?dT)"
      "IsSingletonTable (Setting ?dT)"
    by (simp_all add: sampleDDL_def onlineDDL_of_row_def plainSetting_def)
  have r1: "sqlSelectPendingMigrations (schema_migrations ?e) \<noteq> []"
    unfolding pend by simp
  have r2: "\<exists>r\<in>set (sqlSelectPendingMigrations (schema_migrations ?e)). blocks_singleton_context ?dC r"
    unfolding pend
    by (simp add: blocks_singleton_context_def sampleDDL_def onlineDDL_of_row_def sampleRow_def)
  have r3: "\<exists>r\<in>set (sqlSelectPendingMigrations (schema_migrations ?e)). mysql_table r = Table ?dT"
    unfolding pend by (simp add: sampleDDL_def onlineDDL_of_row_def sampleRow_def)
  have r4: "\<not> (\<exists>r\<in>set (sqlSelectPendingMigrations (schema_migrations ?er)). blocks_singleton_context ?dC r)"
    unfolding pendr
    by (simp add: blocks_singleton_context_def sampleDDL_def onlineDDL_of_row_def sampleRow_def
        plainSetting_def)
  have g1: "singletonGate ?e ?dS \<noteq> None"
    using singleton_gate_rejections [OF dist, of ?dS] fS r1 by simp
  have g2: "singletonGate ?e ?dC \<noteq> None"
    using singleton_gate_rejections [OF dist, of ?dC] fC r2 by simp
  have g3: "singletonGate ?e ?dT \<noteq> None"
    using singleton_gate_rejections [OF dist, of ?dT] fT r3 by simp
  have g4: "singletonGate ?er ?dC = None"
    using singleton_gate_rejections [OF distr, of ?dC] fC r4 by simp
  from g1 obtain err where "singletonGate ?e ?dS = Some err" by auto
  with singleton_gate_rejections [OF dist, of ?dS]
  have sub: "fst (SubmitMigration ?e (sampleStatement ?dS)) = ?e
      \<and> isl (snd (SubmitMigration ?e (sampleStatement ?dS)))"
    by (simp add: sampleStatement_def)
  from dist g1 g2 g3 g4 sub show ?thesis by blast
qed

section \<open>Resubmission\<close>

lemma rows_RetryMigration:
  "isOpen e \<Longrightarrow> IsOnlineDDLUUID u \<Longrightarrow>
   schema_migrations (fst (RetryMigration e u)) =
     map (\<lambda>r. if migration_uuid r = u
                  \<and> (migration_status r = OnlineDDLStatusFailed
                     \<or> migration_status r = OnlineDDLStatusCancelled)
               then r\<lparr>migration_status := OnlineDDLStatusQueued, tablet := tabletAlias e\<rparr> else r)
       (schema_migrations e)"
  by (auto simp: RetryMigration_def sqlRetryMigration_def retry_cond_def)

lemma RetryMigration_invalid: "\<not> IsOnlineDDLUUID u \<Longrightarrow> fst (RetryMigration e u) = e"
  by (simp add: RetryMigration_def)

lemma select_RetryMigration:
  "length (sqlSelectMigration (schema_migrations (fst (RetryMigration e u))) v)
     = length (sqlSelectMigration (schema_migrations e) v)"
proof (cases "isOpen e \<and> IsOnlineDDLUUID u")
  case True
  then show ?thesis
    using select_map [of "\<lambda>r. if migration_uuid r = u
                  \<and> (migration_status r = OnlineDDLStatusFailed
                     \<or> migration_status r = OnlineDDLStatusCancelled)
               then r\<lparr>migration_status := OnlineDDLStatusQueued, tablet := tabletAlias e\<rparr> else r"
        "schema_migrations e" v]
    by (simp add: rows_RetryMigration)
next
  case False
  then show ?thesis by (auto simp: RetryMigration_def)
qed

text \<open>
  C4, amended. On an open executor, for a parsed statement whose UUID has a row: a
  differing context is rejected with FAILED_PRECONDITION and no change; otherwise the
  submission goes through the singleton gate, which either rejects it with no change or
  lets it behave as \<open>RetryMigration\<close>. Either way the UUID keeps exactly one row. The retry
  takes the row back to queued when it is failed or cancelled and changes no row otherwise.
\<close>

theorem resubmission_checks_context_then_gate_then_retries:
  assumes "isOpen e" and "IsFullyParsed stmt"
    and "OnlineDDLFromCommentedStatement stmt = Inr d"
    and "readMigration e (UUID d) = Inr (stored, row)"
  shows "(MigrationContext stored \<noteq> MigrationContext d \<longrightarrow>
            (\<exists>m. SubmitMigration e stmt = (e, Inl (VtError Code_FAILED_PRECONDITION m)))) \<and>
         (MigrationContext stored = MigrationContext d \<longrightarrow>
            SubmitMigration e stmt =
              (case singletonGate e d of
                 Some err \<Rightarrow> (e, Inl err)
               | None \<Rightarrow> RetryMigration e (UUID d))) \<and>
         length (sqlSelectMigration (schema_migrations (fst (SubmitMigration e stmt))) (UUID d)) = 1 \<and>
         (IsOnlineDDLUUID (UUID d) \<longrightarrow>
            schema_migrations (fst (RetryMigration e (UUID d))) =
              map (\<lambda>r. if migration_uuid r = UUID d
                           \<and> (migration_status r = OnlineDDLStatusFailed
                              \<or> migration_status r = OnlineDDLStatusCancelled)
                        then r\<lparr>migration_status := OnlineDDLStatusQueued, tablet := tabletAlias e\<rparr>
                        else r)
                (schema_migrations e)) \<and>
         (\<not> IsOnlineDDLUUID (UUID d) \<longrightarrow> fst (RetryMigration e (UUID d)) = e)"
proof -
  from assms(4) have sel: "sqlSelectMigration (schema_migrations e) (UUID d) = [row]"
    using readMigration_Inr by blast
  have sub: "SubmitMigration e stmt =
      (if MigrationContext stored \<noteq> MigrationContext d
       then (e, Inl (VtError Code_FAILED_PRECONDITION
                       (''migration rejected: found migration '' @ UUID d
                        @ '' with different context: '' @ MigrationContext stored
                        @ '' than submitted migration's context: '' @ MigrationContext d)))
       else (case singletonGate e d of
               Some err \<Rightarrow> (e, Inl err)
             | None \<Rightarrow> RetryMigration e (UUID d)))"
    using assms by (simp add: SubmitMigration_def submitCallback_gate)
  have one: "length (sqlSelectMigration (schema_migrations (fst (SubmitMigration e stmt))) (UUID d)) = 1"
    using sel select_RetryMigration [of e "UUID d" "UUID d"]
    by (auto simp: sub split: option.splits)
  show ?thesis
    using sub one rows_RetryMigration [OF assms(1), of "UUID d"] RetryMigration_invalid [of "UUID d" e]
    by auto
qed

text \<open>
  C4, as stated, fails: resubmitting a failed migration under \<open>singleton\<close>, with the same
  context, while another migration is pending, is rejected and leaves the migration
  failed, where \<open>RetryMigration\<close> succeeds and takes it back to queued.
\<close>

theorem resubmission_under_singleton_counterexample:
  "readMigration (sampleExecutor [sampleRow uuid1 ''t1'' ''ctx'' OnlineDDLStatusFailed,
                                  sampleRow uuid2 ''t2'' ''ctx'' OnlineDDLStatusQueued]) uuid1
     = Inr (onlineDDL_of_row (sampleRow uuid1 ''t1'' ''ctx'' OnlineDDLStatusFailed),
            sampleRow uuid1 ''t1'' ''ctx'' OnlineDDLStatusFailed) \<and>
   map migration_status (schema_migrations (fst (SubmitMigration
       (sampleExecutor [sampleRow uuid1 ''t1'' ''ctx'' OnlineDDLStatusFailed,
                        sampleRow uuid2 ''t2'' ''ctx'' OnlineDDLStatusQueued])
       (sampleStatement (sampleDDL uuid1 ''t1'' ''ctx'' (plainSetting\<lparr>IsSingleton := True\<rparr>))))))
     = [OnlineDDLStatusFailed, OnlineDDLStatusQueued] \<and>
   isl (snd (SubmitMigration
       (sampleExecutor [sampleRow uuid1 ''t1'' ''ctx'' OnlineDDLStatusFailed,
                        sampleRow uuid2 ''t2'' ''ctx'' OnlineDDLStatusQueued])
       (sampleStatement (sampleDDL uuid1 ''t1'' ''ctx'' (plainSetting\<lparr>IsSingleton := True\<rparr>))))) \<and>
   map migration_status (schema_migrations (fst (RetryMigration
       (sampleExecutor [sampleRow uuid1 ''t1'' ''ctx'' OnlineDDLStatusFailed,
                        sampleRow uuid2 ''t2'' ''ctx'' OnlineDDLStatusQueued]) uuid1)))
     = [OnlineDDLStatusQueued, OnlineDDLStatusQueued] \<and>
   \<not> isl (snd (RetryMigration
       (sampleExecutor [sampleRow uuid1 ''t1'' ''ctx'' OnlineDDLStatusFailed,
                        sampleRow uuid2 ''t2'' ''ctx'' OnlineDDLStatusQueued]) uuid1))"
proof -
  have v: "IsOnlineDDLUUID uuid1" by code_simp
  have ne: "uuid2 \<noteq> uuid1" by (simp add: uuid1_def uuid2_def)
  show ?thesis
    using v ne
    by (simp add: sampleExecutor_def sampleRow_def sampleDDL_def sampleStatement_def
        onlineDDL_of_row_def plainSetting_def
        SubmitMigration_def readMigration_def sqlSelectMigration_def
        submitCallbackIfNonConflicting_def singletonGate_def sqlSelectPendingMigrations_def
        is_pending_def RetryMigration_def sqlRetryMigration_def retry_cond_def
        update_where_def triggerNextCheckInterval_def Let_def)
qed


theorem resubmission_checks_context_then_gate_then_retries_witness:
  "isOpen (sampleExecutor [sampleRow uuid1 ''t1'' ''ctx'' OnlineDDLStatusFailed]) \<and>
   SubmitMigration (sampleExecutor [sampleRow uuid1 ''t1'' ''ctx'' OnlineDDLStatusFailed])
       (sampleStatement (sampleDDL uuid1 ''t1'' ''ctx'' plainSetting))
     = RetryMigration (sampleExecutor [sampleRow uuid1 ''t1'' ''ctx'' OnlineDDLStatusFailed]) uuid1 \<and>
   map migration_status (schema_migrations (fst (RetryMigration
       (sampleExecutor [sampleRow uuid1 ''t1'' ''ctx'' OnlineDDLStatusFailed]) uuid1)))
     = [OnlineDDLStatusQueued] \<and>
   (\<exists>m. SubmitMigration (sampleExecutor [sampleRow uuid1 ''t1'' ''ctx'' OnlineDDLStatusFailed])
          (sampleStatement (sampleDDL uuid1 ''t1'' ''other'' plainSetting))
        = (sampleExecutor [sampleRow uuid1 ''t1'' ''ctx'' OnlineDDLStatusFailed],
           Inl (VtError Code_FAILED_PRECONDITION m))) \<and>
   length (sqlSelectMigration (schema_migrations (fst (SubmitMigration
       (sampleExecutor [sampleRow uuid1 ''t1'' ''ctx'' OnlineDDLStatusFailed])
       (sampleStatement (sampleDDL uuid1 ''t1'' ''ctx'' plainSetting))))) uuid1) = 1"
proof -
  let ?row = "sampleRow uuid1 ''t1'' ''ctx'' OnlineDDLStatusFailed"
  let ?e = "sampleExecutor [?row]"
  let ?d = "sampleDDL uuid1 ''t1'' ''ctx'' plainSetting"
  let ?o = "sampleDDL uuid1 ''t1'' ''other'' plainSetting"
  have op: "isOpen ?e" by (simp add: sampleExecutor_def)
  have fp: "\<And>d. IsFullyParsed (sampleStatement d)"
    and od: "\<And>d. OnlineDDLFromCommentedStatement (sampleStatement d) = Inr d"
    by (simp_all add: sampleStatement_def)
  have ud: "UUID ?d = uuid1" and uo: "UUID ?o = uuid1"
    by (simp_all add: sampleDDL_def onlineDDL_of_row_def sampleRow_def)
  have rd: "readMigration ?e uuid1 = Inr (onlineDDL_of_row ?row, ?row)"
    by (simp add: readMigration_def sqlSelectMigration_def sampleExecutor_def sampleRow_def)
  have cd: "MigrationContext (onlineDDL_of_row ?row) = MigrationContext ?d"
    and co: "MigrationContext (onlineDDL_of_row ?row) \<noteq> MigrationContext ?o"
    by (simp_all add: sampleDDL_def onlineDDL_of_row_def sampleRow_def)
  have gate: "singletonGate ?e ?d = None"
    by (simp add: singletonGate_def sampleDDL_def onlineDDL_of_row_def plainSetting_def Let_def)
  have valid: "IsOnlineDDLUUID (UUID ?d)" unfolding ud by code_simp
  have rdd: "readMigration ?e (UUID ?d) = Inr (onlineDDL_of_row ?row, ?row)"
    and rdo: "readMigration ?e (UUID ?o) = Inr (onlineDDL_of_row ?row, ?row)"
    using rd by (simp_all add: ud uo)
  note same = resubmission_checks_context_then_gate_then_retries [OF op fp od rdd]
  note other = resubmission_checks_context_then_gate_then_retries [OF op fp od rdo]
  have a: "SubmitMigration ?e (sampleStatement ?d) = RetryMigration ?e uuid1"
    using same cd gate ud by simp
  have b: "map migration_status (schema_migrations (fst (RetryMigration ?e uuid1)))
      = [OnlineDDLStatusQueued]"
    using same valid ud by (simp add: sampleExecutor_def sampleRow_def)
  have c: "\<exists>m. SubmitMigration ?e (sampleStatement ?o) = (?e, Inl (VtError Code_FAILED_PRECONDITION m))"
    using other co by blast
  have l: "length (sqlSelectMigration (schema_migrations
      (fst (SubmitMigration ?e (sampleStatement ?d)))) uuid1) = 1"
    using same ud by simp
  from op a b c l show ?thesis by blast
qed

section \<open>The runner waits for the first review\<close>

lemma flag_update_where [simp]:
  "reviewedRunningMigrationsFlag (update_where c f e) = reviewedRunningMigrationsFlag e"
  by (simp add: update_where_def)

lemma flag_trigger [simp]:
  "reviewedRunningMigrationsFlag (triggerNextCheckInterval e) = reviewedRunningMigrationsFlag e"
  by (simp add: triggerNextCheckInterval_def)

lemma flag_failMigration [simp]:
  "reviewedRunningMigrationsFlag (failMigration e d w) = reviewedRunningMigrationsFlag e"
  by (simp add: failMigration_def updateMigrationStatusFailedOrCancelled_def
      updateMigrationMessage_def Let_def split: option.splits)

lemma flag_terminateMigration [simp]:
  "reviewedRunningMigrationsFlag (fst (terminateMigration e d)) = reviewedRunningMigrationsFlag e"
  by (simp add: terminateMigration_def terminateVReplMigration_def Let_def split: option.splits)

lemma flag_CancelMigration:
  "reviewedRunningMigrationsFlag (fst (CancelMigration e now u msg b)) = reviewedRunningMigrationsFlag e"
  by (auto simp: CancelMigration_def Let_def updateMigrationTimestamp_def
      split: sum.splits option.splits)

lemma flag_RetryMigration:
  "reviewedRunningMigrationsFlag (fst (RetryMigration e u)) = reviewedRunningMigrationsFlag e"
  by (simp add: RetryMigration_def sqlRetryMigration_def)

lemma flag_submitCallback:
  "(\<And>s. reviewedRunningMigrationsFlag (fst (callback s)) = reviewedRunningMigrationsFlag s) \<Longrightarrow>
   reviewedRunningMigrationsFlag (fst (submitCallbackIfNonConflicting e d callback))
     = reviewedRunningMigrationsFlag e"
  by (simp add: submitCallback_gate split: option.splits)

lemma flag_sqlInsertMigration:
  "reviewedRunningMigrationsFlag (fst (sqlInsertMigration e row)) = reviewedRunningMigrationsFlag e"
  by (simp add: sqlInsertMigration_def)

lemma flag_SubmitMigration:
  "reviewedRunningMigrationsFlag (fst (SubmitMigration e stmt)) = reviewedRunningMigrationsFlag e"
  by (auto simp: SubmitMigration_def Let_def flag_submitCallback flag_RetryMigration
      flag_sqlInsertMigration split: sum.splits option.splits prod.splits)

lemma flag_updateMigrationReadyToComplete [simp]:
  "reviewedRunningMigrationsFlag (updateMigrationReadyToComplete e u b) = reviewedRunningMigrationsFlag e"
  by (simp add: updateMigrationReadyToComplete_def Let_def)

lemma flag_updateMigrationStatus [simp]:
  "reviewedRunningMigrationsFlag (updateMigrationStatus e u s) = reviewedRunningMigrationsFlag e"
  by (simp add: updateMigrationStatus_def)

lemma flag_scheduleLoop:
  "reviewedRunningMigrationsFlag (scheduleLoop rows scheduled e) = reviewedRunningMigrationsFlag e"
  by (induction rows arbitrary: scheduled e) (simp_all add: Let_def)

lemma flag_perform:
  "\<not> reviewedRunningMigrationsFlag e \<Longrightarrow> \<not> reviewedRunningMigrationsFlag (perform op e)"
  by (cases op)
    (simp_all add: Open_def Close_def flag_SubmitMigration flag_CancelMigration flag_RetryMigration
      CleanupMigration_def ForceCutOverMigration_def SetMigrationCutOverThreshold_def
      CompleteMigration_def LaunchMigration_def scheduleNextMigration_def flag_scheduleLoop
      triggerNextCheckInterval_def Let_def split: option.splits)

lemma runNextMigration_before_review:
  "\<not> reviewedRunningMigrationsFlag e \<Longrightarrow> runNextMigration z ex e = (e, None)"
  by (simp add: runNextMigration_def)

lemma flag_review_not_complete:
  "\<not> review_completes rv e \<Longrightarrow>
   reviewedRunningMigrationsFlag (fst (reviewRunningMigrations rv e)) = reviewedRunningMigrationsFlag e"
  by (auto simp: review_completes_def reviewRunningMigrations_def Let_def split: option.splits)

lemma flag_review_complete:
  "review_completes rv e \<Longrightarrow> reviewedRunningMigrationsFlag (fst (reviewRunningMigrations rv e))"
  by (auto simp: review_completes_def reviewRunningMigrations_def Let_def split: option.splits)

lemma flag_run:
  "\<not> reviewedRunningMigrationsFlag e \<Longrightarrow> no_review_completes z ex rv steps e \<Longrightarrow>
   \<not> reviewedRunningMigrationsFlag (run z ex rv steps e)"
proof (induction steps arbitrary: e)
  case Nil
  then show ?case by simp
next
  case (Cons s steps)
  have "\<not> reviewedRunningMigrationsFlag (step z ex rv s e)"
  proof (cases s)
    case (Perform op)
    with Cons.prems(1) show ?thesis by (simp add: flag_perform)
  next
    case RunNext
    with Cons.prems(1) show ?thesis by (simp add: runNextMigration_before_review)
  next
    case ReviewRunning
    with Cons.prems show ?thesis by (simp add: flag_review_not_complete)
  qed
  with Cons.IH [of "step z ex rv s e"] Cons.prems(2) show ?case by simp
qed

text \<open>
  C10. \<open>Open\<close>, when it opens the executor, clears the flag of the reviewed running
  migrations. Along any run of operations, runner steps and reviewer steps that follows,
  as long as no call of \<open>reviewRunningMigrations\<close> has completed, the flag stays clear and
  \<open>runNextMigration\<close> returns at once, with no error and the state as it was.
\<close>

theorem runner_waits_for_first_review:
  assumes "\<not> isOpen e0" and "EnableOnlineDDL e0"
    and "no_review_completes z ex rv steps (Open e0)"
  shows "\<not> reviewedRunningMigrationsFlag (Open e0) \<and>
         runNextMigration z ex (run z ex rv steps (Open e0)) = (run z ex rv steps (Open e0), None)"
proof -
  have f: "\<not> reviewedRunningMigrationsFlag (Open e0)"
    using assms(1,2) by (simp add: Open_def triggerNextCheckInterval_def Let_def)
  from flag_run [OF f assms(3)] f show ?thesis
    by (simp add: runNextMigration_before_review)
qed

theorem runner_waits_for_first_review_witness:
  "\<not> isOpen (Close (sampleExecutor [sampleRow uuid1 ''t1'' ''ctx'' OnlineDDLStatusReady])) \<and>
   EnableOnlineDDL (Close (sampleExecutor [sampleRow uuid1 ''t1'' ''ctx'' OnlineDDLStatusReady])) \<and>
   reviewedRunningMigrationsFlag (Close (sampleExecutor [sampleRow uuid1 ''t1'' ''ctx'' OnlineDDLStatusReady])) \<and>
   runNextMigration CreateDDLAction idleHandlers
     (run CreateDDLAction idleHandlers failingReview [ReviewRunning, RunNext]
        (Open (Close (sampleExecutor [sampleRow uuid1 ''t1'' ''ctx'' OnlineDDLStatusReady]))))
   = (run CreateDDLAction idleHandlers failingReview [ReviewRunning, RunNext]
        (Open (Close (sampleExecutor [sampleRow uuid1 ''t1'' ''ctx'' OnlineDDLStatusReady]))), None)"
proof -
  let ?e0 = "Close (sampleExecutor [sampleRow uuid1 ''t1'' ''ctx'' OnlineDDLStatusReady])"
  have a: "\<not> isOpen ?e0" by (simp add: Close_def)
  have b: "EnableOnlineDDL ?e0" by (simp add: Close_def sampleExecutor_def)
  have f: "reviewedRunningMigrationsFlag ?e0" by (simp add: Close_def sampleExecutor_def)
  have c: "no_review_completes CreateDDLAction idleHandlers failingReview [ReviewRunning, RunNext] (Open ?e0)"
    by (simp add: review_completes_def failingReview_def)
  from runner_waits_for_first_review [OF a b c] a b f show ?thesis by blast
qed

section \<open>The scheduler promotes one row\<close>

lemma rows_updateMigrationReadyToComplete:
  "schema_migrations (updateMigrationReadyToComplete e u True) =
     map (\<lambda>r. if migration_uuid r = u
               then r\<lparr>ready_to_complete := True, was_ready_to_complete := True\<rparr> else r)
       (schema_migrations e)"
  by (simp add: updateMigrationReadyToComplete_def Let_def)

lemma rows_updateMigrationStatus:
  "schema_migrations (updateMigrationStatus e u s) =
     map (\<lambda>r. if migration_uuid r = u then r\<lparr>migration_status := s\<rparr> else r) (schema_migrations e)"
  by (simp add: updateMigrationStatus_def)

lemma rows_scheduleLoop:
  "schema_migrations (scheduleLoop snap scheduled e)
     = map (scheduleLoop_row snap scheduled) (schema_migrations e)"
proof (induction snap arbitrary: scheduled e)
  case Nil
  then show ?case by simp
next
  case (Cons s snap)
  show ?case
    by (simp add: Cons.IH Let_def rows_updateMigrationReadyToComplete rows_updateMigrationStatus
        comp_def cong: if_cong)
qed

lemma scheduleLoop_row_other:
  "\<forall>s\<in>set snap. migration_uuid s \<noteq> migration_uuid r \<Longrightarrow>
   scheduleLoop_row snap scheduled r = r"
  by (induction snap arbitrary: scheduled) (auto simp: Let_def)

lemma scheduleLoop_row_scheduled:
  assumes "distinct (map migration_uuid snap)"
    and "\<forall>s\<in>set snap. migration_uuid s = migration_uuid r \<longrightarrow> s = r"
  shows "scheduleLoop_row snap scheduled r =
     (if r \<in> set snap \<and> \<not> postpone_launch r
      then (if \<not> scheduled \<and> find schedulable snap = Some r
            then (flagged_row r)\<lparr>migration_status := OnlineDDLStatusReady\<rparr>
            else flagged_row r)
      else r)"
  using assms
proof (induction snap arbitrary: scheduled)
  case Nil
  then show ?case by simp
next
  case (Cons s snap)
  have dist: "distinct (map migration_uuid snap)" using Cons.prems(1) by simp
  have uniq: "\<forall>x\<in>set snap. migration_uuid x = migration_uuid r \<longrightarrow> x = r"
    using Cons.prems(2) by simp
  note IH = Cons.IH [OF dist uniq]
  show ?case
  proof (cases "s = r")
    case True
    then have notin: "\<forall>x\<in>set snap. migration_uuid x \<noteq> migration_uuid r"
      using Cons.prems(1) by (force simp: image_iff)
    then have rn: "r \<notin> set snap" by auto
    have o1: "\<And>b. scheduleLoop_row snap b r = r"
      using scheduleLoop_row_other [OF notin] .
    have n2: "\<forall>x\<in>set snap. migration_uuid x \<noteq> migration_uuid (flagged_row r)"
      using notin by (simp add: flagged_row_def)
    have o2: "\<And>b. scheduleLoop_row snap b (flagged_row r) = flagged_row r"
      using scheduleLoop_row_other [OF n2] .
    have n3: "\<forall>x\<in>set snap. migration_uuid x
        \<noteq> migration_uuid ((flagged_row r)\<lparr>migration_status := OnlineDDLStatusReady\<rparr>)"
      using notin by (simp add: flagged_row_def)
    have o3: "\<And>b. scheduleLoop_row snap b ((flagged_row r)\<lparr>migration_status := OnlineDDLStatusReady\<rparr>)
        = (flagged_row r)\<lparr>migration_status := OnlineDDLStatusReady\<rparr>"
      using scheduleLoop_row_other [OF n3] .
    have fr: "(if \<not> ready_to_complete r \<and> is_immediate_operation r
               then r\<lparr>ready_to_complete := True, was_ready_to_complete := True\<rparr> else r)
              = flagged_row r"
      by (simp add: flagged_row_def)
    have fu: "migration_uuid (flagged_row r) = migration_uuid r"
      by (simp add: flagged_row_def)
    have nf: "find schedulable snap \<noteq> Some r"
    proof
      assume "find schedulable snap = Some r"
      then have "r \<in> set snap" by (auto simp: find_Some_iff)
      with rn show False by simp
    qed
    show ?thesis
      using True o1 o2 o3 nf [unfolded schedulable_def]
      by (simp add: Let_def fr fu schedulable_def)
  next
    case False
    then have ne: "migration_uuid s \<noteq> migration_uuid r" using Cons.prems(2) by auto
    have step: "scheduleLoop_row (s # snap) scheduled r =
        scheduleLoop_row snap (scheduled \<or> schedulable s) r"
      using ne by (auto simp: Let_def schedulable_def)
    show ?thesis
      unfolding step IH using False by (auto simp: schedulable_def)
  qed
qed


lemma queued_snapshot:
  assumes "distinct (map migration_uuid rows)" and "r \<in> set rows"
  shows "distinct (map migration_uuid (sqlSelectQueuedMigrations rows))"
    and "\<forall>s\<in>set (sqlSelectQueuedMigrations rows). migration_uuid s = migration_uuid r \<longrightarrow> s = r"
    and "(r \<in> set (sqlSelectQueuedMigrations rows)) = (migration_status r = OnlineDDLStatusQueued)"
proof -
  show "distinct (map migration_uuid (sqlSelectQueuedMigrations rows))"
    using assms(1) by (simp add: sqlSelectQueuedMigrations_def distinct_map_filter)
  have inj: "inj_on migration_uuid (set rows)" using assms(1) by (simp add: distinct_map)
  show "\<forall>s\<in>set (sqlSelectQueuedMigrations rows). migration_uuid s = migration_uuid r \<longrightarrow> s = r"
    using inj assms(2) by (auto simp: sqlSelectQueuedMigrations_def dest: inj_onD)
  show "(r \<in> set (sqlSelectQueuedMigrations rows)) = (migration_status r = OnlineDDLStatusQueued)"
    using assms(2) by (simp add: sqlSelectQueuedMigrations_def)
qed

lemma rows_scheduleNextMigration:
  assumes "distinct (map migration_uuid (schema_migrations e))"
  shows "schema_migrations (scheduleNextMigration e)
     = map (scheduled_row (schema_migrations e)) (schema_migrations e)"
proof -
  have "\<And>r. r \<in> set (schema_migrations e) \<Longrightarrow>
      scheduleLoop_row (sqlSelectQueuedMigrations (schema_migrations e)) False r
        = scheduled_row (schema_migrations e) r"
  proof -
    fix r assume r: "r \<in> set (schema_migrations e)"
    note q = queued_snapshot [OF assms r]
    show "scheduleLoop_row (sqlSelectQueuedMigrations (schema_migrations e)) False r
        = scheduled_row (schema_migrations e) r"
      unfolding scheduleLoop_row_scheduled [OF q(1) q(2)] q(3)
      by (simp add: scheduled_row_def)
  qed
  then show ?thesis
    by (simp add: scheduleNextMigration_def rows_scheduleLoop)
qed

lemma status_scheduled_row:
  "migration_status (scheduled_row rows r) =
     (if migration_status r = OnlineDDLStatusQueued \<and> \<not> postpone_launch r
         \<and> find schedulable (sqlSelectQueuedMigrations rows) = Some r
      then OnlineDDLStatusReady else migration_status r)"
  by (simp add: scheduled_row_def flagged_row_def)

lemma find_schedulable_Some:
  "find schedulable (sqlSelectQueuedMigrations rows) = Some x \<Longrightarrow>
   x \<in> set rows \<and> migration_status x = OnlineDDLStatusQueued \<and> schedulable x"
  by (auto simp: find_Some_iff sqlSelectQueuedMigrations_def dest: nth_mem)

lemma find_schedulable_None:
  "(find schedulable (sqlSelectQueuedMigrations rows) = None) =
     (\<not> (\<exists>r\<in>set rows. migration_status r = OnlineDDLStatusQueued \<and> schedulable r))"
  by (auto simp: find_None_iff sqlSelectQueuedMigrations_def)

lemma promoted_count:
  assumes "distinct (map migration_uuid rows)"
  shows "length (filter (\<lambda>r. migration_status (scheduled_row rows r) \<noteq> migration_status r) rows)
     = (if \<exists>r\<in>set rows. migration_status r = OnlineDDLStatusQueued \<and> schedulable r then 1 else 0)"
proof (cases "find schedulable (sqlSelectQueuedMigrations rows)")
  case None
  then have "\<And>r. migration_status (scheduled_row rows r) = migration_status r"
    by (simp add: status_scheduled_row)
  moreover have "\<not> (\<exists>r\<in>set rows. migration_status r = OnlineDDLStatusQueued \<and> schedulable r)"
    using None find_schedulable_None [of rows] by blast
  ultimately show ?thesis by simp
next
  case (Some x)
  note x = find_schedulable_Some [OF Some]
  have ex: "\<exists>r\<in>set rows. migration_status r = OnlineDDLStatusQueued \<and> schedulable r"
    using x by blast
  have dr: "distinct rows" using assms by (simp add: distinct_map)
  have "filter (\<lambda>r. migration_status (scheduled_row rows r) \<noteq> migration_status r) rows
      = filter (\<lambda>r. r = x) rows"
    using x by (intro filter_cong) (auto simp: status_scheduled_row Some schedulable_def)
  moreover have "length (filter (\<lambda>r. r = x) rows) = 1"
  proof -
    have "{r. r = x} \<inter> set rows = {x}" using x by auto
    then show ?thesis using distinct_length_filter [OF dr, of "\<lambda>r. r = x"] by simp
  qed
  ultimately show ?thesis using ex by simp
qed

lemma zip_map_filter_length:
  "length (filter (\<lambda>p. P (fst p) (snd p)) (zip xs (map f xs))) = length (filter (\<lambda>x. P x (f x)) xs)"
  by (induction xs) auto

text \<open>
  C8. On a table with one row per UUID, one run of the scheduler changes the status of
  exactly one row when some queued row has neither its launch postponed nor is both
  immediate and postponed for completion, and of no row otherwise. A row whose launch is
  postponed, and a row that is not queued, is left as it is. A queued immediate operation
  whose launch is not postponed and that was not marked is marked ready to complete. A row
  whose status changes was queued, becomes ready, has its launch not postponed and is not
  both immediate and postponed for completion.
\<close>

theorem scheduleNextMigration_promotes_first_eligible:
  assumes "distinct (map migration_uuid (schema_migrations e))"
  shows "length (filter (\<lambda>p. migration_status (snd p) \<noteq> migration_status (fst p))
                   (zip (schema_migrations e) (schema_migrations (scheduleNextMigration e))))
           = (if \<exists>r\<in>set (schema_migrations e).
                   migration_status r = OnlineDDLStatusQueued \<and> \<not> postpone_launch r
                   \<and> \<not> (is_immediate_operation r \<and> postpone_completion r)
              then 1 else 0) \<and>
         list_all2
           (\<lambda>r r'. (postpone_launch r \<longrightarrow> r' = r) \<and>
                    (migration_status r \<noteq> OnlineDDLStatusQueued \<longrightarrow> r' = r) \<and>
                    (migration_status r = OnlineDDLStatusQueued \<and> \<not> postpone_launch r
                       \<and> is_immediate_operation r \<and> \<not> ready_to_complete r
                     \<longrightarrow> ready_to_complete r') \<and>
                    (migration_status r' \<noteq> migration_status r \<longrightarrow>
                       migration_status r = OnlineDDLStatusQueued
                       \<and> migration_status r' = OnlineDDLStatusReady
                       \<and> \<not> postpone_launch r
                       \<and> \<not> (is_immediate_operation r \<and> postpone_completion r)) \<and>
                    r' = scheduled_row (schema_migrations e) r)
           (schema_migrations e) (schema_migrations (scheduleNextMigration e))"
proof -
  let ?rows = "schema_migrations e"
  have eq: "schema_migrations (scheduleNextMigration e) = map (scheduled_row ?rows) ?rows"
    using rows_scheduleNextMigration [OF assms] .
  have cnt: "length (filter (\<lambda>p. migration_status (snd p) \<noteq> migration_status (fst p))
                   (zip ?rows (schema_migrations (scheduleNextMigration e))))
           = (if \<exists>r\<in>set ?rows. migration_status r = OnlineDDLStatusQueued \<and> schedulable r
              then 1 else 0)"
    unfolding eq
    using zip_map_filter_length [of "\<lambda>r r'. migration_status r' \<noteq> migration_status r" ?rows
        "scheduled_row ?rows"] promoted_count [OF assms]
    by simp
  have pt: "\<And>r. r \<in> set ?rows \<Longrightarrow>
      (postpone_launch r \<longrightarrow> scheduled_row ?rows r = r) \<and>
      (migration_status r \<noteq> OnlineDDLStatusQueued \<longrightarrow> scheduled_row ?rows r = r) \<and>
      (migration_status r = OnlineDDLStatusQueued \<and> \<not> postpone_launch r
         \<and> is_immediate_operation r \<and> \<not> ready_to_complete r
       \<longrightarrow> ready_to_complete (scheduled_row ?rows r)) \<and>
      (migration_status (scheduled_row ?rows r) \<noteq> migration_status r \<longrightarrow>
         migration_status r = OnlineDDLStatusQueued
         \<and> migration_status (scheduled_row ?rows r) = OnlineDDLStatusReady
         \<and> \<not> postpone_launch r
         \<and> \<not> (is_immediate_operation r \<and> postpone_completion r))"
  proof -
    fix r assume "r \<in> set ?rows"
    have a: "postpone_launch r \<longrightarrow> scheduled_row ?rows r = r"
      and b: "migration_status r \<noteq> OnlineDDLStatusQueued \<longrightarrow> scheduled_row ?rows r = r"
      by (simp_all add: scheduled_row_def)
    have c: "migration_status r = OnlineDDLStatusQueued \<and> \<not> postpone_launch r
         \<and> is_immediate_operation r \<and> \<not> ready_to_complete r
       \<longrightarrow> ready_to_complete (scheduled_row ?rows r)"
      by (simp add: scheduled_row_def flagged_row_def)
    have d: "migration_status (scheduled_row ?rows r) \<noteq> migration_status r \<longrightarrow>
         migration_status r = OnlineDDLStatusQueued
         \<and> migration_status (scheduled_row ?rows r) = OnlineDDLStatusReady
         \<and> \<not> postpone_launch r
         \<and> \<not> (is_immediate_operation r \<and> postpone_completion r)"
      using find_schedulable_Some [of ?rows r]
      by (auto simp: status_scheduled_row schedulable_def split: if_splits)
    from a b c d show "(postpone_launch r \<longrightarrow> scheduled_row ?rows r = r) \<and>
      (migration_status r \<noteq> OnlineDDLStatusQueued \<longrightarrow> scheduled_row ?rows r = r) \<and>
      (migration_status r = OnlineDDLStatusQueued \<and> \<not> postpone_launch r
         \<and> is_immediate_operation r \<and> \<not> ready_to_complete r
       \<longrightarrow> ready_to_complete (scheduled_row ?rows r)) \<and>
      (migration_status (scheduled_row ?rows r) \<noteq> migration_status r \<longrightarrow>
         migration_status r = OnlineDDLStatusQueued
         \<and> migration_status (scheduled_row ?rows r) = OnlineDDLStatusReady
         \<and> \<not> postpone_launch r
         \<and> \<not> (is_immediate_operation r \<and> postpone_completion r))"
      by blast
  qed
  have la: "list_all2
           (\<lambda>r r'. (postpone_launch r \<longrightarrow> r' = r) \<and>
                    (migration_status r \<noteq> OnlineDDLStatusQueued \<longrightarrow> r' = r) \<and>
                    (migration_status r = OnlineDDLStatusQueued \<and> \<not> postpone_launch r
                       \<and> is_immediate_operation r \<and> \<not> ready_to_complete r
                     \<longrightarrow> ready_to_complete r') \<and>
                    (migration_status r' \<noteq> migration_status r \<longrightarrow>
                       migration_status r = OnlineDDLStatusQueued
                       \<and> migration_status r' = OnlineDDLStatusReady
                       \<and> \<not> postpone_launch r
                       \<and> \<not> (is_immediate_operation r \<and> postpone_completion r)) \<and>
                    r' = scheduled_row ?rows r)
           ?rows (schema_migrations (scheduleNextMigration e))"
    unfolding eq list_all2_map2 list_all2_same
    using pt by blast
  from cnt la show ?thesis by (simp add: schedulable_def)
qed

lemma list_all2_determined:
  "list_all2 P xs ys \<Longrightarrow> (\<And>x y. P x y \<Longrightarrow> y = f x) \<Longrightarrow> ys = map f xs"
  by (induction xs ys rule: list_all2_induct) auto

theorem scheduleNextMigration_promotes_first_eligible_witness:
  "distinct (map migration_uuid (schema_migrations (sampleExecutor queuedRows))) \<and>
   map migration_status (schema_migrations (scheduleNextMigration (sampleExecutor queuedRows)))
     = [OnlineDDLStatusQueued, OnlineDDLStatusQueued, OnlineDDLStatusReady, OnlineDDLStatusQueued] \<and>
   map ready_to_complete (schema_migrations (scheduleNextMigration (sampleExecutor queuedRows)))
     = [False, True, False, False] \<and>
   length (filter (\<lambda>p. migration_status (snd p) \<noteq> migration_status (fst p))
             (zip (schema_migrations (sampleExecutor queuedRows))
                  (schema_migrations (scheduleNextMigration (sampleExecutor queuedRows))))) = 1"
proof -
  have rows: "schema_migrations (sampleExecutor queuedRows) = queuedRows"
    by (simp add: sampleExecutor_def)
  have dist: "distinct (map migration_uuid (schema_migrations (sampleExecutor queuedRows)))"
    unfolding rows
    by (simp add: queuedRows_def sampleRow_def uuid1_def uuid2_def uuid3_def uuid4_def)
  note t = scheduleNextMigration_promotes_first_eligible [OF dist]
  have eq: "schema_migrations (scheduleNextMigration (sampleExecutor queuedRows))
      = map (scheduled_row queuedRows) queuedRows"
    by (rule list_all2_determined [OF t [THEN conjunct2, unfolded rows]]) simp
  have snap: "find schedulable (sqlSelectQueuedMigrations queuedRows)
      = Some (sampleRow uuid3 ''t3'' ''ctx'' OnlineDDLStatusQueued)"
    by (simp add: queuedRows_def sqlSelectQueuedMigrations_def schedulable_def sampleRow_def)
  have st: "map migration_status (map (scheduled_row queuedRows) queuedRows)
      = [OnlineDDLStatusQueued, OnlineDDLStatusQueued, OnlineDDLStatusReady, OnlineDDLStatusQueued]"
    unfolding status_scheduled_row map_map comp_def snap
    by (simp add: queuedRows_def sampleRow_def uuid1_def uuid2_def uuid3_def uuid4_def)
  have rc: "map ready_to_complete (map (scheduled_row queuedRows) queuedRows)
      = [False, True, False, False]"
    unfolding scheduled_row_def snap
    by (simp add: queuedRows_def sampleRow_def flagged_row_def uuid1_def uuid2_def uuid3_def uuid4_def)
  have ex: "\<exists>r\<in>set (schema_migrations (sampleExecutor queuedRows)).
      migration_status r = OnlineDDLStatusQueued \<and> \<not> postpone_launch r
      \<and> \<not> (is_immediate_operation r \<and> postpone_completion r)"
    unfolding rows by (simp add: queuedRows_def sampleRow_def)
  have cnt: "length (filter (\<lambda>p. migration_status (snd p) \<noteq> migration_status (fst p))
             (zip (schema_migrations (sampleExecutor queuedRows))
                  (schema_migrations (scheduleNextMigration (sampleExecutor queuedRows))))) = 1"
    using t [THEN conjunct1] ex by simp
  from dist st rc cnt show ?thesis unfolding eq by blast
qed

section \<open>Status changes of the operations\<close>


lemma status_change_allowed_refl [simp]: "status_change_allowed op s s"
  by (cases op) simp_all

















section \<open>The runner dispatches only without a conflict\<close>

text \<open>
  The migration \<open>getNonConflictingMigration\<close> returns conflicts, by the predicate of the
  code, with none of the owned running migrations.
\<close>

lemma validateInOrderMigration_passes:
  "snd (snd (validateInOrderMigration e d)) = None \<Longrightarrow> validateInOrderMigration e d = (e, False, None)"
  by (auto simp: validateInOrderMigration_def Let_def split: list.splits if_splits)

lemma getNonConflictingLoop_no_conflict:
  "getNonConflictingLoop z pending rows e = (e', Inr (Some d)) \<Longrightarrow>
   \<forall>r\<in>set (map snd (ownedRunningMigrations e')).
      \<not> proposedMigrationConflictsWithRunningMigration z r d"
proof (induction rows arbitrary: e)
  case Nil
  then show ?case by simp
next
  case (Cons row rows)
  show ?case
  proof (cases "readMigration e (migration_uuid row)")
    case (Inl err)
    with Cons.prems show ?thesis by simp
  next
    case (Inr p)
    obtain c mrow where p: "p = (c, mrow)" by (cases p)
    note rd = Inr [unfolded p]
    show ?thesis
    proof (cases "isAnyConflictingMigrationRunning z e c \<noteq> None")
      case True
      with Cons.prems rd have "getNonConflictingLoop z pending rows e = (e', Inr (Some d))"
        by simp
      then show ?thesis by (rule Cons.IH)
    next
      case False
      then have free: "\<forall>r\<in>set (map snd (ownedRunningMigrations e)).
          \<not> proposedMigrationConflictsWithRunningMigration z r c"
        by (simp add: isAnyConflictingMigrationRunning_def find_None_iff)
      define full where "full = (countOwnedRunningMigrations e \<ge> maxConcurrentOnlineDDLs e)"
      define behind where "behind = (is_immediate_operation mrow \<and> IsInOrderCompletion (Setting c)
                   \<and> (case pending of [] \<Rightarrow> False | p # _ \<Rightarrow> p \<noteq> UUID c))"
      define failed where "failed = (IsInOrderCompletion (Setting c)
                   \<and> snd (snd (validateInOrderMigration e c)) \<noteq> None)"
      have step: "getNonConflictingLoop z pending (row # rows) e =
          (if full then (e, Inr None)
           else if behind then getNonConflictingLoop z pending rows e
           else if failed
           then (fst (validateInOrderMigration e c),
                 Inl (the (snd (snd (validateInOrderMigration e c)))))
           else (e, Inr (Some c)))"
      proof (cases "snd (snd (validateInOrderMigration e c))")
        case None
        from validateInOrderMigration_passes [OF None] None show ?thesis
          unfolding full_def behind_def failed_def using rd False by (simp add: Let_def)
      next
        case (Some err)
        then show ?thesis
          unfolding full_def behind_def failed_def using rd False by (simp add: Let_def)
      qed
      note res = Cons.prems [unfolded step]
      show ?thesis
      proof (cases full)
        case True
        with res show ?thesis by simp
      next
        case room: False
        show ?thesis
        proof (cases behind)
          case True
          with res room have "getNonConflictingLoop z pending rows e = (e', Inr (Some d))"
            by simp
          then show ?thesis by (rule Cons.IH)
        next
          case head: False
          show ?thesis
          proof (cases failed)
            case True
            with res room head show ?thesis by simp
          next
            case False
            with res room head have "e' = e" "d = c" by simp_all
            with free show ?thesis by simp
          qed
        qed
      qed
    qed
  qed
qed

lemma getNonConflictingMigration_no_conflict:
  "getNonConflictingMigration z e = (e', Inr (Some d)) \<Longrightarrow>
   \<forall>r\<in>set (map snd (ownedRunningMigrations e')).
      \<not> proposedMigrationConflictsWithRunningMigration z r d"
  unfolding getNonConflictingMigration_def by (rule getNonConflictingLoop_no_conflict)

text \<open>
  On the executor that owns the copying ALTER with \<open>--allow-concurrent\<close>, the runner
  picks the ready ALTER without the flag.
\<close>

lemma plain_alter_dispatched_beside_copying_migration:
  "getNonConflictingMigration CreateDDLAction copyingExecutor
     = (copyingExecutor, Inr (Some readyPlainAlter))"
proof -
  let ?row2 = "sampleRow uuid2 ''t2'' ''ctx'' OnlineDDLStatusReady"
  have ne: "uuid1 \<noteq> uuid2" by (simp add: uuid1_def uuid2_def)
  have ready: "sqlSelectReadyMigrations (schema_migrations copyingExecutor) = [?row2]"
    by (simp add: copyingExecutor_def sampleExecutor_def sqlSelectReadyMigrations_def sampleRow_def)
  have u2: "migration_uuid ?row2 = uuid2" by (simp add: sampleRow_def)
  have rd: "readMigration copyingExecutor uuid2 = Inr (readyPlainAlter, ?row2)"
    using ne
    by (simp add: copyingExecutor_def sampleExecutor_def readMigration_def sqlSelectMigration_def
        readyPlainAlter_def sampleRow_def)
  have owned: "map snd (ownedRunningMigrations copyingExecutor) = [runningConcurrentAlter]"
    by (simp add: copyingExecutor_def)
  have nc: "\<not> proposedMigrationConflictsWithRunningMigration CreateDDLAction
      runningConcurrentAlter readyPlainAlter"
    by (simp add: proposedMigrationConflictsWithRunningMigration_def allowConcurrentMigration_def
        runningConcurrentAlter_def readyPlainAlter_def onlineDDL_of_row_def sampleRow_def
        plainSetting_def)
  have free: "isAnyConflictingMigrationRunning CreateDDLAction copyingExecutor readyPlainAlter = None"
    unfolding isAnyConflictingMigrationRunning_def owned using nc by simp
  have cap: "\<not> countOwnedRunningMigrations copyingExecutor \<ge> maxConcurrentOnlineDDLs copyingExecutor"
    by (simp add: countOwnedRunningMigrations_def copyingExecutor_def sampleExecutor_def)
  have io: "\<not> IsInOrderCompletion (Setting readyPlainAlter)"
    by (simp add: readyPlainAlter_def onlineDDL_of_row_def sampleRow_def plainSetting_def)
  show ?thesis
    unfolding getNonConflictingMigration_def ready
    using rd free cap io by (simp add: u2)
qed

end
